theory Spec2Isabelle
  imports Main "HOL-Library.Word" "HOL-Library.Multiset"
begin

unbundle bit_operations_syntax

section \<open>Managed objects and the thread's pending exception\<close>

text \<open>
  The C-API layer of the runtime (\<^verbatim>\<open>ext/Objects/abstract.cpp\<close>,
  \<^verbatim>\<open>ext/Python/getargs.cpp\<close>) manipulates managed objects through handles and
  reports errors by setting a pending exception on the current thread and returning a
  sentinel. Objects are modelled by a datatype, the thread by a record that is passed
  through every function, a nullable \<^verbatim>\<open>PyObject*\<close> by an option.
\<close>

type_synonym Py_ssize_t = "64 word"

datatype LayoutId =
    kSystemError | kTypeError | kValueError | kOverflowError | kBufferError | kMemoryError
  | kIndexError | kKeyError | kLookupError | kUnicodeEncodeError

text \<open>The type of a raised exception: a builtin layout, or a type object handed in by the caller.\<close>

datatype exc_type = Builtin LayoutId | Custom string

datatype SymbolId = dunder_len | dunder_index | dunder_getitem | dunder_bool | add

text \<open>
  The result of a method invocation through the runtime: \<^verbatim>\<open>Error::notFound()\<close>,
  \<^verbatim>\<open>Error::exception()\<close> (with the exception that the callee raised), or a value.
\<close>

datatype 'a invoke = ErrorNotFound | ErrorException exc_type string | Value 'a

text \<open>
  Managed objects. A memory view is backed by a bytes object or by a raw pointer. An
  \<open>Instance\<close> is an object of a user-defined type: its type name, the outcome of each of
  its nullary special methods, the items it yields by index (when it defines
  \<^verbatim>\<open>__getitem__\<close>), and the native function in its \<^verbatim>\<open>bf_getbuffer\<close> type slot
  (when its type has one).
\<close>

datatype mv_buffer = MvBytes "8 word list" | MvPointer nat

datatype pyobj =
    NoneObj
  | BoolObj bool
  | IntObj int
  | FloatObj "64 word"
  | ComplexObj "64 word" "64 word"
  | StrObj "nat list"
  | BytesObj "8 word list"
  | BytearrayObj "8 word list"
  | TupleObj "pyobj list"
  | ListObj "pyobj list"
  | DictObj "(pyobj \<times> pyobj) list"
  | MemoryViewObj mv_buffer nat
  | ArrayObj "8 word list"
  | Instance string "(SymbolId \<times> pyobj invoke) list" "pyobj list option" "nat option"

subsection \<open>Buffer views and native memory\<close>

text \<open>
  \<^verbatim>\<open>Py_buffer\<close> (\<^verbatim>\<open>capi/cpython-types.h\<close>). The pointers \<^verbatim>\<open>shape\<close>,
  \<^verbatim>\<open>strides\<close> and \<^verbatim>\<open>suboffsets\<close> are null, point to the view's own
  \<^verbatim>\<open>len\<close> or \<^verbatim>\<open>itemsize\<close> field (as \<^verbatim>\<open>PyBuffer_FillInfo\<close> sets them), or point
  to an array of the exporter's.
\<close>

datatype ssize_ptr = NullPtr | AddrOfLen | AddrOfItemsize | ArrayPtr "64 word list"

record Py_buffer =
  view_buf :: "nat option"
  view_obj :: "pyobj option"
  view_len :: Py_ssize_t
  view_itemsize :: Py_ssize_t
  view_readonly :: int
  view_ndim :: int
  view_format :: "string option"
  view_shape :: ssize_ptr
  view_strides :: ssize_ptr
  view_suboffsets :: ssize_ptr
  view_internal :: "nat option"

text \<open>
  A C \<^verbatim>\<open>double\<close>: the bits of a float object, or the double that an integer converts
  to. Floating-point arithmetic is not modelled.
\<close>

datatype cdouble = DoubleBits "64 word" | DoubleOfInt int

text \<open>
  A C \<^verbatim>\<open>float\<close>: the result of \<^verbatim>\<open>static_cast<float>\<close> on a double. The rounding of
  the narrowing conversion is not computed.
\<close>

datatype cfloat = FloatOfDouble cdouble

text \<open>What a native memory location holds: the storage the caller of a binding call points to.\<close>

datatype cell =
    Uninitialized
  | CharCell "8 word"
  | ShortCell "16 word"
  | IntCell "32 word"
  | LongCell "64 word"
  | FloatCell cfloat
  | DoubleCell cdouble
  | ComplexCell cdouble cdouble
  | ObjectCell "pyobj option"
  | PointerCell "nat option"
  | BytesCell "8 word list"
  | ViewCell Py_buffer

text \<open>
  The state reached through \<^verbatim>\<open>Thread::current()\<close>: the pending exception, the
  reference counts and caches of the handle table, the live blocks of the two native
  allocators (\<^verbatim>\<open>std::malloc\<close> and \<^verbatim>\<open>PyMem_NEW\<close>, with the address of the next
  block and the number of allocations that still succeed), and the native memory.
\<close>

record Thread =
  pending_exception :: "(exc_type \<times> string) option"
  refcnt :: "pyobj \<Rightarrow> int"
  handle_cache :: "pyobj \<Rightarrow> nat option"
  blocks :: "nat list"
  pymem_blocks :: "nat list"
  next_block :: nat
  mem_budget :: nat
  memory :: "nat \<Rightarrow> cell"

definition hasPendingException :: "Thread \<Rightarrow> bool" where
  "hasPendingException thread = (pending_exception thread \<noteq> None)"

definition raiseWithFmt :: "Thread \<Rightarrow> LayoutId \<Rightarrow> string \<Rightarrow> Thread" where
  "raiseWithFmt thread layout msg = thread\<lparr>pending_exception := Some (Builtin layout, msg)\<rparr>"

definition setPendingException :: "Thread \<Rightarrow> exc_type \<Rightarrow> string \<Rightarrow> Thread" where
  "setPendingException thread ty msg = thread\<lparr>pending_exception := Some (ty, msg)\<rparr>"

definition Py_INCREF :: "Thread \<Rightarrow> pyobj \<Rightarrow> Thread" where
  "Py_INCREF thread obj = thread\<lparr>refcnt := (refcnt thread)(obj := refcnt thread obj + 1)\<rparr>"

definition Py_DECREF :: "Thread \<Rightarrow> pyobj \<Rightarrow> Thread" where
  "Py_DECREF thread obj = thread\<lparr>refcnt := (refcnt thread)(obj := refcnt thread obj - 1)\<rparr>"

text \<open>The native allocators: a fresh block, or null when no allocation succeeds any more.\<close>

definition malloc :: "Thread \<Rightarrow> nat option \<times> Thread" where
  "malloc thread =
     (if mem_budget thread = 0 then (None, thread)
      else (Some (next_block thread),
            thread\<lparr>blocks := next_block thread # blocks thread,
                   next_block := Suc (next_block thread),
                   mem_budget := mem_budget thread - 1\<rparr>))"

definition free :: "Thread \<Rightarrow> nat \<Rightarrow> Thread" where
  "free thread ptr = thread\<lparr>blocks := remove1 ptr (blocks thread)\<rparr>"

definition PyMem_NEW :: "Thread \<Rightarrow> nat option \<times> Thread" where
  "PyMem_NEW thread =
     (if mem_budget thread = 0 then (None, thread)
      else (Some (next_block thread),
            thread\<lparr>pymem_blocks := next_block thread # pymem_blocks thread,
                   next_block := Suc (next_block thread),
                   mem_budget := mem_budget thread - 1\<rparr>))"

definition PyMem_FREE :: "Thread \<Rightarrow> nat \<Rightarrow> Thread" where
  "PyMem_FREE thread ptr = thread\<lparr>pymem_blocks := remove1 ptr (pymem_blocks thread)\<rparr>"

definition store :: "Thread \<Rightarrow> nat \<Rightarrow> cell \<Rightarrow> Thread" where
  "store thread ptr c = thread\<lparr>memory := (memory thread)(ptr := c)\<rparr>"

text \<open>A thread with nothing pending, every handle referenced once and an empty native heap.\<close>

definition thread0 :: Thread where
  "thread0 = \<lparr>pending_exception = None, refcnt = (\<lambda>_. 1), handle_cache = (\<lambda>_. None),
               blocks = [], pymem_blocks = [], next_block = 4096, mem_budget = 16, memory = (\<lambda>_. Uninitialized)\<rparr>"

text \<open>The name that the format directive \<^verbatim>\<open>%T\<close> prints for an object.\<close>

fun typeName :: "pyobj \<Rightarrow> string" where
  "typeName NoneObj = ''NoneType''"
| "typeName (BoolObj _) = ''bool''"
| "typeName (IntObj _) = ''int''"
| "typeName (FloatObj _) = ''float''"
| "typeName (StrObj _) = ''str''"
| "typeName (BytesObj _) = ''bytes''"
| "typeName (BytearrayObj _) = ''bytearray''"
| "typeName (TupleObj _) = ''tuple''"
| "typeName (ListObj _) = ''list''"
| "typeName (DictObj _) = ''dict''"
| "typeName (ComplexObj _ _) = ''complex''"
| "typeName (MemoryViewObj _ _) = ''memoryview''"
| "typeName (ArrayObj _) = ''array''"
| "typeName (Instance name _ _ _) = name"

subsection \<open>Printing\<close>

text \<open>The decimal digits that the format directives \<^verbatim>\<open>%d\<close> and \<^verbatim>\<open>%zd\<close> print.\<close>

fun digits :: "nat \<Rightarrow> string" where
  "digits n =
     (if n < 10 then [''0123456789'' ! n]
      else digits (n div 10) @ [''0123456789'' ! (n mod 10)])"

declare digits.simps [simp del]

definition decimal :: "int \<Rightarrow> string" where
  "decimal i = (if i < 0 then CHR ''-'' # digits (nat (- i)) else digits (nat i))"

subsection \<open>Integers of the runtime\<close>

text \<open>
  Modelled from the spec: the runtime's \<^verbatim>\<open>Int\<close> class (\<^verbatim>\<open>objects.h\<close>) is not
  part of the sources at hand. An integer is stored in two's complement as a sequence of
  64-bit digits, as few as its value needs; \<open>numDigits\<close> counts them, \<open>asWord\<close> reads
  the lowest digit, \<open>asWordSaturated\<close> clips to the range of a word
  ("a length whose magnitude does not fit the platform's index width").
\<close>

definition kMinWord :: int where "kMinWord = - (2 ^ 63)"
definition kMaxWord :: int where "kMaxWord = 2 ^ 63 - 1"

definition fitsWord :: "int \<Rightarrow> bool" where
  "fitsWord v = (kMinWord \<le> v \<and> v \<le> kMaxWord)"

function numDigits :: "int \<Rightarrow> nat" where
  "numDigits v = (if fitsWord v then 1 else Suc (numDigits (v div 2 ^ 64)))"
  by pat_completeness auto
termination
proof (relation "measure (\<lambda>v. nat \<bar>v\<bar>)")
  show "wf (measure (\<lambda>v::int. nat \<bar>v\<bar>))" by simp
next
  fix v :: int
  assume nf: "\<not> fitsWord v"
  then have "\<bar>v div 2 ^ 64\<bar> < \<bar>v\<bar>"
    by (simp add: fitsWord_def kMinWord_def kMaxWord_def) linarith
  then show "(v div 2 ^ 64, v) \<in> measure (\<lambda>v. nat \<bar>v\<bar>)" by simp
qed

declare numDigits.simps [simp del]

definition isNegative :: "int \<Rightarrow> bool" where
  "isNegative v = (v < 0)"

definition asWord :: "int \<Rightarrow> 64 word" where
  "asWord v = word_of_int v"

definition asWordSaturated :: "int \<Rightarrow> 64 word" where
  "asWordSaturated v =
     (if numDigits v = 1 then asWord v
      else if isNegative v then word_of_int kMinWord else word_of_int kMaxWord)"

text \<open>
  Modelled from the spec: \<^verbatim>\<open>Thread::invokeMethod1\<close> is the runtime's
  "invoke(receiver, methodSymbol, args...) -> result-or-error"; it looks the method up
  through the receiver's type and calls it. The builtin containers answer
  \<^verbatim>\<open>__len__\<close> with their size and the integers answer \<^verbatim>\<open>__index__\<close> with
  themselves; an instance of a user-defined type answers what its type defines. A callee
  that raises leaves its exception pending on the thread.
\<close>

fun lookupMethod :: "pyobj \<Rightarrow> SymbolId \<Rightarrow> pyobj invoke" where
  "lookupMethod (StrObj cs) dunder_len = Value (IntObj (int (length cs)))"
| "lookupMethod (BytesObj bs) dunder_len = Value (IntObj (int (length bs)))"
| "lookupMethod (BytearrayObj bs) dunder_len = Value (IntObj (int (length bs)))"
| "lookupMethod (TupleObj xs) dunder_len = Value (IntObj (int (length xs)))"
| "lookupMethod (ListObj xs) dunder_len = Value (IntObj (int (length xs)))"
| "lookupMethod (DictObj kvs) dunder_len = Value (IntObj (int (length kvs)))"
| "lookupMethod (MemoryViewObj buffer n) dunder_len = Value (IntObj (int n))"
| "lookupMethod (ArrayObj bs) dunder_len = Value (IntObj (int (length bs)))"
| "lookupMethod (IntObj v) dunder_index = Value (IntObj v)"
| "lookupMethod (BoolObj b) dunder_index = Value (IntObj (if b then 1 else 0))"
| "lookupMethod (Instance name methods items slot) symbol =
     (case map_of methods symbol of None \<Rightarrow> ErrorNotFound | Some r \<Rightarrow> r)"
| "lookupMethod _ _ = ErrorNotFound"

definition invokeMethod1 :: "Thread \<Rightarrow> pyobj \<Rightarrow> SymbolId \<Rightarrow> pyobj invoke \<times> Thread" where
  "invokeMethod1 thread receiver symbol =
     (case lookupMethod receiver symbol of
        ErrorException ty msg \<Rightarrow> (ErrorException ty msg, setPendingException thread ty msg)
      | r \<Rightarrow> (r, thread))"

text \<open>
  Modelled from the spec: \<^verbatim>\<open>intFromIndex\<close> (\<^verbatim>\<open>int-builtins\<close>) is not part of the
  sources at hand. It returns an integer unchanged and asks any other object for its
  \<^verbatim>\<open>__index__\<close>, which must answer with an integer.
\<close>

fun isInstanceOfInt :: "pyobj \<Rightarrow> bool" where
  "isInstanceOfInt (IntObj _) = True"
| "isInstanceOfInt (BoolObj _) = True"
| "isInstanceOfInt _ = False"

fun intUnderlying :: "pyobj \<Rightarrow> int" where
  "intUnderlying (IntObj v) = v"
| "intUnderlying (BoolObj b) = (if b then 1 else 0)"
| "intUnderlying _ = 0"

definition cannotInterpret :: "pyobj \<Rightarrow> string" where
  "cannotInterpret obj =
     [CHR 0x27] @ typeName obj @ [CHR 0x27] @ '' object cannot be interpreted as an integer''"

definition indexNonInt :: "pyobj \<Rightarrow> string" where
  "indexNonInt r = ''__index__ returned non-int (type '' @ typeName r @ '')''"

definition intFromIndex :: "Thread \<Rightarrow> pyobj \<Rightarrow> pyobj invoke \<times> Thread" where
  "intFromIndex thread obj =
     (if isInstanceOfInt obj then (Value obj, thread)
      else case invokeMethod1 thread obj dunder_index of
        (ErrorNotFound, thread1) \<Rightarrow>
          (ErrorException (Builtin kTypeError)
             (cannotInterpret obj),
           raiseWithFmt thread1 kTypeError
             (cannotInterpret obj))
      | (ErrorException ty msg, thread1) \<Rightarrow> (ErrorException ty msg, thread1)
      | (Value r, thread1) \<Rightarrow>
          (if isInstanceOfInt r then (Value r, thread1)
           else (ErrorException (Builtin kTypeError)
                   (indexNonInt r),
                 raiseWithFmt thread1 kTypeError
                   (indexNonInt r))))"


section \<open>The protocol dispatcher (\<^verbatim>\<open>ext/Objects/abstract.cpp\<close>)\<close>

definition nullError :: "Thread \<Rightarrow> Thread" where
  "nullError thread =
     (if \<not> hasPendingException thread
      then raiseWithFmt thread kSystemError ''null argument to internal routine''
      else thread)"

definition cannotFit :: "pyobj \<Rightarrow> string" where
  "cannotFit obj =
     ''cannot fit '' @ [CHR 0x27] @ typeName obj @ [CHR 0x27] @ '' into an index-sized integer''"

text \<open>\<^verbatim>\<open>ApiHandle::newReference\<close>: the handle of an object, with one more reference.\<close>

definition newReference :: "Thread \<Rightarrow> pyobj \<Rightarrow> pyobj option \<times> Thread" where
  "newReference thread obj = (Some obj, Py_INCREF thread obj)"

subsection \<open>Length queries\<close>

definition objectLength :: "Thread \<Rightarrow> pyobj option \<Rightarrow> Py_ssize_t \<times> Thread" where
  "objectLength thread pyobj =
     (case pyobj of
        None \<Rightarrow> (- 1, nullError thread)
      | Some obj \<Rightarrow>
          (case invokeMethod1 thread obj dunder_len of
             (ErrorNotFound, thread1) \<Rightarrow>
               (- 1, raiseWithFmt thread1 kTypeError ''object has no len()'')
           | (ErrorException ty msg, thread1) \<Rightarrow> (- 1, thread1)
           | (Value len_index, thread1) \<Rightarrow>
               (case intFromIndex thread1 len_index of
                  (Value len, thread2) \<Rightarrow>
                    (let index = intUnderlying len in
                     if isNegative index
                     then (- 1, raiseWithFmt thread2 kValueError ''__len__() should return >= 0'')
                     else if numDigits index > 1
                     then (- 1, raiseWithFmt thread2 kOverflowError (cannotFit len_index))
                     else (asWord index, thread2))
                | (_, thread2) \<Rightarrow> (- 1, thread2))))"

definition PyObject_Length :: "Thread \<Rightarrow> pyobj option \<Rightarrow> Py_ssize_t \<times> Thread" where
  "PyObject_Length thread pyobj = objectLength thread pyobj"

definition PyObject_Size :: "Thread \<Rightarrow> pyobj option \<Rightarrow> Py_ssize_t \<times> Thread" where
  "PyObject_Size thread pyobj = objectLength thread pyobj"

definition PySequence_Length :: "Thread \<Rightarrow> pyobj option \<Rightarrow> Py_ssize_t \<times> Thread" where
  "PySequence_Length thread pyobj = objectLength thread pyobj"

definition PySequence_Size :: "Thread \<Rightarrow> pyobj option \<Rightarrow> Py_ssize_t \<times> Thread" where
  "PySequence_Size thread pyobj = objectLength thread pyobj"

definition PyMapping_Length :: "Thread \<Rightarrow> pyobj option \<Rightarrow> Py_ssize_t \<times> Thread" where
  "PyMapping_Length thread pyobj = objectLength thread pyobj"

definition PyMapping_Size :: "Thread \<Rightarrow> pyobj option \<Rightarrow> Py_ssize_t \<times> Thread" where
  "PyMapping_Size thread pyobj = objectLength thread pyobj"

subsection \<open>Conversion of an index to a word\<close>

definition PyNumber_AsSsize_t ::
  "Thread \<Rightarrow> pyobj option \<Rightarrow> exc_type option \<Rightarrow> Py_ssize_t \<times> Thread" where
  "PyNumber_AsSsize_t thread obj overflow_err =
     (case obj of
        None \<Rightarrow> (- 1, nullError thread)
      | Some index \<Rightarrow>
          (case intFromIndex thread index of
             (Value num, thread1) \<Rightarrow>
               (let number = intUnderlying num in
                case overflow_err of
                  None \<Rightarrow> (asWordSaturated number, thread1)
                | Some err \<Rightarrow>
                    if numDigits number = 1 then (asWordSaturated number, thread1)
                    else (- 1, setPendingException thread1 err (cannotFit index)))
           | (_, thread1) \<Rightarrow> (- 1, thread1)))"


subsection \<open>External collaborators\<close>

text \<open>
  What the dispatcher consumes as a black box: the runtime's
  "invokeFunction(moduleSymbol, nameSymbol, args...) -> result-or-error" for the functions
  of module \<^verbatim>\<open>operator\<close>; the C strings that the runtime caches in a handle for a
  bytes or bytearray object (null when the copy cannot be allocated) and for the UTF-8
  and the wide-character form of a string; the native functions in the buffer slots of
  extension types, which fill or release a view as they see fit; the converter
  functions that the caller of a binding call passes for the code \<^verbatim>\<open>O&\<close>; and
  \<^verbatim>\<open>Runtime::isSequence\<close>, the runtime's decision whether an object is a sequence
  (not part of the sources at hand).
\<close>

record Env =
  invokeFunction2 :: "SymbolId \<Rightarrow> Thread \<Rightarrow> pyobj \<Rightarrow> pyobj \<Rightarrow> pyobj invoke \<times> Thread"
  bytesAsString :: "pyobj \<Rightarrow> nat option"
  bytearrayAsString :: "pyobj \<Rightarrow> nat option"
  bf_getbuffer ::
    "nat \<Rightarrow> (Thread \<Rightarrow> pyobj \<Rightarrow> Py_buffer option \<Rightarrow> int \<Rightarrow> int \<times> Py_buffer option \<times> Thread) option"
  bf_releasebuffer :: "nat \<Rightarrow> (Thread \<Rightarrow> pyobj \<Rightarrow> Py_buffer \<Rightarrow> Py_buffer \<times> Thread) option"
  strAsUTF8 :: "pyobj \<Rightarrow> nat"
  strAsUnicode :: "pyobj \<Rightarrow> nat"
  converters :: "nat \<Rightarrow> Thread \<Rightarrow> pyobj option \<Rightarrow> nat option \<Rightarrow> int \<times> Thread"
  isSequence :: "pyobj \<Rightarrow> bool"

subsection \<open>Buffer protocol\<close>

text \<open>
  Modelled from the spec: the request flags of \<^verbatim>\<open>cpython-data.h\<close> (not part of the
  sources at hand), "flag bits for simple/writable/format/strided/contiguous requests",
  with the values of the C-API: a request for strides includes the request for a shape.
\<close>

definition PyBUF_SIMPLE :: int where "PyBUF_SIMPLE = 0"
definition PyBUF_WRITABLE :: int where "PyBUF_WRITABLE = 1"
definition PyBUF_FORMAT :: int where "PyBUF_FORMAT = 4"
definition PyBUF_ND :: int where "PyBUF_ND = 8"
definition PyBUF_STRIDES :: int where "PyBUF_STRIDES = 16 OR PyBUF_ND"

definition raiseBufferError :: "Thread \<Rightarrow> pyobj \<Rightarrow> Thread" where
  "raiseBufferError thread obj =
     raiseWithFmt thread kTypeError
       (''a bytes-like object is required, not '' @ [CHR 0x27] @ typeName obj @ [CHR 0x27])"

definition PyBuffer_FillInfo ::
  "Thread \<Rightarrow> Py_buffer option \<Rightarrow> pyobj option \<Rightarrow> nat option \<Rightarrow> Py_ssize_t \<Rightarrow> int \<Rightarrow> int
     \<Rightarrow> int \<times> Py_buffer option \<times> Thread" where
  "PyBuffer_FillInfo thread view exporter buf len readonly flags =
     (case view of
        None \<Rightarrow>
          (- 1, None,
           raiseWithFmt thread kBufferError ''PyBuffer_FillInfo: view==NULL argument is obsolete'')
      | Some v \<Rightarrow>
          if (flags AND PyBUF_WRITABLE) = PyBUF_WRITABLE \<and> readonly = 1
          then (- 1, view, raiseWithFmt thread kBufferError ''Object is not writable.'')
          else
            (0,
             Some (v\<lparr>view_obj := exporter, view_buf := buf, view_len := len,
                     view_readonly := readonly, view_itemsize := 1,
                     view_format :=
                       (if (flags AND PyBUF_FORMAT) = PyBUF_FORMAT then Some ''B'' else None),
                     view_ndim := 1,
                     view_shape := (if (flags AND PyBUF_ND) = PyBUF_ND then AddrOfLen else NullPtr),
                     view_strides :=
                       (if (flags AND PyBUF_STRIDES) = PyBUF_STRIDES then AddrOfItemsize
                        else NullPtr),
                     view_suboffsets := NullPtr, view_internal := None\<rparr>),
             (case exporter of None \<Rightarrow> thread | Some e \<Rightarrow> Py_INCREF thread e)))"

text \<open>
  Reading element \<open>d\<close> through one of the view's pointers. A read through a null
  pointer or past the end of what the pointer points to has no defined result.
\<close>

definition read_ssize :: "Py_buffer \<Rightarrow> ssize_ptr \<Rightarrow> nat \<Rightarrow> Py_ssize_t option" where
  "read_ssize view p d =
     (case p of
        NullPtr \<Rightarrow> None
      | AddrOfLen \<Rightarrow> if d = 0 then Some (view_len view) else None
      | AddrOfItemsize \<Rightarrow> if d = 0 then Some (view_itemsize view) else None
      | ArrayPtr xs \<Rightarrow> if d < length xs then Some (xs ! d) else None)"

text \<open>The loop of the row-major check, from dimension \<open>d - 1\<close> down to 0.\<close>

fun rowMajorLoop :: "Py_buffer \<Rightarrow> nat \<Rightarrow> Py_ssize_t \<Rightarrow> bool option" where
  "rowMajorLoop view 0 dim_stride = Some True"
| "rowMajorLoop view (Suc d) dim_stride =
     (case read_ssize view (view_shape view) d of
        None \<Rightarrow> None
      | Some dim_size \<Rightarrow>
          if 1 <s dim_size
          then (case read_ssize view (view_strides view) d of
                  None \<Rightarrow> None
                | Some stride \<Rightarrow>
                    if stride \<noteq> dim_stride then Some False
                    else rowMajorLoop view d (dim_stride * dim_size))
          else rowMajorLoop view d (dim_stride * dim_size))"

definition isContiguousWithRowMajorOrder :: "Py_buffer \<Rightarrow> bool option" where
  "isContiguousWithRowMajorOrder view =
     (if view_suboffsets view \<noteq> NullPtr then Some False
      else if view_strides view = NullPtr then Some True
      else if view_len view = 0 then Some True
      else rowMajorLoop view (nat (view_ndim view)) (view_itemsize view))"

text \<open>The loops of the column-major check, from dimension \<open>d\<close> up, \<open>k\<close> dimensions to go.\<close>

fun nonemptyDimLoop :: "Py_buffer \<Rightarrow> nat \<Rightarrow> nat \<Rightarrow> bool \<Rightarrow> bool option" where
  "nonemptyDimLoop view d 0 had_nonempty_dim = Some True"
| "nonemptyDimLoop view d (Suc k) had_nonempty_dim =
     (case read_ssize view (view_shape view) d of
        None \<Rightarrow> None
      | Some dim_size \<Rightarrow>
          if 1 <s dim_size
          then (if had_nonempty_dim then Some False else nonemptyDimLoop view (Suc d) k True)
          else nonemptyDimLoop view (Suc d) k had_nonempty_dim)"

fun columnMajorLoop :: "Py_buffer \<Rightarrow> nat \<Rightarrow> nat \<Rightarrow> Py_ssize_t \<Rightarrow> bool option" where
  "columnMajorLoop view d 0 dim_stride = Some True"
| "columnMajorLoop view d (Suc k) dim_stride =
     (case read_ssize view (view_shape view) d of
        None \<Rightarrow> None
      | Some dim_size \<Rightarrow>
          if 1 <s dim_size
          then (case read_ssize view (view_strides view) d of
                  None \<Rightarrow> None
                | Some stride \<Rightarrow>
                    if stride \<noteq> dim_stride then Some False
                    else columnMajorLoop view (Suc d) k (dim_stride * dim_size))
          else columnMajorLoop view (Suc d) k (dim_stride * dim_size))"

definition isContiguousWithColumnMajorOrder :: "Py_buffer \<Rightarrow> bool option" where
  "isContiguousWithColumnMajorOrder view =
     (if view_suboffsets view \<noteq> NullPtr then Some False
      else if view_len view = 0 then Some True
      else if view_strides view = NullPtr
      then (if view_ndim view \<le> 1 then Some True
            else nonemptyDimLoop view 0 (nat (view_ndim view)) False)
      else columnMajorLoop view 0 (nat (view_ndim view)) (view_itemsize view))"

definition PyBuffer_IsContiguous :: "Py_buffer \<Rightarrow> char \<Rightarrow> int option" where
  "PyBuffer_IsContiguous view order =
     (if order = CHR ''C'' then map_option of_bool (isContiguousWithRowMajorOrder view)
      else if order = CHR ''F'' then map_option of_bool (isContiguousWithColumnMajorOrder view)
      else if order = CHR ''A''
      then (case isContiguousWithRowMajorOrder view of
              None \<Rightarrow> None
            | Some True \<Rightarrow> Some 1
            | Some False \<Rightarrow> map_option of_bool (isContiguousWithColumnMajorOrder view))
      else Some 0)"

fun typeSlots :: "pyobj \<Rightarrow> nat option" where
  "typeSlots (Instance name methods items slots) = slots"
| "typeSlots _ = None"

definition PyBuffer_Release :: "Env \<Rightarrow> Thread \<Rightarrow> Py_buffer \<Rightarrow> Py_buffer \<times> Thread" where
  "PyBuffer_Release env thread view =
     (case view_obj view of
        None \<Rightarrow> (view, thread)
      | Some pyobj \<Rightarrow>
          (case (case typeSlots pyobj of
                   None \<Rightarrow> (view, thread)
                 | Some slots \<Rightarrow>
                     (case bf_releasebuffer env slots of
                        None \<Rightarrow> (view, thread)
                      | Some releasebuffer_fn \<Rightarrow> releasebuffer_fn thread pyobj view)) of
             (view1, thread1) \<Rightarrow> (view1\<lparr>view_obj := None\<rparr>, Py_DECREF thread1 pyobj)))"

definition PyObject_GetBuffer ::
  "Env \<Rightarrow> Thread \<Rightarrow> pyobj \<Rightarrow> Py_buffer option \<Rightarrow> int \<Rightarrow> int \<times> Py_buffer option \<times> Thread" where
  "PyObject_GetBuffer env thread obj view flags =
     (case obj of
        BytesObj bs \<Rightarrow>
          (case bytesAsString env obj of
             None \<Rightarrow> (- 1, view, thread)
           | Some buffer \<Rightarrow>
               PyBuffer_FillInfo thread view (Some obj) (Some buffer) (of_nat (length bs)) 1 flags)
      | BytearrayObj bs \<Rightarrow>
          (case bytearrayAsString env obj of
             None \<Rightarrow> (- 1, view, thread)
           | Some buffer \<Rightarrow>
               PyBuffer_FillInfo thread view (Some obj) (Some buffer) (of_nat (length bs)) 1 flags)
      | MemoryViewObj buffer n \<Rightarrow>
          (case buffer of
             MvBytes bs \<Rightarrow>
               (case bytesAsString env obj of
                  None \<Rightarrow> (- 1, view, thread)
                | Some underlying_buffer \<Rightarrow>
                    PyBuffer_FillInfo thread view (Some obj) (Some underlying_buffer) (of_nat n) 1
                      flags)
           | MvPointer cptr \<Rightarrow>
               PyBuffer_FillInfo thread view (Some obj) (Some cptr) (of_nat n) 1 flags)
      | ArrayObj bs \<Rightarrow>
          (let thread1 = (case handle_cache thread obj of
                            None \<Rightarrow> thread
                          | Some cache \<Rightarrow> free thread cache)
           in case malloc thread1 of
                (None, thread2) \<Rightarrow> (- 1, view, thread2)
              | (Some buffer, thread2) \<Rightarrow>
                  PyBuffer_FillInfo
                    ((store thread2 buffer (BytesCell bs))
                       \<lparr>handle_cache := (handle_cache thread2)(obj := Some buffer)\<rparr>)
                    view (Some obj) (Some buffer) (of_nat (length bs)) 1 flags)
      | _ \<Rightarrow>
          (case typeSlots obj of
             None \<Rightarrow> (- 1, view, raiseBufferError thread obj)
           | Some slots \<Rightarrow>
               (case bf_getbuffer env slots of
                  None \<Rightarrow> (- 1, view, raiseBufferError thread obj)
                | Some slot \<Rightarrow> slot thread obj view flags)))"

subsection \<open>Number protocol: addition\<close>

text \<open>
  Modelled from the spec: an "immediate small integer packed directly into a word"
  (\<^verbatim>\<open>SmallInt\<close> of \<^verbatim>\<open>objects.h\<close>, not part of the sources at hand) keeps one bit
  of the word for its tag, so its value has 63 bits. \<^verbatim>\<open>Runtime::newInt\<close> makes the
  integer object of a word.
\<close>

definition kSmallIntMinValue :: int where "kSmallIntMinValue = - (2 ^ 62)"
definition kSmallIntMaxValue :: int where "kSmallIntMaxValue = 2 ^ 62 - 1"

fun isSmallInt :: "pyobj \<Rightarrow> bool" where
  "isSmallInt (IntObj v) = (kSmallIntMinValue \<le> v \<and> v \<le> kSmallIntMaxValue)"
| "isSmallInt _ = False"

fun SmallInt_value :: "pyobj \<Rightarrow> 64 word" where
  "SmallInt_value (IntObj v) = word_of_int v"
| "SmallInt_value _ = 0"

definition newInt :: "64 word \<Rightarrow> pyobj" where
  "newInt w = IntObj (sint w)"

definition doBinaryOp ::
  "Env \<Rightarrow> SymbolId \<Rightarrow> Thread \<Rightarrow> pyobj \<Rightarrow> pyobj \<Rightarrow> pyobj option \<times> Thread" where
  "doBinaryOp env op thread left right =
     (case invokeFunction2 env op thread left right of
        (Value result, thread1) \<Rightarrow> newReference thread1 result
      | (_, thread1) \<Rightarrow> (None, thread1))"

definition smallIntAdd :: "Thread \<Rightarrow> pyobj \<Rightarrow> pyobj \<Rightarrow> pyobj option \<times> Thread" where
  "smallIntAdd thread left right =
     (if isSmallInt left \<and> isSmallInt right
      then newReference thread (newInt (SmallInt_value left + SmallInt_value right))
      else (None, thread))"

definition PyNumber_Add :: "Env \<Rightarrow> Thread \<Rightarrow> pyobj \<Rightarrow> pyobj \<Rightarrow> pyobj option \<times> Thread" where
  "PyNumber_Add env thread left right =
     (case smallIntAdd thread left right of
        (Some result, thread1) \<Rightarrow> (Some result, thread1)
      | (None, thread1) \<Rightarrow> doBinaryOp env add thread1 left right)"

subsection \<open>Sequence protocol\<close>

text \<open>
  Modelled from the spec: the call of \<^verbatim>\<open>__getitem__\<close> through
  \<^verbatim>\<open>Thread::invokeMethod2\<close> is the runtime's (not part of the sources at hand). An
  index below zero counts from the end, and an index out of range raises an IndexError.
  \<open>definesGetitem\<close> holds of the objects, dicts apart, whose type defines
  \<^verbatim>\<open>__getitem__\<close>: strings, bytes objects, tuples and lists are among them.
\<close>

fun definesGetitem :: "pyobj \<Rightarrow> bool" where
  "definesGetitem (StrObj _) = True"
| "definesGetitem (BytesObj _) = True"
| "definesGetitem (BytearrayObj _) = True"
| "definesGetitem (TupleObj _) = True"
| "definesGetitem (ListObj _) = True"
| "definesGetitem (MemoryViewObj _ _) = True"
| "definesGetitem (ArrayObj _) = True"
| "definesGetitem (Instance name methods items slots) = (items \<noteq> None)"
| "definesGetitem _ = False"

definition item_at :: "'a list \<Rightarrow> int \<Rightarrow> ('a \<Rightarrow> pyobj) \<Rightarrow> pyobj invoke" where
  "item_at xs idx f =
     (let i = (if idx < 0 then idx + int (length xs) else idx) in
      if 0 \<le> i \<and> i < int (length xs) then Value (f (xs ! nat i))
      else ErrorException (Builtin kIndexError) ''index out of range'')"

fun getitem :: "Thread \<Rightarrow> pyobj \<Rightarrow> int \<Rightarrow> pyobj invoke" where
  "getitem thread (StrObj cs) idx = item_at cs idx (\<lambda>c. StrObj [c])"
| "getitem thread (BytesObj bs) idx = item_at bs idx (\<lambda>x. IntObj (uint x))"
| "getitem thread (BytearrayObj bs) idx = item_at bs idx (\<lambda>x. IntObj (uint x))"
| "getitem thread (ArrayObj bs) idx = item_at bs idx (\<lambda>x. IntObj (uint x))"
| "getitem thread (TupleObj xs) idx = item_at xs idx (\<lambda>x. x)"
| "getitem thread (ListObj xs) idx = item_at xs idx (\<lambda>x. x)"
| "getitem thread (MemoryViewObj (MvBytes bs) n) idx = item_at (take n bs) idx (\<lambda>x. IntObj (uint x))"
| "getitem thread (MemoryViewObj (MvPointer cptr) n) idx =
     (case memory thread cptr of
        BytesCell bs \<Rightarrow> item_at (take n bs) idx (\<lambda>x. IntObj (uint x))
      | _ \<Rightarrow> item_at [] idx (\<lambda>x. IntObj (uint (x :: 8 word))))"
| "getitem thread (DictObj kvs) idx =
     (case map_of kvs (IntObj idx) of
        None \<Rightarrow> ErrorException (Builtin kKeyError) (decimal idx)
      | Some v \<Rightarrow> Value v)"
| "getitem thread (Instance name methods items slots) idx =
     (case items of None \<Rightarrow> ErrorNotFound | Some xs \<Rightarrow> item_at xs idx (\<lambda>x. x))"
| "getitem thread _ idx = ErrorNotFound"

definition invokeMethod2_getitem :: "Thread \<Rightarrow> pyobj \<Rightarrow> int \<Rightarrow> pyobj invoke \<times> Thread" where
  "invokeMethod2_getitem thread receiver idx =
     (case getitem thread receiver idx of
        ErrorException ty msg \<Rightarrow> (ErrorException ty msg, setPendingException thread ty msg)
      | r \<Rightarrow> (r, thread))"

definition PySequence_Check :: "Env \<Rightarrow> pyobj \<Rightarrow> bool" where
  "PySequence_Check env py_obj = isSequence env py_obj"

definition getitem_dispatch :: "Thread \<Rightarrow> pyobj \<Rightarrow> int \<Rightarrow> pyobj option \<times> Thread" where
  "getitem_dispatch thread seq_obj idx =
     (case invokeMethod2_getitem thread seq_obj idx of
        (ErrorNotFound, thread1) \<Rightarrow>
          (None, raiseWithFmt thread1 kTypeError ''could not call __getitem__'')
      | (ErrorException ty msg, thread1) \<Rightarrow> (None, thread1)
      | (Value result, thread1) \<Rightarrow> newReference thread1 result)"

definition PySequence_GetItem :: "Thread \<Rightarrow> pyobj option \<Rightarrow> int \<Rightarrow> pyobj option \<times> Thread" where
  "PySequence_GetItem thread seq idx =
     (case seq of
        None \<Rightarrow> (None, nullError thread)
      | Some (TupleObj xs) \<Rightarrow>
          if 0 \<le> idx \<and> idx < int (length xs) then newReference thread (xs ! nat idx)
          else getitem_dispatch thread (TupleObj xs) idx
      | Some (ListObj xs) \<Rightarrow>
          if 0 \<le> idx \<and> idx < int (length xs) then newReference thread (xs ! nat idx)
          else getitem_dispatch thread (ListObj xs) idx
      | Some seq_obj \<Rightarrow> getitem_dispatch thread seq_obj idx)"

subsection \<open>Number protocol: index\<close>

definition PyNumber_Index :: "Thread \<Rightarrow> pyobj option \<Rightarrow> pyobj option \<times> Thread" where
  "PyNumber_Index thread item =
     (case item of
        None \<Rightarrow> (None, nullError thread)
      | Some obj \<Rightarrow>
          (case intFromIndex thread obj of
             (Value index, thread1) \<Rightarrow> newReference thread1 index
           | (_, thread1) \<Rightarrow> (None, thread1)))"

text \<open>
  An environment for evaluation: \<^verbatim>\<open>operator.add\<close> adds two integers and rejects other
  operands, the cached C strings sit at fixed addresses, no extension type is loaded,
  every converter function rejects its argument, and a sequence is an object, not a dict,
  whose type defines \<^verbatim>\<open>__getitem__\<close> (what the C-API documents for
  \<^verbatim>\<open>PySequence_Check\<close>).
\<close>

definition env0 :: Env where
  "env0 =
     \<lparr>invokeFunction2 =
        (\<lambda>op thread left right.
           case (left, right) of
             (IntObj a, IntObj b) \<Rightarrow> (Value (IntObj (a + b)), thread)
           | _ \<Rightarrow>
               (ErrorException (Builtin kTypeError) ''unsupported operand type(s)'',
                raiseWithFmt thread kTypeError ''unsupported operand type(s)'')),
      bytesAsString = (\<lambda>obj. Some 1024),
      bytearrayAsString = (\<lambda>obj. Some 2048),
      bf_getbuffer = (\<lambda>slots. None),
      bf_releasebuffer = (\<lambda>slots. None),
      strAsUTF8 = (\<lambda>obj. 3072),
      strAsUnicode = (\<lambda>obj. 3584),
      converters = (\<lambda>c thread arg addr. (0, thread)),
      isSequence = definesGetitem\<rparr>"

text \<open>A view before it is filled.\<close>

definition view0 :: Py_buffer where
  "view0 = \<lparr>view_buf = None, view_obj = None, view_len = 0, view_itemsize = 0, view_readonly = 0,
     view_ndim = 0, view_format = None, view_shape = NullPtr, view_strides = NullPtr,
     view_suboffsets = NullPtr, view_internal = None\<rparr>"

section \<open>The argument binding (\<^verbatim>\<open>ext/Python/getargs.cpp\<close>)\<close>

subsection \<open>Outcomes, variadic arguments and the cleanup list\<close>

text \<open>
  A call returns, or the process is aborted with a diagnostic (\<^verbatim>\<open>Py_FatalError\<close>,
  \<^verbatim>\<open>UNIMPLEMENTED\<close>), or the behaviour is undefined (a variadic argument that is
  missing or of another kind than the format says, a write through a null pointer or
  past the end of an array).
\<close>

datatype 'a run = Returns 'a | Fatal string | Undefined

definition FLAG_COMPAT :: int where "FLAG_COMPAT = 1"
definition FLAG_SIZE_T :: int where "FLAG_SIZE_T = 2"
definition STATIC_FREELIST_ENTRIES :: nat where "STATIC_FREELIST_ENTRIES = 8"
definition INT_MAX :: int where "INT_MAX = 2 ^ 31 - 1"
definition INT_MIN :: int where "INT_MIN = - (2 ^ 31)"

text \<open>
  Modelled from the spec: a converter "reports that it allocated a resource needing later
  release" by returning \<^verbatim>\<open>Py_CLEANUP_SUPPORTED\<close>, a constant of
  \<^verbatim>\<open>cpython-data.h\<close> (not part of the sources at hand), here with the value of the C-API.
\<close>

definition Py_CLEANUP_SUPPORTED :: int where "Py_CLEANUP_SUPPORTED = 131072"

text \<open>
  The variadic arguments of a binding call: pointers to the caller's storage (possibly null),
  C strings (the encoding of the code \<^verbatim>\<open>e\<close>), type objects (by name, for
  \<^verbatim>\<open>O!\<close>) and converter functions (for \<^verbatim>\<open>O&\<close>).
\<close>

datatype va_arg = VaPointer "nat option" | VaString "string option" | VaType string | VaConverter nat

datatype destr_t = cleanup_ptr | cleanup_buffer | converter nat

type_synonym freelistentry_t = "nat option \<times> destr_t"

text \<open>
  The state of one binding call: the thread, the variadic arguments not yet consumed, the
  cleanup list (\<^verbatim>\<open>freelist_t\<close>: the entries below \<^verbatim>\<open>first_available\<close>, the number
  of entries that the array holds, and the array's block when it is not the static
  array), the message buffer, and the calls of destructors made so far.
\<close>

record binding =
  cur_thread :: Thread
  p_va :: "va_arg list"
  freelist_entries :: "freelistentry_t list"
  freelist_capacity :: nat
  entries_malloced :: "nat option"
  msgbuf :: string
  destructor_calls :: "(destr_t \<times> nat option) list"

definition first_available :: "binding \<Rightarrow> nat" where
  "first_available b = length (freelist_entries b)"

definition va_arg_pointer :: "binding \<Rightarrow> (nat option \<times> binding) option" where
  "va_arg_pointer b =
     (case p_va b of VaPointer p # rest \<Rightarrow> Some (p, b\<lparr>p_va := rest\<rparr>) | _ \<Rightarrow> None)"

definition va_arg_string :: "binding \<Rightarrow> (string option \<times> binding) option" where
  "va_arg_string b =
     (case p_va b of VaString s # rest \<Rightarrow> Some (s, b\<lparr>p_va := rest\<rparr>) | _ \<Rightarrow> None)"

definition va_arg_type :: "binding \<Rightarrow> (string \<times> binding) option" where
  "va_arg_type b =
     (case p_va b of VaType t # rest \<Rightarrow> Some (t, b\<lparr>p_va := rest\<rparr>) | _ \<Rightarrow> None)"

definition va_arg_converter :: "binding \<Rightarrow> (nat \<times> binding) option" where
  "va_arg_converter b =
     (case p_va b of VaConverter c # rest \<Rightarrow> Some (c, b\<lparr>p_va := rest\<rparr>) | _ \<Rightarrow> None)"

text \<open>The assignment \<^verbatim>\<open>*p = c\<close>.\<close>

definition assign :: "binding \<Rightarrow> nat option \<Rightarrow> cell \<Rightarrow> binding option" where
  "assign b p c =
     (case p of None \<Rightarrow> None | Some a \<Rightarrow> Some (b\<lparr>cur_thread := store (cur_thread b) a c\<rparr>))"

definition raise :: "binding \<Rightarrow> LayoutId \<Rightarrow> string \<Rightarrow> binding" where
  "raise b layout msg = b\<lparr>cur_thread := raiseWithFmt (cur_thread b) layout msg\<rparr>"

definition PyErr_Occurred :: "binding \<Rightarrow> bool" where
  "PyErr_Occurred b = hasPendingException (cur_thread b)"

subsection \<open>Handle cleanup of allocated memory in case of exception\<close>

definition addcleanup :: "nat option \<Rightarrow> binding \<Rightarrow> destr_t \<Rightarrow> (int \<times> binding) run" where
  "addcleanup ptr b destructor =
     (if first_available b < freelist_capacity b
      then Returns (0, b\<lparr>freelist_entries := freelist_entries b @ [(ptr, destructor)]\<rparr>)
      else Undefined)"

text \<open>
  One call \<^verbatim>\<open>destructor(nullptr, item)\<close>. \<^verbatim>\<open>cleanup_ptr\<close> frees a block;
  \<^verbatim>\<open>cleanup_buffer\<close> releases the view that the item points to; a converter is called
  with a null object.
\<close>

definition call_destructor :: "Env \<Rightarrow> binding \<Rightarrow> freelistentry_t \<Rightarrow> binding run" where
  "call_destructor env b entry =
     (let b1 = b\<lparr>destructor_calls := destructor_calls b @ [(snd entry, fst entry)]\<rparr> in
      case snd entry of
        cleanup_ptr \<Rightarrow>
          (case fst entry of
             None \<Rightarrow> Returns b1
           | Some ptr \<Rightarrow> Returns (b1\<lparr>cur_thread := PyMem_FREE (cur_thread b1) ptr\<rparr>))
      | cleanup_buffer \<Rightarrow>
          (case fst entry of
             None \<Rightarrow> Returns b1
           | Some buf \<Rightarrow>
               (case memory (cur_thread b1) buf of
                  ViewCell view \<Rightarrow>
                    (case PyBuffer_Release env (cur_thread b1) view of
                       (view1, thread1) \<Rightarrow>
                         Returns (b1\<lparr>cur_thread := store thread1 buf (ViewCell view1)\<rparr>))
                | _ \<Rightarrow> Undefined))
      | converter c \<Rightarrow>
          (case converters env c (cur_thread b1) None (fst entry) of
             (res, thread1) \<Rightarrow> Returns (b1\<lparr>cur_thread := thread1\<rparr>)))"

text \<open>The loop of \<^verbatim>\<open>cleanreturn\<close>, over the entries from \<open>index\<close> on.\<close>

fun call_destructors :: "Env \<Rightarrow> binding \<Rightarrow> freelistentry_t list \<Rightarrow> binding run" where
  "call_destructors env b [] = Returns b"
| "call_destructors env b (entry # rest) =
     (case call_destructor env b entry of
        Returns b1 \<Rightarrow> call_destructors env b1 rest
      | Fatal msg \<Rightarrow> Fatal msg
      | Undefined \<Rightarrow> Undefined)"

definition cleanreturn :: "Env \<Rightarrow> int \<Rightarrow> binding \<Rightarrow> (int \<times> binding) run" where
  "cleanreturn env retval b =
     (case (if retval = 0 then call_destructors env b (freelist_entries b) else Returns b) of
        Returns b1 \<Rightarrow>
          (case entries_malloced b1 of
             None \<Rightarrow> Returns (retval, b1)
           | Some entries \<Rightarrow>
               Returns (retval, b1\<lparr>cur_thread := PyMem_FREE (cur_thread b1) entries\<rparr>))
      | Fatal msg \<Rightarrow> Fatal msg
      | Undefined \<Rightarrow> Undefined)"

subsection \<open>Objects as the conversions see them\<close>

text \<open>
  Modelled from the spec: the type checks and the conversions of integers and floats of
  the C-API (\<^verbatim>\<open>longobject.cpp\<close>, \<^verbatim>\<open>floatobject.cpp\<close> and others, not part of the
  sources at hand). "Numeric codes perform range-checked conversion": an integer that
  fits the C type converts to it, one that does not raises an OverflowError and yields
  -1; the masking conversions keep the low 64 bits; an object that is not an integer is
  asked for its \<^verbatim>\<open>__index__\<close>.
\<close>

fun PyFloat_Check :: "pyobj \<Rightarrow> bool" where
  "PyFloat_Check (FloatObj _) = True"
| "PyFloat_Check _ = False"

fun PyBytes_Check :: "pyobj \<Rightarrow> bool" where
  "PyBytes_Check (BytesObj _) = True"
| "PyBytes_Check _ = False"

fun PyByteArray_Check :: "pyobj \<Rightarrow> bool" where
  "PyByteArray_Check (BytearrayObj _) = True"
| "PyByteArray_Check _ = False"

fun PyUnicode_Check :: "pyobj \<Rightarrow> bool" where
  "PyUnicode_Check (StrObj _) = True"
| "PyUnicode_Check _ = False"

definition PyLong_Check :: "pyobj \<Rightarrow> bool" where
  "PyLong_Check arg = isInstanceOfInt arg"

definition PyLong_AsLong :: "Thread \<Rightarrow> pyobj \<Rightarrow> 64 word \<times> Thread" where
  "PyLong_AsLong thread arg =
     (case intFromIndex thread arg of
        (Value num, thread1) \<Rightarrow>
          if fitsWord (intUnderlying num) then (word_of_int (intUnderlying num), thread1)
          else (- 1, raiseWithFmt thread1 kOverflowError ''Python int too big to convert to C long'')
      | (_, thread1) \<Rightarrow> (- 1, thread1))"

definition PyLong_AsLongLong :: "Thread \<Rightarrow> pyobj \<Rightarrow> 64 word \<times> Thread" where
  "PyLong_AsLongLong thread arg =
     (case intFromIndex thread arg of
        (Value num, thread1) \<Rightarrow>
          if fitsWord (intUnderlying num) then (word_of_int (intUnderlying num), thread1)
          else (- 1, raiseWithFmt thread1 kOverflowError
                       ''Python int too big to convert to C long long'')
      | (_, thread1) \<Rightarrow> (- 1, thread1))"

definition PyLong_AsSsize_t :: "Thread \<Rightarrow> pyobj \<Rightarrow> 64 word \<times> Thread" where
  "PyLong_AsSsize_t thread arg =
     (case intFromIndex thread arg of
        (Value num, thread1) \<Rightarrow>
          if fitsWord (intUnderlying num) then (word_of_int (intUnderlying num), thread1)
          else (- 1, raiseWithFmt thread1 kOverflowError
                       ''Python int too big to convert to C ssize_t'')
      | (_, thread1) \<Rightarrow> (- 1, thread1))"

definition PyLong_AsUnsignedLongMask :: "Thread \<Rightarrow> pyobj \<Rightarrow> 64 word \<times> Thread" where
  "PyLong_AsUnsignedLongMask thread arg =
     (case intFromIndex thread arg of
        (Value num, thread1) \<Rightarrow> (word_of_int (intUnderlying num), thread1)
      | (_, thread1) \<Rightarrow> (- 1, thread1))"

definition PyLong_AsUnsignedLongLongMask :: "Thread \<Rightarrow> pyobj \<Rightarrow> 64 word \<times> Thread" where
  "PyLong_AsUnsignedLongLongMask thread arg = PyLong_AsUnsignedLongMask thread arg"

fun PyFloat_AsDouble :: "Thread \<Rightarrow> pyobj \<Rightarrow> cdouble \<times> Thread" where
  "PyFloat_AsDouble thread (FloatObj bits) = (DoubleBits bits, thread)"
| "PyFloat_AsDouble thread (IntObj v) = (DoubleOfInt v, thread)"
| "PyFloat_AsDouble thread (BoolObj b) = (DoubleOfInt (if b then 1 else 0), thread)"
| "PyFloat_AsDouble thread arg =
     (DoubleOfInt (- 1),
      raiseWithFmt thread kTypeError (''must be real number, not '' @ typeName arg))"

fun PyComplex_AsCComplex :: "Thread \<Rightarrow> pyobj \<Rightarrow> (cdouble \<times> cdouble) \<times> Thread" where
  "PyComplex_AsCComplex thread (ComplexObj re im) = ((DoubleBits re, DoubleBits im), thread)"
| "PyComplex_AsCComplex thread arg =
     (case PyFloat_AsDouble thread arg of (re, thread1) \<Rightarrow> ((re, DoubleOfInt 0), thread1))"

text \<open>
  Modelled from the spec: \<^verbatim>\<open>PyObject_IsTrue\<close>, the truth of an object: 1, 0, or -1
  with an exception pending when the object's \<^verbatim>\<open>__bool__\<close> or \<^verbatim>\<open>__len__\<close>
  raises or answers with something else than a truth value or a length.
\<close>

fun PyObject_IsTrue :: "Thread \<Rightarrow> pyobj \<Rightarrow> int \<times> Thread" where
  "PyObject_IsTrue thread NoneObj = (0, thread)"
| "PyObject_IsTrue thread (BoolObj b) = (if b then 1 else 0, thread)"
| "PyObject_IsTrue thread (IntObj v) = (if v \<noteq> 0 then 1 else 0, thread)"
| "PyObject_IsTrue thread (FloatObj bits) = (if push_bit 1 bits \<noteq> 0 then 1 else 0, thread)"
| "PyObject_IsTrue thread (ComplexObj re im) =
     (if push_bit 1 re \<noteq> 0 \<or> push_bit 1 im \<noteq> 0 then 1 else 0, thread)"
| "PyObject_IsTrue thread (StrObj cs) = (if cs \<noteq> [] then 1 else 0, thread)"
| "PyObject_IsTrue thread (BytesObj bs) = (if bs \<noteq> [] then 1 else 0, thread)"
| "PyObject_IsTrue thread (BytearrayObj bs) = (if bs \<noteq> [] then 1 else 0, thread)"
| "PyObject_IsTrue thread (TupleObj xs) = (if xs \<noteq> [] then 1 else 0, thread)"
| "PyObject_IsTrue thread (ListObj xs) = (if xs \<noteq> [] then 1 else 0, thread)"
| "PyObject_IsTrue thread (DictObj kvs) = (if kvs \<noteq> [] then 1 else 0, thread)"
| "PyObject_IsTrue thread (MemoryViewObj buffer n) = (if n \<noteq> 0 then 1 else 0, thread)"
| "PyObject_IsTrue thread (ArrayObj bs) = (if bs \<noteq> [] then 1 else 0, thread)"
| "PyObject_IsTrue thread (Instance name methods items slots) =
     (case invokeMethod1 thread (Instance name methods items slots) dunder_bool of
        (Value (BoolObj b), thread1) \<Rightarrow> (if b then 1 else 0, thread1)
      | (Value r, thread1) \<Rightarrow>
          (- 1, raiseWithFmt thread1 kTypeError
                  (''__bool__ should return bool, returned '' @ typeName r))
      | (ErrorException ty msg, thread1) \<Rightarrow> (- 1, thread1)
      | (ErrorNotFound, thread1) \<Rightarrow>
          (case invokeMethod1 thread1 (Instance name methods items slots) dunder_len of
             (Value (IntObj v), thread2) \<Rightarrow>
               if v < 0
               then (- 1, raiseWithFmt thread2 kValueError ''__len__() should return >= 0'')
               else (if v \<noteq> 0 then 1 else 0, thread2)
           | (Value r, thread2) \<Rightarrow>
               (- 1, raiseWithFmt thread2 kTypeError (cannotInterpret r))
           | (ErrorException ty msg, thread2) \<Rightarrow> (- 1, thread2)
           | (ErrorNotFound, thread2) \<Rightarrow> (1, thread2)))"

subsection \<open>Conversion of a non-tuple argument\<close>

text \<open>
  The result of a conversion: the message (null when the conversion went well), the
  format behind the item, and the state.
\<close>

type_synonym conversion = "(string option \<times> string \<times> binding) run"

text \<open>The message of \<^verbatim>\<open>converterr\<close>, which it prints to the message buffer.\<close>

definition converterr_msg :: "string \<Rightarrow> pyobj \<Rightarrow> nat \<Rightarrow> string" where
  "converterr_msg expected arg bufsize =
     take (bufsize - 1)
       (if take 1 expected = ''(''
        then take 100 expected
        else ''must be '' @ take 50 expected @ '', not '' @
             take 50 (if arg = NoneObj then ''None'' else typeName arg))"

definition converterr :: "string \<Rightarrow> pyobj \<Rightarrow> nat \<Rightarrow> string \<Rightarrow> binding \<Rightarrow> conversion" where
  "converterr expected arg bufsize fmt b =
     Returns (Some (converterr_msg expected arg bufsize), fmt,
              b\<lparr>msgbuf := converterr_msg expected arg bufsize\<rparr>)"

text \<open>\<^verbatim>\<open>RETURN_ERR_OCCURRED\<close>: the message buffer is returned as it is.\<close>

definition return_err_occurred :: "string \<Rightarrow> binding \<Rightarrow> conversion" where
  "return_err_occurred fmt b = Returns (Some (msgbuf b), fmt, b)"

text \<open>The assignment to the caller's storage that ends a conversion with success.\<close>

definition assign_and_break :: "binding \<Rightarrow> nat option \<Rightarrow> cell \<Rightarrow> string \<Rightarrow> conversion" where
  "assign_and_break b p c fmt =
     (case assign b p c of None \<Rightarrow> Undefined | Some b1 \<Rightarrow> Returns (None, fmt, b1))"

definition float_argument_error :: "binding \<Rightarrow> pyobj \<Rightarrow> bool \<times> binding" where
  "float_argument_error b arg =
     (if PyFloat_Check arg
      then (True, raise b kTypeError ''integer argument expected, got float'')
      else (False, b))"

text \<open>The call of one of the integer conversions above on the state of a binding.\<close>

definition call_long ::
  "(Thread \<Rightarrow> pyobj \<Rightarrow> 64 word \<times> Thread) \<Rightarrow> binding \<Rightarrow> pyobj \<Rightarrow> 64 word \<times> binding" where
  "call_long f b arg =
     (case f (cur_thread b) arg of (ival, thread1) \<Rightarrow> (ival, b\<lparr>cur_thread := thread1\<rparr>))"

definition convertsimple_b :: "pyobj \<Rightarrow> string \<Rightarrow> binding \<Rightarrow> conversion" where
  "convertsimple_b arg fmt b =
     (case va_arg_pointer b of
        None \<Rightarrow> Undefined
      | Some (p, b1) \<Rightarrow>
          (case float_argument_error b1 arg of
             (True, b2) \<Rightarrow> return_err_occurred fmt b2
           | (False, b2) \<Rightarrow>
               (case call_long PyLong_AsLong b2 arg of
                  (ival, b3) \<Rightarrow>
                    if ival = - 1 \<and> PyErr_Occurred b3 then return_err_occurred fmt b3
                    else if ival <s 0
                    then return_err_occurred fmt
                           (raise b3 kOverflowError ''unsigned byte integer is less than minimum'')
                    else if 255 <s ival
                    then return_err_occurred fmt
                           (raise b3 kOverflowError
                              ''unsigned byte integer is greater than maximum'')
                    else assign_and_break b3 p (CharCell (ucast ival)) fmt)))"

definition convertsimple_B :: "pyobj \<Rightarrow> string \<Rightarrow> binding \<Rightarrow> conversion" where
  "convertsimple_B arg fmt b =
     (case va_arg_pointer b of
        None \<Rightarrow> Undefined
      | Some (p, b1) \<Rightarrow>
          (case float_argument_error b1 arg of
             (True, b2) \<Rightarrow> return_err_occurred fmt b2
           | (False, b2) \<Rightarrow>
               (case call_long PyLong_AsUnsignedLongMask b2 arg of
                  (ival, b3) \<Rightarrow>
                    if ival = - 1 \<and> PyErr_Occurred b3 then return_err_occurred fmt b3
                    else assign_and_break b3 p (CharCell (ucast ival)) fmt)))"

definition convertsimple_h :: "pyobj \<Rightarrow> string \<Rightarrow> binding \<Rightarrow> conversion" where
  "convertsimple_h arg fmt b =
     (case va_arg_pointer b of
        None \<Rightarrow> Undefined
      | Some (p, b1) \<Rightarrow>
          (case float_argument_error b1 arg of
             (True, b2) \<Rightarrow> return_err_occurred fmt b2
           | (False, b2) \<Rightarrow>
               (case call_long PyLong_AsLong b2 arg of
                  (ival, b3) \<Rightarrow>
                    if ival = - 1 \<and> PyErr_Occurred b3 then return_err_occurred fmt b3
                    else if ival <s - 32768
                    then return_err_occurred fmt
                           (raise b3 kOverflowError ''signed short integer is less than minimum'')
                    else if 32767 <s ival
                    then return_err_occurred fmt
                           (raise b3 kOverflowError
                              ''signed short integer is greater than maximum'')
                    else assign_and_break b3 p (ShortCell (ucast ival)) fmt)))"

definition convertsimple_H :: "pyobj \<Rightarrow> string \<Rightarrow> binding \<Rightarrow> conversion" where
  "convertsimple_H arg fmt b =
     (case va_arg_pointer b of
        None \<Rightarrow> Undefined
      | Some (p, b1) \<Rightarrow>
          (case float_argument_error b1 arg of
             (True, b2) \<Rightarrow> return_err_occurred fmt b2
           | (False, b2) \<Rightarrow>
               (case call_long PyLong_AsUnsignedLongMask b2 arg of
                  (ival, b3) \<Rightarrow>
                    if ival = - 1 \<and> PyErr_Occurred b3 then return_err_occurred fmt b3
                    else assign_and_break b3 p (ShortCell (ucast ival)) fmt)))"

definition convertsimple_i :: "pyobj \<Rightarrow> string \<Rightarrow> binding \<Rightarrow> conversion" where
  "convertsimple_i arg fmt b =
     (case va_arg_pointer b of
        None \<Rightarrow> Undefined
      | Some (p, b1) \<Rightarrow>
          (case float_argument_error b1 arg of
             (True, b2) \<Rightarrow> return_err_occurred fmt b2
           | (False, b2) \<Rightarrow>
               (case call_long PyLong_AsLong b2 arg of
                  (ival, b3) \<Rightarrow>
                    if ival = - 1 \<and> PyErr_Occurred b3 then return_err_occurred fmt b3
                    else if word_of_int INT_MAX <s ival
                    then return_err_occurred fmt
                           (raise b3 kOverflowError ''signed integer is greater than maximum'')
                    else if ival <s word_of_int INT_MIN
                    then return_err_occurred fmt
                           (raise b3 kOverflowError ''signed integer is less than minimum'')
                    else assign_and_break b3 p (IntCell (ucast ival)) fmt)))"

definition convertsimple_I :: "pyobj \<Rightarrow> string \<Rightarrow> binding \<Rightarrow> conversion" where
  "convertsimple_I arg fmt b =
     (case va_arg_pointer b of
        None \<Rightarrow> Undefined
      | Some (p, b1) \<Rightarrow>
          (case float_argument_error b1 arg of
             (True, b2) \<Rightarrow> return_err_occurred fmt b2
           | (False, b2) \<Rightarrow>
               (case call_long PyLong_AsUnsignedLongMask b2 arg of
                  (lval, b3) \<Rightarrow>
                    if (ucast lval :: 32 word) = - 1 \<and> PyErr_Occurred b3
                    then return_err_occurred fmt b3
                    else assign_and_break b3 p (IntCell (ucast lval)) fmt)))"

definition convertsimple_n :: "pyobj \<Rightarrow> string \<Rightarrow> binding \<Rightarrow> conversion" where
  "convertsimple_n arg fmt b =
     (case va_arg_pointer b of
        None \<Rightarrow> Undefined
      | Some (p, b1) \<Rightarrow>
          (case float_argument_error b1 arg of
             (True, b2) \<Rightarrow> return_err_occurred fmt b2
           | (False, b2) \<Rightarrow>
               (case (case PyNumber_Index (cur_thread b2) (Some arg) of
                        (None, thread1) \<Rightarrow> (- 1, b2\<lparr>cur_thread := thread1\<rparr>)
                      | (Some iobj, thread1) \<Rightarrow>
                          (case PyLong_AsSsize_t thread1 iobj of
                             (ival, thread2) \<Rightarrow>
                               (ival, b2\<lparr>cur_thread := Py_DECREF thread2 iobj\<rparr>))) of
                  (ival, b3) \<Rightarrow>
                    if ival = - 1 \<and> PyErr_Occurred b3 then return_err_occurred fmt b3
                    else assign_and_break b3 p (LongCell ival) fmt)))"

definition convertsimple_l :: "pyobj \<Rightarrow> string \<Rightarrow> binding \<Rightarrow> conversion" where
  "convertsimple_l arg fmt b =
     (case va_arg_pointer b of
        None \<Rightarrow> Undefined
      | Some (p, b1) \<Rightarrow>
          (case float_argument_error b1 arg of
             (True, b2) \<Rightarrow> return_err_occurred fmt b2
           | (False, b2) \<Rightarrow>
               (case call_long PyLong_AsLong b2 arg of
                  (ival, b3) \<Rightarrow>
                    if ival = - 1 \<and> PyErr_Occurred b3 then return_err_occurred fmt b3
                    else assign_and_break b3 p (LongCell ival) fmt)))"

definition convertsimple_k :: "pyobj \<Rightarrow> string \<Rightarrow> nat \<Rightarrow> binding \<Rightarrow> conversion" where
  "convertsimple_k arg fmt bufsize b =
     (case va_arg_pointer b of
        None \<Rightarrow> Undefined
      | Some (p, b1) \<Rightarrow>
          if \<not> PyLong_Check arg then converterr ''int'' arg bufsize fmt b1
          else (case call_long PyLong_AsUnsignedLongMask b1 arg of
                  (ival, b2) \<Rightarrow> assign_and_break b2 p (LongCell ival) fmt))"

definition convertsimple_L :: "pyobj \<Rightarrow> string \<Rightarrow> binding \<Rightarrow> conversion" where
  "convertsimple_L arg fmt b =
     (case va_arg_pointer b of
        None \<Rightarrow> Undefined
      | Some (p, b1) \<Rightarrow>
          (case float_argument_error b1 arg of
             (True, b2) \<Rightarrow> return_err_occurred fmt b2
           | (False, b2) \<Rightarrow>
               (case call_long PyLong_AsLongLong b2 arg of
                  (ival, b3) \<Rightarrow>
                    if ival = - 1 \<and> PyErr_Occurred b3 then return_err_occurred fmt b3
                    else assign_and_break b3 p (LongCell ival) fmt)))"

definition convertsimple_K :: "pyobj \<Rightarrow> string \<Rightarrow> nat \<Rightarrow> binding \<Rightarrow> conversion" where
  "convertsimple_K arg fmt bufsize b =
     (case va_arg_pointer b of
        None \<Rightarrow> Undefined
      | Some (p, b1) \<Rightarrow>
          if \<not> PyLong_Check arg then converterr ''int'' arg bufsize fmt b1
          else (case call_long PyLong_AsUnsignedLongLongMask b1 arg of
                  (ival, b2) \<Rightarrow> assign_and_break b2 p (LongCell ival) fmt))"

definition convertsimple_f :: "pyobj \<Rightarrow> string \<Rightarrow> binding \<Rightarrow> conversion" where
  "convertsimple_f arg fmt b =
     (case va_arg_pointer b of
        None \<Rightarrow> Undefined
      | Some (p, b1) \<Rightarrow>
          (case PyFloat_AsDouble (cur_thread b1) arg of
             (dval, thread1) \<Rightarrow>
               if PyErr_Occurred (b1\<lparr>cur_thread := thread1\<rparr>)
               then return_err_occurred fmt (b1\<lparr>cur_thread := thread1\<rparr>)
               else assign_and_break (b1\<lparr>cur_thread := thread1\<rparr>) p (FloatCell (FloatOfDouble dval)) fmt))"

definition convertsimple_d :: "pyobj \<Rightarrow> string \<Rightarrow> binding \<Rightarrow> conversion" where
  "convertsimple_d arg fmt b =
     (case va_arg_pointer b of
        None \<Rightarrow> Undefined
      | Some (p, b1) \<Rightarrow>
          (case PyFloat_AsDouble (cur_thread b1) arg of
             (dval, thread1) \<Rightarrow>
               if PyErr_Occurred (b1\<lparr>cur_thread := thread1\<rparr>)
               then return_err_occurred fmt (b1\<lparr>cur_thread := thread1\<rparr>)
               else assign_and_break (b1\<lparr>cur_thread := thread1\<rparr>) p (DoubleCell dval) fmt))"

definition convertsimple_D :: "pyobj \<Rightarrow> string \<Rightarrow> binding \<Rightarrow> conversion" where
  "convertsimple_D arg fmt b =
     (case va_arg_pointer b of
        None \<Rightarrow> Undefined
      | Some (p, b1) \<Rightarrow>
          (case PyComplex_AsCComplex (cur_thread b1) arg of
             ((re, im), thread1) \<Rightarrow>
               if PyErr_Occurred (b1\<lparr>cur_thread := thread1\<rparr>)
               then return_err_occurred fmt (b1\<lparr>cur_thread := thread1\<rparr>)
               else assign_and_break (b1\<lparr>cur_thread := thread1\<rparr>) p (ComplexCell re im) fmt))"

definition convertsimple_c :: "pyobj \<Rightarrow> string \<Rightarrow> nat \<Rightarrow> binding \<Rightarrow> conversion" where
  "convertsimple_c arg fmt bufsize b =
     (case va_arg_pointer b of
        None \<Rightarrow> Undefined
      | Some (p, b1) \<Rightarrow>
          (case arg of
             BytesObj [x] \<Rightarrow> assign_and_break b1 p (CharCell x) fmt
           | BytearrayObj [x] \<Rightarrow> assign_and_break b1 p (CharCell x) fmt
           | _ \<Rightarrow> converterr ''a byte string of length 1'' arg bufsize fmt b1))"

definition convertsimple_C :: "pyobj \<Rightarrow> string \<Rightarrow> nat \<Rightarrow> binding \<Rightarrow> conversion" where
  "convertsimple_C arg fmt bufsize b =
     (case va_arg_pointer b of
        None \<Rightarrow> Undefined
      | Some (p, b1) \<Rightarrow>
          (case arg of
             StrObj cs \<Rightarrow>
               if length cs \<noteq> 1 then converterr ''a unicode character'' arg bufsize fmt b1
               else assign_and_break b1 p (IntCell (of_nat (hd cs))) fmt
           | _ \<Rightarrow> converterr ''a unicode character'' arg bufsize fmt b1))"

definition convertsimple_p :: "pyobj \<Rightarrow> string \<Rightarrow> binding \<Rightarrow> conversion" where
  "convertsimple_p arg fmt b =
     (case va_arg_pointer b of
        None \<Rightarrow> Undefined
      | Some (p, b1) \<Rightarrow>
          (case PyObject_IsTrue (cur_thread b1) arg of
             (val, thread1) \<Rightarrow>
               if 0 < val then assign_and_break (b1\<lparr>cur_thread := thread1\<rparr>) p (IntCell 1) fmt
               else if val = 0
               then assign_and_break (b1\<lparr>cur_thread := thread1\<rparr>) p (IntCell 0) fmt
               else return_err_occurred fmt (b1\<lparr>cur_thread := thread1\<rparr>)))"

subsection \<open>Strings and buffers as the conversions see them\<close>

text \<open>
  Modelled from the spec: the string functions of the C-API (\<^verbatim>\<open>unicodeobject.cpp\<close>,
  not part of the sources at hand). A string is a sequence of code points;
  \<^verbatim>\<open>PyUnicode_AsUTF8AndSize\<close> yields the address and the bytes of its UTF-8 form (it
  fails on a code point that UTF-8 cannot encode), \<^verbatim>\<open>PyUnicode_AsUnicodeAndSize\<close> the
  address of its wide-character form, \<^verbatim>\<open>PyUnicode_AsEncodedString\<close> a new bytes object
  in one of the encodings UTF-8, ASCII and Latin-1.
\<close>

definition utf8_char :: "nat \<Rightarrow> 8 word list option" where
  "utf8_char c =
     (if c < 128 then Some [of_nat c]
      else if c < 2048 then Some [of_nat (192 + c div 64), of_nat (128 + c mod 64)]
      else if 55296 \<le> c \<and> c < 57344 then None
      else if c < 65536
      then Some [of_nat (224 + c div 4096), of_nat (128 + c div 64 mod 64), of_nat (128 + c mod 64)]
      else if c < 1114112
      then Some [of_nat (240 + c div 262144), of_nat (128 + c div 4096 mod 64),
                 of_nat (128 + c div 64 mod 64), of_nat (128 + c mod 64)]
      else None)"

fun utf8 :: "nat list \<Rightarrow> 8 word list option" where
  "utf8 [] = Some []"
| "utf8 (c # cs) =
     (case utf8_char c of
        None \<Rightarrow> None
      | Some bs \<Rightarrow> (case utf8 cs of None \<Rightarrow> None | Some rest \<Rightarrow> Some (bs @ rest)))"

definition strlen :: "'a::zero list \<Rightarrow> nat" where
  "strlen xs = length (takeWhile (\<lambda>x. x \<noteq> 0) xs)"

definition PyUnicode_AsUTF8AndSize ::
  "Env \<Rightarrow> Thread \<Rightarrow> pyobj \<Rightarrow> (nat \<times> 8 word list) option \<times> Thread" where
  "PyUnicode_AsUTF8AndSize env thread arg =
     (case arg of
        StrObj cs \<Rightarrow>
          (case utf8 cs of
             None \<Rightarrow> (None, raiseWithFmt thread kUnicodeEncodeError ''surrogates not allowed'')
           | Some bs \<Rightarrow> (Some (strAsUTF8 env arg, bs), thread))
      | _ \<Rightarrow> (None, raiseWithFmt thread kTypeError ''bad argument type for built-in operation''))"

definition PyUnicode_AsUnicodeAndSize ::
  "Env \<Rightarrow> Thread \<Rightarrow> pyobj \<Rightarrow> (nat \<times> nat list) option \<times> Thread" where
  "PyUnicode_AsUnicodeAndSize env thread arg =
     (case arg of
        StrObj cs \<Rightarrow> (Some (strAsUnicode env arg, cs), thread)
      | _ \<Rightarrow> (None, raiseWithFmt thread kTypeError ''bad argument type for built-in operation''))"

definition PyUnicode_GetDefaultEncoding :: string where
  "PyUnicode_GetDefaultEncoding = ''utf-8''"

definition encode :: "string \<Rightarrow> nat list \<Rightarrow> (LayoutId + 8 word list)" where
  "encode encoding cs =
     (if encoding = ''utf-8''
      then (case utf8 cs of None \<Rightarrow> Inl kUnicodeEncodeError | Some bs \<Rightarrow> Inr bs)
      else if encoding = ''ascii''
      then (if list_all (\<lambda>c. c < 128) cs then Inr (map of_nat cs) else Inl kUnicodeEncodeError)
      else if encoding = ''latin-1''
      then (if list_all (\<lambda>c. c < 256) cs then Inr (map of_nat cs) else Inl kUnicodeEncodeError)
      else Inl kLookupError)"

definition PyUnicode_AsEncodedString ::
  "Thread \<Rightarrow> pyobj \<Rightarrow> string \<Rightarrow> pyobj option \<times> Thread" where
  "PyUnicode_AsEncodedString thread arg encoding =
     (case arg of
        StrObj cs \<Rightarrow>
          (case encode encoding cs of
             Inl layout \<Rightarrow> (None, raiseWithFmt thread layout (''cannot encode to '' @ encoding))
           | Inr bs \<Rightarrow> newReference thread (BytesObj bs))
      | _ \<Rightarrow> (None, raiseWithFmt thread kTypeError ''bad argument type for built-in operation''))"

text \<open>
  Modelled from the spec: \<^verbatim>\<open>PyType_IsSubtype\<close> on the names of types, "a subtype
  check": every type is a subtype of itself and of \<^verbatim>\<open>object\<close>, and \<^verbatim>\<open>bool\<close> is a
  subtype of \<^verbatim>\<open>int\<close>.
\<close>

definition PyType_IsSubtype :: "string \<Rightarrow> string \<Rightarrow> bool" where
  "PyType_IsSubtype a b = (a = b \<or> b = ''object'' \<or> (a = ''bool'' \<and> b = ''int''))"

text \<open>
  The bytes behind the pointer \<^verbatim>\<open>buf\<close> of a view of \<open>arg\<close>: those of the object for
  the runtime's own types, what the native memory holds there for the others.
\<close>

definition buffer_bytes :: "Thread \<Rightarrow> pyobj \<Rightarrow> nat option \<Rightarrow> 8 word list option" where
  "buffer_bytes thread arg buf =
     (case arg of
        BytesObj bs \<Rightarrow> Some bs
      | BytearrayObj bs \<Rightarrow> Some bs
      | ArrayObj bs \<Rightarrow> Some bs
      | MemoryViewObj (MvBytes bs) n \<Rightarrow> Some bs
      | _ \<Rightarrow>
          (case buf of
             None \<Rightarrow> None
           | Some a \<Rightarrow> (case memory thread a of BytesCell bs \<Rightarrow> Some bs | _ \<Rightarrow> None)))"

text \<open>The view that a pointer points to; storage that is not yet a view reads as \<open>view0\<close>.\<close>

definition view_at :: "Thread \<Rightarrow> nat \<Rightarrow> Py_buffer" where
  "view_at thread ptr = (case memory thread ptr of ViewCell v \<Rightarrow> v | _ \<Rightarrow> view0)"

definition store_view :: "Thread \<Rightarrow> nat option \<Rightarrow> Py_buffer option \<Rightarrow> Thread" where
  "store_view thread p view =
     (case (p, view) of (Some a, Some v) \<Rightarrow> store thread a (ViewCell v) | _ \<Rightarrow> thread)"

definition getbuffer ::
  "Env \<Rightarrow> Thread \<Rightarrow> pyobj \<Rightarrow> Py_buffer option
     \<Rightarrow> (int \<times> string \<times> Py_buffer option \<times> Thread) run" where
  "getbuffer env thread arg view =
     (case PyObject_GetBuffer env thread arg view PyBUF_SIMPLE of
        (rc, view1, thread1) \<Rightarrow>
          if rc \<noteq> 0 then Returns (- 1, ''bytes-like object'', view1, thread1)
          else (case view1 of
                  None \<Rightarrow> Undefined
                | Some v \<Rightarrow>
                    (case PyBuffer_IsContiguous v CHR ''C'' of
                       None \<Rightarrow> Undefined
                     | Some c \<Rightarrow>
                         if c = 0
                         then (case PyBuffer_Release env thread1 v of
                                 (v2, thread2) \<Rightarrow>
                                   Returns (- 1, ''contiguous buffer'', Some v2, thread2))
                         else Returns (0, [], view1, thread1))))"

text \<open>\<^verbatim>\<open>convertbuffer\<close>: the count, the message, and the pointer stored to \<^verbatim>\<open>*p\<close>.\<close>

definition convertbuffer ::
  "Env \<Rightarrow> binding \<Rightarrow> pyobj \<Rightarrow> nat option \<Rightarrow> (Py_ssize_t \<times> string \<times> nat option \<times> binding) run" where
  "convertbuffer env b arg p =
     (case assign b p (PointerCell None) of
        None \<Rightarrow> Undefined
      | Some b1 \<Rightarrow>
          (case getbuffer env (cur_thread b1) arg (Some view0) of
             Returns (rc, errmsg, view, thread1) \<Rightarrow>
               if rc < 0 then Returns (- 1, errmsg, None, b1\<lparr>cur_thread := thread1\<rparr>)
               else (case view of
                       None \<Rightarrow> Undefined
                     | Some v \<Rightarrow>
                         (case assign (b1\<lparr>cur_thread := thread1\<rparr>) p (PointerCell (view_buf v)) of
                            None \<Rightarrow> Undefined
                          | Some b2 \<Rightarrow>
                              (case PyBuffer_Release env (cur_thread b2) v of
                                 (v2, thread2) \<Rightarrow>
                                   Returns (view_len v, errmsg, view_buf v,
                                            b2\<lparr>cur_thread := thread2\<rparr>))))
           | Fatal msg \<Rightarrow> Fatal msg
           | Undefined \<Rightarrow> Undefined))"

text \<open>
  \<^verbatim>\<open>FETCH_SIZE\<close> takes the pointer to the size from the variadic arguments;
  \<^verbatim>\<open>STORE_SIZE\<close> stores a size through it, as a \<^verbatim>\<open>Py_ssize_t\<close> or, when it fits,
  as an \<^verbatim>\<open>int\<close>. Its result is the conversion's when the size does not fit.
\<close>

definition store_size ::
  "int \<Rightarrow> binding \<Rightarrow> nat option \<Rightarrow> Py_ssize_t \<Rightarrow> pyobj \<Rightarrow> nat \<Rightarrow> string
     \<Rightarrow> (conversion + binding) run" where
  "store_size flags b q s arg bufsize fmt =
     (if (flags AND FLAG_SIZE_T) \<noteq> 0
      then (case assign b q (LongCell s) of None \<Rightarrow> Undefined | Some b1 \<Rightarrow> Returns (Inr b1))
      else if word_of_int INT_MAX <s s
      then Returns (Inl (converterr [] arg bufsize fmt
                           (raise b kOverflowError ''size does not fit in an int'')))
      else (case assign b q (IntCell (ucast s)) of
              None \<Rightarrow> Undefined
            | Some b1 \<Rightarrow> Returns (Inr b1)))"

text \<open>\<^verbatim>\<open>STORE_SIZE(s)\<close> as the last statement before \<^verbatim>\<open>format++; break\<close>.\<close>

definition store_size_and_break ::
  "int \<Rightarrow> binding \<Rightarrow> nat option \<Rightarrow> Py_ssize_t \<Rightarrow> pyobj \<Rightarrow> nat \<Rightarrow> string \<Rightarrow> string
     \<Rightarrow> conversion" where
  "store_size_and_break flags b q s arg bufsize fmt fmt1 =
     (case store_size flags b q s arg bufsize fmt of
        Returns (Inl failed) \<Rightarrow> failed
      | Returns (Inr b1) \<Rightarrow> Returns (None, fmt1, b1)
      | Fatal msg \<Rightarrow> Fatal msg
      | Undefined \<Rightarrow> Undefined)"

text \<open>Registering the cleanup of the view or block behind \<open>ptr\<close> before the \<^verbatim>\<open>break\<close>.\<close>

definition addcleanup_and_break ::
  "nat option \<Rightarrow> binding \<Rightarrow> destr_t \<Rightarrow> pyobj \<Rightarrow> nat \<Rightarrow> string \<Rightarrow> string \<Rightarrow> conversion" where
  "addcleanup_and_break ptr b destructor arg bufsize fmt fmt1 =
     (case addcleanup ptr b destructor of
        Returns (rc, b1) \<Rightarrow>
          if rc \<noteq> 0 then converterr ''(cleanup problem)'' arg bufsize fmt b1
          else Returns (None, fmt1, b1)
      | Fatal msg \<Rightarrow> Fatal msg
      | Undefined \<Rightarrow> Undefined)"

definition peek :: "string \<Rightarrow> char" where
  "peek fmt = (case fmt of [] \<Rightarrow> CHR 0x00 | c # rest \<Rightarrow> c)"

definition CONV_UNICODE :: string where
  "CONV_UNICODE = ''(unicode conversion error)''"

definition with_thread :: "binding \<Rightarrow> Thread \<Rightarrow> binding" where
  "with_thread b thread1 = b\<lparr>cur_thread := thread1\<rparr>"

text \<open>The view behind a pointer of the caller's, as the buffer functions receive it.\<close>

definition view_of :: "binding \<Rightarrow> nat option \<Rightarrow> Py_buffer option" where
  "view_of b p = map_option (view_at (cur_thread b)) p"

definition convertsimple_y ::
  "Env \<Rightarrow> pyobj \<Rightarrow> string \<Rightarrow> int \<Rightarrow> nat \<Rightarrow> binding \<Rightarrow> conversion" where
  "convertsimple_y env arg fmt flags bufsize b =
     (case va_arg_pointer b of
        None \<Rightarrow> Undefined
      | Some (p, b1) \<Rightarrow>
          if peek fmt = CHR ''*''
          then (case getbuffer env (cur_thread b1) arg (view_of b1 p) of
                  Returns (rc, buf, view, thread1) \<Rightarrow>
                    if rc < 0
                    then converterr buf arg bufsize fmt (with_thread b1 (store_view thread1 p view))
                    else addcleanup_and_break p (with_thread b1 (store_view thread1 p view))
                           cleanup_buffer arg bufsize fmt (tl fmt)
                | Fatal msg \<Rightarrow> Fatal msg
                | Undefined \<Rightarrow> Undefined)
          else (case convertbuffer env b1 arg p of
                  Returns (cnt, buf, ptr, b2) \<Rightarrow>
                    if cnt <s 0 then converterr buf arg bufsize fmt b2
                    else if peek fmt = CHR ''#''
                    then (case va_arg_pointer b2 of
                            None \<Rightarrow> Undefined
                          | Some (q, b3) \<Rightarrow>
                              store_size_and_break flags b3 q cnt arg bufsize fmt (tl fmt))
                    else (case buffer_bytes (cur_thread b2) arg ptr of
                            None \<Rightarrow> Undefined
                          | Some bs \<Rightarrow>
                              if strlen bs \<noteq> unat cnt
                              then return_err_occurred fmt
                                     (raise b2 kValueError ''embedded null byte'')
                              else Returns (None, fmt, b2))
                | Fatal msg \<Rightarrow> Fatal msg
                | Undefined \<Rightarrow> Undefined))"

text \<open>The codes \<^verbatim>\<open>s*\<close> and \<^verbatim>\<open>z*\<close>; \<open>fmt\<close> starts with the \<^verbatim>\<open>*\<close>.\<close>

definition convertsimple_s_star ::
  "Env \<Rightarrow> char \<Rightarrow> pyobj \<Rightarrow> string \<Rightarrow> nat \<Rightarrow> binding \<Rightarrow> conversion" where
  "convertsimple_s_star env c arg fmt bufsize b =
     (case va_arg_pointer b of
        None \<Rightarrow> Undefined
      | Some (p, b1) \<Rightarrow>
          if c = CHR ''z'' \<and> arg = NoneObj
          then (case PyBuffer_FillInfo (cur_thread b1) (view_of b1 p) None None 0 1 0 of
                  (rc, view, thread1) \<Rightarrow>
                    addcleanup_and_break p (with_thread b1 (store_view thread1 p view))
                      cleanup_buffer arg bufsize fmt (tl fmt))
          else if PyUnicode_Check arg
          then (case PyUnicode_AsUTF8AndSize env (cur_thread b1) arg of
                  (None, thread1) \<Rightarrow>
                    converterr CONV_UNICODE arg bufsize fmt (with_thread b1 thread1)
                | (Some (sarg, bs), thread1) \<Rightarrow>
                    (case PyBuffer_FillInfo thread1 (view_of b1 p) (Some arg) (Some sarg)
                            (of_nat (length bs)) 1 0 of
                       (rc, view, thread2) \<Rightarrow>
                         addcleanup_and_break p (with_thread b1 (store_view thread2 p view))
                           cleanup_buffer arg bufsize fmt (tl fmt)))
          else (case getbuffer env (cur_thread b1) arg (view_of b1 p) of
                  Returns (rc, buf, view, thread1) \<Rightarrow>
                    if rc < 0
                    then converterr buf arg bufsize fmt (with_thread b1 (store_view thread1 p view))
                    else addcleanup_and_break p (with_thread b1 (store_view thread1 p view))
                           cleanup_buffer arg bufsize fmt (tl fmt)
                | Fatal msg \<Rightarrow> Fatal msg
                | Undefined \<Rightarrow> Undefined))"

text \<open>The codes \<^verbatim>\<open>s#\<close> and \<^verbatim>\<open>z#\<close>; \<open>fmt\<close> starts with the \<^verbatim>\<open>#\<close>.\<close>

definition convertsimple_s_hash ::
  "Env \<Rightarrow> char \<Rightarrow> pyobj \<Rightarrow> string \<Rightarrow> int \<Rightarrow> nat \<Rightarrow> binding \<Rightarrow> conversion" where
  "convertsimple_s_hash env c arg fmt flags bufsize b =
     (case va_arg_pointer b of
        None \<Rightarrow> Undefined
      | Some (p, b1) \<Rightarrow>
          (case va_arg_pointer b1 of
             None \<Rightarrow> Undefined
           | Some (q, b2) \<Rightarrow>
               if c = CHR ''z'' \<and> arg = NoneObj
               then (case assign b2 p (PointerCell None) of
                       None \<Rightarrow> Undefined
                     | Some b3 \<Rightarrow> store_size_and_break flags b3 q 0 arg bufsize fmt (tl fmt))
               else if PyUnicode_Check arg
               then (case PyUnicode_AsUTF8AndSize env (cur_thread b2) arg of
                       (None, thread1) \<Rightarrow>
                         converterr CONV_UNICODE arg bufsize fmt (with_thread b2 thread1)
                     | (Some (sarg, bs), thread1) \<Rightarrow>
                         (case assign (with_thread b2 thread1) p (PointerCell (Some sarg)) of
                            None \<Rightarrow> Undefined
                          | Some b3 \<Rightarrow>
                              store_size_and_break flags b3 q (of_nat (length bs)) arg bufsize
                                fmt (tl fmt)))
               else (case convertbuffer env b2 arg p of
                       Returns (cnt, buf, ptr, b3) \<Rightarrow>
                         if cnt <s 0 then converterr buf arg bufsize fmt b3
                         else store_size_and_break flags b3 q cnt arg bufsize fmt (tl fmt)
                     | Fatal msg \<Rightarrow> Fatal msg
                     | Undefined \<Rightarrow> Undefined)))"

text \<open>The codes \<^verbatim>\<open>s\<close> and \<^verbatim>\<open>z\<close> on their own.\<close>

definition convertsimple_s_plain ::
  "Env \<Rightarrow> char \<Rightarrow> pyobj \<Rightarrow> string \<Rightarrow> nat \<Rightarrow> binding \<Rightarrow> conversion" where
  "convertsimple_s_plain env c arg fmt bufsize b =
     (case va_arg_pointer b of
        None \<Rightarrow> Undefined
      | Some (p, b1) \<Rightarrow>
          if c = CHR ''z'' \<and> arg = NoneObj
          then assign_and_break b1 p (PointerCell None) fmt
          else if PyUnicode_Check arg
          then (case PyUnicode_AsUTF8AndSize env (cur_thread b1) arg of
                  (None, thread1) \<Rightarrow>
                    converterr CONV_UNICODE arg bufsize fmt (with_thread b1 thread1)
                | (Some (sarg, bs), thread1) \<Rightarrow>
                    if strlen bs \<noteq> length bs
                    then return_err_occurred fmt
                           (raise (with_thread b1 thread1) kValueError ''embedded null character'')
                    else assign_and_break (with_thread b1 thread1) p (PointerCell (Some sarg)) fmt)
          else converterr (if c = CHR ''z'' then ''str or None'' else ''str'') arg bufsize fmt b1)"

definition convertsimple_s ::
  "Env \<Rightarrow> char \<Rightarrow> pyobj \<Rightarrow> string \<Rightarrow> int \<Rightarrow> nat \<Rightarrow> binding \<Rightarrow> conversion" where
  "convertsimple_s env c arg fmt flags bufsize b =
     (if peek fmt = CHR ''*'' then convertsimple_s_star env c arg fmt bufsize b
      else if peek fmt = CHR ''#'' then convertsimple_s_hash env c arg fmt flags bufsize b
      else convertsimple_s_plain env c arg fmt bufsize b)"

text \<open>The codes \<^verbatim>\<open>u\<close>, \<^verbatim>\<open>Z\<close>, \<^verbatim>\<open>u#\<close> and \<^verbatim>\<open>Z#\<close>.\<close>

definition convertsimple_u ::
  "Env \<Rightarrow> char \<Rightarrow> pyobj \<Rightarrow> string \<Rightarrow> int \<Rightarrow> nat \<Rightarrow> binding \<Rightarrow> conversion" where
  "convertsimple_u env c arg fmt flags bufsize b =
     (case va_arg_pointer b of
        None \<Rightarrow> Undefined
      | Some (p, b1) \<Rightarrow>
          if peek fmt = CHR ''#''
          then (case va_arg_pointer b1 of
                  None \<Rightarrow> Undefined
                | Some (q, b2) \<Rightarrow>
                    if c = CHR ''Z'' \<and> arg = NoneObj
                    then (case assign b2 p (PointerCell None) of
                            None \<Rightarrow> Undefined
                          | Some b3 \<Rightarrow> store_size_and_break flags b3 q 0 arg bufsize fmt (tl fmt))
                    else if PyUnicode_Check arg
                    then (case PyUnicode_AsUnicodeAndSize env (cur_thread b2) arg of
                            (r, thread1) \<Rightarrow>
                              (case assign (with_thread b2 thread1) p
                                      (PointerCell (map_option fst r)) of
                                 None \<Rightarrow> Undefined
                               | Some b3 \<Rightarrow>
                                   (case r of
                                      None \<Rightarrow> return_err_occurred fmt b3
                                    | Some (ptr, cs) \<Rightarrow>
                                        store_size_and_break flags b3 q (of_nat (length cs)) arg
                                          bufsize fmt (tl fmt))))
                    else converterr (if c = CHR ''Z'' then ''str or None'' else ''str'') arg
                           bufsize fmt b2)
          else if c = CHR ''Z'' \<and> arg = NoneObj
          then assign_and_break b1 p (PointerCell None) fmt
          else if PyUnicode_Check arg
          then (case PyUnicode_AsUnicodeAndSize env (cur_thread b1) arg of
                  (r, thread1) \<Rightarrow>
                    (case assign (with_thread b1 thread1) p (PointerCell (map_option fst r)) of
                       None \<Rightarrow> Undefined
                     | Some b2 \<Rightarrow>
                         (case r of
                            None \<Rightarrow> return_err_occurred fmt b2
                          | Some (ptr, cs) \<Rightarrow>
                              if strlen cs \<noteq> length cs
                              then return_err_occurred fmt
                                     (raise b2 kValueError ''embedded null character'')
                              else Returns (None, fmt, b2))))
          else converterr (if c = CHR ''Z'' then ''str or None'' else ''str'') arg bufsize fmt b1)"

text \<open>
  The code \<^verbatim>\<open>e\<close>, from the point where the encoded bytes object \<open>s\<close> is at hand;
  \<open>fmt\<close> is the format behind \<^verbatim>\<open>es#\<close> or \<^verbatim>\<open>et#\<close> (behind \<^verbatim>\<open>es\<close> or
  \<^verbatim>\<open>et\<close> for the variant that ends at a null byte), \<open>buffer\<close> the caller's
  \<^verbatim>\<open>char**\<close>.
\<close>

definition decref :: "binding \<Rightarrow> pyobj \<Rightarrow> binding" where
  "decref b s = b\<lparr>cur_thread := Py_DECREF (cur_thread b) s\<rparr>"

fun PyBytes_AS_BYTES :: "pyobj \<Rightarrow> 8 word list" where
  "PyBytes_AS_BYTES (BytesObj bs) = bs"
| "PyBytes_AS_BYTES _ = []"

text \<open>\<^verbatim>\<open>BUFFER_LEN\<close>: the size that the caller has put behind the pointer to the size.\<close>

definition buffer_len :: "int \<Rightarrow> binding \<Rightarrow> nat option \<Rightarrow> int option" where
  "buffer_len flags b q =
     (case q of
        None \<Rightarrow> None
      | Some a \<Rightarrow>
          (case memory (cur_thread b) a of
             LongCell n \<Rightarrow> if (flags AND FLAG_SIZE_T) \<noteq> 0 then Some (sint n) else None
           | IntCell n \<Rightarrow> if (flags AND FLAG_SIZE_T) \<noteq> 0 then None else Some (sint n)
           | _ \<Rightarrow> None))"

definition convertsimple_e_hash ::
  "pyobj \<Rightarrow> pyobj \<Rightarrow> string \<Rightarrow> int \<Rightarrow> nat \<Rightarrow> nat \<Rightarrow> binding \<Rightarrow> conversion" where
  "convertsimple_e_hash s arg fmt flags bufsize buffer b =
     (case va_arg_pointer b of
        None \<Rightarrow> Undefined
      | Some (q, b1) \<Rightarrow>
          if q = None
          then converterr ''(buffer_len is nullptr)'' arg bufsize fmt (decref b1 s)
          else
            (case memory (cur_thread b1) buffer of
               PointerCell None \<Rightarrow>
                 (case PyMem_NEW (cur_thread b1) of
                    (None, thread1) \<Rightarrow>
                      return_err_occurred fmt
                        (raise (decref (with_thread b1 (store thread1 buffer (PointerCell None))) s)
                           kMemoryError [])
                  | (Some block, thread1) \<Rightarrow>
                      (case addcleanup (Some block)
                              (with_thread b1 (store thread1 buffer (PointerCell (Some block))))
                              cleanup_ptr of
                         Returns (rc, b2) \<Rightarrow>
                           if rc \<noteq> 0
                           then converterr ''(cleanup problem)'' arg bufsize fmt (decref b2 s)
                           else
                             (case store_size flags
                                     (with_thread b2
                                        (store (cur_thread b2) block
                                           (BytesCell (PyBytes_AS_BYTES s @ [0]))))
                                     q (of_nat (length (PyBytes_AS_BYTES s))) arg bufsize fmt of
                                Returns (Inl failed) \<Rightarrow> failed
                              | Returns (Inr b3) \<Rightarrow> Returns (None, fmt, decref b3 s)
                              | Fatal msg \<Rightarrow> Fatal msg
                              | Undefined \<Rightarrow> Undefined)
                       | Fatal msg \<Rightarrow> Fatal msg
                       | Undefined \<Rightarrow> Undefined))
             | PointerCell (Some dest) \<Rightarrow>
                 (case buffer_len flags b1 q of
                    None \<Rightarrow> Undefined
                  | Some n \<Rightarrow>
                      if n < int (length (PyBytes_AS_BYTES s)) + 1
                      then return_err_occurred fmt
                             (raise (decref b1 s) kValueError
                                (''encoded string too long ('' @
                                 decimal (int (length (PyBytes_AS_BYTES s))) @
                                 '', maximum length '' @ decimal (n - 1) @ '')''))
                      else
                        (case store_size flags
                                (with_thread b1
                                   (store (cur_thread b1) dest
                                      (BytesCell (PyBytes_AS_BYTES s @ [0]))))
                                q (of_nat (length (PyBytes_AS_BYTES s))) arg bufsize fmt of
                           Returns (Inl failed) \<Rightarrow> failed
                         | Returns (Inr b3) \<Rightarrow> Returns (None, fmt, decref b3 s)
                         | Fatal msg \<Rightarrow> Fatal msg
                         | Undefined \<Rightarrow> Undefined))
             | _ \<Rightarrow> Undefined))"

definition convertsimple_e_terminated ::
  "pyobj \<Rightarrow> pyobj \<Rightarrow> string \<Rightarrow> nat \<Rightarrow> nat \<Rightarrow> binding \<Rightarrow> conversion" where
  "convertsimple_e_terminated s arg fmt bufsize buffer b =
     (if strlen (PyBytes_AS_BYTES s) \<noteq> length (PyBytes_AS_BYTES s)
      then converterr ''encoded string without null bytes'' arg bufsize fmt (decref b s)
      else
        (case PyMem_NEW (cur_thread b) of
           (None, thread1) \<Rightarrow>
             return_err_occurred fmt
               (raise (decref (with_thread b (store thread1 buffer (PointerCell None))) s)
                  kMemoryError [])
         | (Some block, thread1) \<Rightarrow>
             (case addcleanup (Some block)
                     (with_thread b (store thread1 buffer (PointerCell (Some block))))
                     cleanup_ptr of
                Returns (rc, b2) \<Rightarrow>
                  if rc \<noteq> 0
                  then converterr ''(cleanup problem)'' arg bufsize fmt (decref b2 s)
                  else Returns (None, fmt,
                         decref (with_thread b2
                                   (store (cur_thread b2) block
                                      (BytesCell (PyBytes_AS_BYTES s @ [0])))) s)
              | Fatal msg \<Rightarrow> Fatal msg
              | Undefined \<Rightarrow> Undefined)))"

definition convertsimple_e ::
  "Env \<Rightarrow> pyobj \<Rightarrow> string \<Rightarrow> int \<Rightarrow> nat \<Rightarrow> binding \<Rightarrow> conversion" where
  "convertsimple_e env arg fmt flags bufsize b =
     (case va_arg_string b of
        None \<Rightarrow> Undefined
      | Some (enc, b1) \<Rightarrow>
          if peek fmt \<noteq> CHR ''s'' \<and> peek fmt \<noteq> CHR ''t''
          then converterr ''(unknown parser marker combination)'' arg bufsize fmt b1
          else
            (case va_arg_pointer b1 of
               None \<Rightarrow> Undefined
             | Some (None, b2) \<Rightarrow> converterr ''(buffer is nullptr)'' arg bufsize fmt b2
             | Some (Some buffer, b2) \<Rightarrow>
                 if peek fmt = CHR ''t'' \<and> (PyBytes_Check arg \<or> PyByteArray_Check arg)
                 then Fatal ''unimplemented: PyObject_AsCharBuffer''
                 else if PyUnicode_Check arg
                 then
                   (case PyUnicode_AsEncodedString (cur_thread b2) arg
                           (case enc of None \<Rightarrow> PyUnicode_GetDefaultEncoding | Some e \<Rightarrow> e) of
                      (None, thread1) \<Rightarrow>
                        converterr ''(encoding failed)'' arg bufsize fmt (with_thread b2 thread1)
                    | (Some s, thread1) \<Rightarrow>
                        if peek (tl fmt) = CHR ''#''
                        then convertsimple_e_hash s arg (tl (tl fmt)) flags bufsize buffer
                               (with_thread b2 thread1)
                        else convertsimple_e_terminated s arg (tl fmt) bufsize buffer
                               (with_thread b2 thread1))
                 else converterr
                        (if peek fmt = CHR ''s'' then ''str'' else ''str, bytes or bytearray'')
                        arg bufsize fmt b2))"

text \<open>The codes \<^verbatim>\<open>S\<close>, \<^verbatim>\<open>Y\<close> and \<^verbatim>\<open>U\<close>: an object of the given type.\<close>

definition convertsimple_object ::
  "bool \<Rightarrow> string \<Rightarrow> pyobj \<Rightarrow> string \<Rightarrow> nat \<Rightarrow> binding \<Rightarrow> conversion" where
  "convertsimple_object check expected arg fmt bufsize b =
     (case va_arg_pointer b of
        None \<Rightarrow> Undefined
      | Some (p, b1) \<Rightarrow>
          if check then assign_and_break b1 p (ObjectCell (Some arg)) fmt
          else converterr expected arg bufsize fmt b1)"

text \<open>The codes \<^verbatim>\<open>O\<close>, \<^verbatim>\<open>O!\<close> and \<^verbatim>\<open>O&\<close>.\<close>

definition convertsimple_O ::
  "Env \<Rightarrow> pyobj \<Rightarrow> string \<Rightarrow> nat \<Rightarrow> binding \<Rightarrow> conversion" where
  "convertsimple_O env arg fmt bufsize b =
     (if peek fmt = CHR ''!''
      then (case va_arg_type b of
              None \<Rightarrow> Undefined
            | Some (type, b1) \<Rightarrow>
                (case va_arg_pointer b1 of
                   None \<Rightarrow> Undefined
                 | Some (p, b2) \<Rightarrow>
                     if PyType_IsSubtype (typeName arg) type
                     then assign_and_break b2 p (ObjectCell (Some arg)) (tl fmt)
                     else converterr type arg bufsize fmt b2))
      else if peek fmt = CHR ''&''
      then (case va_arg_converter b of
              None \<Rightarrow> Undefined
            | Some (convert, b1) \<Rightarrow>
                (case va_arg_pointer b1 of
                   None \<Rightarrow> Undefined
                 | Some (addr, b2) \<Rightarrow>
                     (case converters env convert (cur_thread b2) (Some arg) addr of
                        (res, thread1) \<Rightarrow>
                          if res = 0
                          then converterr ''(unspecified)'' arg bufsize fmt (with_thread b2 thread1)
                          else if res = Py_CLEANUP_SUPPORTED
                          then (case addcleanup addr (with_thread b2 thread1) (converter convert) of
                                  Returns (rc, b3) \<Rightarrow>
                                    if rc = - 1
                                    then converterr ''(cleanup problem)'' arg bufsize fmt b3
                                    else Returns (None, tl fmt, b3)
                                | Fatal msg \<Rightarrow> Fatal msg
                                | Undefined \<Rightarrow> Undefined)
                          else Returns (None, tl fmt, with_thread b2 thread1))))
      else (case va_arg_pointer b of
              None \<Rightarrow> Undefined
            | Some (p, b1) \<Rightarrow> assign_and_break b1 p (ObjectCell (Some arg)) fmt))"

text \<open>The code \<^verbatim>\<open>w*\<close>: a contiguous buffer with read-write access.\<close>

definition PyErr_Clear :: "Thread \<Rightarrow> Thread" where
  "PyErr_Clear thread = thread\<lparr>pending_exception := None\<rparr>"

definition convertsimple_w ::
  "Env \<Rightarrow> pyobj \<Rightarrow> string \<Rightarrow> nat \<Rightarrow> binding \<Rightarrow> conversion" where
  "convertsimple_w env arg fmt bufsize b =
     (case va_arg_pointer b of
        None \<Rightarrow> Undefined
      | Some (p, b1) \<Rightarrow>
          if peek fmt \<noteq> CHR ''*''
          then converterr (''(invalid use of '' @ [CHR 0x27] @ ''w'' @ [CHR 0x27] @
                           '' format character)'') arg bufsize fmt b1
          else
            (case PyObject_GetBuffer env (cur_thread b1) arg (view_of b1 p) PyBUF_WRITABLE of
               (rc, view, thread1) \<Rightarrow>
                 if rc < 0
                 then converterr ''read-write bytes-like object'' arg bufsize fmt
                        (with_thread b1 (PyErr_Clear (store_view thread1 p view)))
                 else
                   (case view of
                      None \<Rightarrow> Undefined
                    | Some v \<Rightarrow>
                        (case PyBuffer_IsContiguous v CHR ''C'' of
                           None \<Rightarrow> Undefined
                         | Some c \<Rightarrow>
                             if c = 0
                             then (case PyBuffer_Release env thread1 v of
                                     (v2, thread2) \<Rightarrow>
                                       converterr ''contiguous buffer'' arg bufsize fmt
                                         (with_thread b1 (store_view thread2 p (Some v2))))
                             else addcleanup_and_break p
                                    (with_thread b1 (store_view thread1 p view))
                                    cleanup_buffer arg bufsize fmt (tl fmt)))))"

text \<open>
  \<^verbatim>\<open>convertsimple\<close>: the switch on the format code. On success the caller's format
  pointer moves behind the item; on failure it stays.
\<close>

definition convertsimple_switch ::
  "Env \<Rightarrow> pyobj \<Rightarrow> char \<Rightarrow> string \<Rightarrow> int \<Rightarrow> nat \<Rightarrow> binding \<Rightarrow> conversion" where
  "convertsimple_switch env arg c fmt flags bufsize b =
     (if c = CHR ''b'' then convertsimple_b arg fmt b
      else if c = CHR ''B'' then convertsimple_B arg fmt b
      else if c = CHR ''h'' then convertsimple_h arg fmt b
      else if c = CHR ''H'' then convertsimple_H arg fmt b
      else if c = CHR ''i'' then convertsimple_i arg fmt b
      else if c = CHR ''I'' then convertsimple_I arg fmt b
      else if c = CHR ''n'' then convertsimple_n arg fmt b
      else if c = CHR ''l'' then convertsimple_l arg fmt b
      else if c = CHR ''k'' then convertsimple_k arg fmt bufsize b
      else if c = CHR ''L'' then convertsimple_L arg fmt b
      else if c = CHR ''K'' then convertsimple_K arg fmt bufsize b
      else if c = CHR ''f'' then convertsimple_f arg fmt b
      else if c = CHR ''d'' then convertsimple_d arg fmt b
      else if c = CHR ''D'' then convertsimple_D arg fmt b
      else if c = CHR ''c'' then convertsimple_c arg fmt bufsize b
      else if c = CHR ''C'' then convertsimple_C arg fmt bufsize b
      else if c = CHR ''p'' then convertsimple_p arg fmt b
      else if c = CHR ''y'' then convertsimple_y env arg fmt flags bufsize b
      else if c = CHR ''s'' \<or> c = CHR ''z'' then convertsimple_s env c arg fmt flags bufsize b
      else if c = CHR ''u'' \<or> c = CHR ''Z'' then convertsimple_u env c arg fmt flags bufsize b
      else if c = CHR ''e'' then convertsimple_e env arg fmt flags bufsize b
      else if c = CHR ''S''
      then convertsimple_object (PyBytes_Check arg) ''bytes'' arg fmt bufsize b
      else if c = CHR ''Y''
      then convertsimple_object (PyByteArray_Check arg) ''bytearray'' arg fmt bufsize b
      else if c = CHR ''U''
      then convertsimple_object (PyUnicode_Check arg) ''str'' arg fmt bufsize b
      else if c = CHR ''O'' then convertsimple_O env arg fmt bufsize b
      else if c = CHR ''w'' then convertsimple_w env arg fmt bufsize b
      else converterr ''(impossible<bad format char>)'' arg bufsize fmt b)"

definition convertsimple ::
  "Env \<Rightarrow> pyobj \<Rightarrow> string \<Rightarrow> int \<Rightarrow> nat \<Rightarrow> binding \<Rightarrow> conversion" where
  "convertsimple env arg fmt flags bufsize b =
     (case convertsimple_switch env arg (peek fmt) (tl fmt) flags bufsize b of
        Returns (None, fmt1, b1) \<Rightarrow> Returns (None, fmt1, b1)
      | Returns (Some msg, fmt1, b1) \<Rightarrow> Returns (Some msg, fmt, b1)
      | Fatal msg \<Rightarrow> Fatal msg
      | Undefined \<Rightarrow> Undefined)"

subsection \<open>Error messages\<close>

definition Py_ISALPHA :: "char \<Rightarrow> bool" where
  "Py_ISALPHA c =
     ((65 \<le> (of_char c :: nat) \<and> (of_char c :: nat) \<le> 90) \<or>
      (97 \<le> (of_char c :: nat) \<and> (of_char c :: nat) \<le> 122))"

text \<open>
  The loop of \<^verbatim>\<open>seterror\<close> over the item numbers in \<^verbatim>\<open>levels\<close>: it prints them
  zero-based, and stops once the message is 220 characters long. The list of levels holds
  the positive entries of the array; the entry 0 that ends them is left out.
\<close>

fun seterror_items :: "string \<Rightarrow> int list \<Rightarrow> string" where
  "seterror_items buf [] = buf"
| "seterror_items buf (l # levels) =
     (if 0 < l \<and> length buf < 220
      then seterror_items (buf @ '', item '' @ decimal (l - 1)) levels
      else buf)"

definition seterror ::
  "int \<Rightarrow> string \<Rightarrow> int list \<Rightarrow> string option \<Rightarrow> string option \<Rightarrow> Thread \<Rightarrow> Thread" where
  "seterror iarg msg levels fname message thread =
     (if hasPendingException thread then thread
      else
        raiseWithFmt thread (if take 1 msg = ''('' then kSystemError else kTypeError)
          (case message of
             Some m \<Rightarrow> m
           | None \<Rightarrow>
               take 511
                 ((if iarg \<noteq> 0
                   then seterror_items
                          ((case fname of None \<Rightarrow> [] | Some f \<Rightarrow> take 200 f @ ''() '') @
                           ''argument '' @ decimal iarg)
                          levels
                   else (case fname of None \<Rightarrow> [] | Some f \<Rightarrow> take 200 f @ ''() '') @
                        ''argument'') @
                  '' '' @ take 256 msg)))"

subsection \<open>Conversion of an item and of a tuple\<close>

text \<open>
  The first loop of \<^verbatim>\<open>converttuple\<close>: the number of items of the tuple whose format
  starts behind the opening parenthesis.
\<close>

fun count_tuple_items :: "string \<Rightarrow> nat \<Rightarrow> int \<Rightarrow> int" where
  "count_tuple_items [] level n = n"
| "count_tuple_items (c # format) level n =
     (if c = CHR ''('' then count_tuple_items format (Suc level) (if level = 0 then n + 1 else n)
      else if c = CHR '')''
      then (if level = 0 then n else count_tuple_items format (level - 1) n)
      else if c = CHR '':'' \<or> c = CHR '';'' \<or> c = CHR 0x00 then n
      else if level = 0 \<and> Py_ISALPHA c then count_tuple_items format level (n + 1)
      else count_tuple_items format level n)"

text \<open>
  The result of the conversion of an item: the message, the format, the item numbers
  written to \<^verbatim>\<open>levels\<close>, and the state.
\<close>

type_synonym item_conversion = "(string option \<times> string \<times> int list \<times> binding) run"

definition tuple_type_msg :: "bool \<Rightarrow> int \<Rightarrow> pyobj \<Rightarrow> nat \<Rightarrow> string" where
  "tuple_type_msg toplevel n arg bufsize =
     take (bufsize - 1)
       ((if toplevel then ''expected '' @ decimal n @ '' arguments, not ''
         else ''must be '' @ decimal n @ ''-item sequence, not '') @
        take 50 (if arg = NoneObj then ''None'' else typeName arg))"

definition tuple_length_msg :: "bool \<Rightarrow> int \<Rightarrow> int \<Rightarrow> nat \<Rightarrow> string" where
  "tuple_length_msg toplevel n len bufsize =
     take (bufsize - 1)
       (if toplevel then ''expected '' @ decimal n @ '' arguments, not '' @ decimal len
        else ''must be sequence of length '' @ decimal n @ '', not '' @ decimal len)"

text \<open>
  What \<^verbatim>\<open>convertitem\<close> makes of the result of the tuple or simple conversion. After a
  tuple it steps over one more character of the descriptor (\<^verbatim>\<open>format++\<close>), the closing
  parenthesis. Where the descriptor has ended instead (an unclosed parenthesis, which only
  the scan of \<^verbatim>\<open>vGetArgs1Impl\<close> refuses), the step leaves the string, and what is
  read from there on is not defined.
\<close>

definition after_tuple :: "string \<Rightarrow> item_conversion \<Rightarrow> item_conversion" where
  "after_tuple fmt r =
     (case r of
        Returns (None, fmt1, levels, b1) \<Rightarrow>
          (case fmt1 of [] \<Rightarrow> Undefined | c # rest \<Rightarrow> Returns (None, rest, levels, b1))
      | Returns (Some msg, fmt1, levels, b1) \<Rightarrow> Returns (Some msg, fmt, levels, b1)
      | Fatal msg \<Rightarrow> Fatal msg
      | Undefined \<Rightarrow> Undefined)"

definition after_simple :: "nat \<Rightarrow> string \<Rightarrow> conversion \<Rightarrow> item_conversion" where
  "after_simple cap fmt r =
     (case r of
        Returns (None, fmt1, b1) \<Rightarrow> Returns (None, fmt1, [], b1)
      | Returns (Some msg, fmt1, b1) \<Rightarrow>
          if cap = 0 then Undefined else Returns (Some msg, fmt, [], b1)
      | Fatal msg \<Rightarrow> Fatal msg
      | Undefined \<Rightarrow> Undefined)"

text \<open>
  \<^verbatim>\<open>convertitem\<close> and \<^verbatim>\<open>converttuple\<close>, with the second loop of
  \<^verbatim>\<open>converttuple\<close> over the \<open>k\<close> items from item \<open>i\<close> on. \<open>cap\<close> is the number of
  entries of the array \<^verbatim>\<open>levels\<close> from the pointer on that the function receives: the
  array has 32 entries, and every tuple passes \<^verbatim>\<open>levels + 1\<close> to its items.
\<close>

function convertitem ::
      "Env \<Rightarrow> nat \<Rightarrow> pyobj \<Rightarrow> string \<Rightarrow> int \<Rightarrow> nat \<Rightarrow> binding \<Rightarrow> item_conversion"
  and converttuple ::
      "Env \<Rightarrow> nat \<Rightarrow> pyobj \<Rightarrow> string \<Rightarrow> int \<Rightarrow> nat \<Rightarrow> bool \<Rightarrow> binding \<Rightarrow> item_conversion"
  and converttuple_items ::
      "Env \<Rightarrow> nat \<Rightarrow> pyobj \<Rightarrow> nat \<Rightarrow> int \<Rightarrow> string \<Rightarrow> string \<Rightarrow> int \<Rightarrow> nat \<Rightarrow> binding
         \<Rightarrow> item_conversion"
where
  "convertitem env cap arg fmt flags bufsize b =
     (if peek fmt = CHR ''(''
      then after_tuple fmt (converttuple env cap arg (tl fmt) flags bufsize False b)
      else after_simple cap fmt (convertsimple env arg fmt flags bufsize b))"
| "converttuple env cap arg fmt flags bufsize toplevel b =
     (if \<not> PySequence_Check env arg \<or> PyBytes_Check arg
      then (if cap = 0 then Undefined
            else Returns (Some (tuple_type_msg toplevel (count_tuple_items fmt 0 0) arg bufsize),
                          fmt, [],
                          b\<lparr>msgbuf :=
                              tuple_type_msg toplevel (count_tuple_items fmt 0 0) arg bufsize\<rparr>))
      else (case PySequence_Size (cur_thread b) (Some arg) of
              (len, thread1) \<Rightarrow>
                if sint len \<noteq> count_tuple_items fmt 0 0
                then (if cap = 0 then Undefined
                      else Returns
                             (Some (tuple_length_msg toplevel (count_tuple_items fmt 0 0)
                                      (sint len) bufsize),
                              fmt, [],
                              b\<lparr>cur_thread := thread1,
                                msgbuf :=
                                  tuple_length_msg toplevel (count_tuple_items fmt 0 0)
                                    (sint len) bufsize\<rparr>))
                else converttuple_items env cap arg (nat (count_tuple_items fmt 0 0)) 0 fmt fmt
                       flags bufsize (b\<lparr>cur_thread := thread1\<rparr>)))"
| "converttuple_items env cap arg 0 i fmt0 fmt flags bufsize b = Returns (None, fmt, [], b)"
| "converttuple_items env cap arg (Suc k) i fmt0 fmt flags bufsize b =
     (case PySequence_GetItem (cur_thread b) (Some arg) i of
        (None, thread1) \<Rightarrow>
          if cap < 2 then Undefined
          else Returns (Some (take bufsize ''is not retrievable''), fmt0, [i + 1],
                        b\<lparr>cur_thread := PyErr_Clear thread1,
                          msgbuf := take bufsize ''is not retrievable''\<rparr>)
      | (Some item, thread1) \<Rightarrow>
          (case cap of
             0 \<Rightarrow> Undefined
           | Suc cap1 \<Rightarrow>
               (case convertitem env cap1 item fmt flags bufsize (b\<lparr>cur_thread := thread1\<rparr>) of
                  Returns (None, fmt1, levels, b1) \<Rightarrow>
                    converttuple_items env cap arg k (i + 1) fmt0 fmt1 flags bufsize
                      (decref b1 item)
                | Returns (Some msg, fmt1, levels, b1) \<Rightarrow>
                    Returns (Some msg, fmt0, (i + 1) # levels, decref b1 item)
                | Fatal msg \<Rightarrow> Fatal msg
                | Undefined \<Rightarrow> Undefined)))"
  by pat_completeness auto
termination
  by (relation "measures [
        (\<lambda>x. case x of Inl (env, cap, _) \<Rightarrow> 3 * cap + 2
                 | Inr (Inl (env, cap, _)) \<Rightarrow> 3 * cap + 1
                 | Inr (Inr (env, cap, _)) \<Rightarrow> 3 * cap),
        (\<lambda>x. case x of Inl _ \<Rightarrow> 0 | Inr (Inl _) \<Rightarrow> 0
                 | Inr (Inr (env, cap, arg, k, _)) \<Rightarrow> k)]") auto


subsection \<open>Positional binding\<close>

text \<open>
  The first loop of \<^verbatim>\<open>vGetArgs1Impl\<close> over the format: the name of the function or
  the custom message behind the format, the nesting level at the end, and the greatest and
  least number of arguments.
\<close>

fun scan_format ::
  "string \<Rightarrow> nat \<Rightarrow> int \<Rightarrow> int \<Rightarrow> (string option \<times> string option \<times> nat \<times> int \<times> int) run" where
  "scan_format [] level maxargs minargs = Returns (None, None, level, maxargs, minargs)"
| "scan_format (c # format) level maxargs minargs =
     (if c = CHR ''(''
      then (if 30 \<le> Suc level
            then Fatal ''too many tuple nesting levels in argument format string''
            else scan_format format (Suc level) (if level = 0 then maxargs + 1 else maxargs) minargs)
      else if c = CHR '')''
      then (if level = 0
            then Fatal (''excess '' @ [CHR 0x27] @ '')'' @ [CHR 0x27] @ '' in getargs format'')
            else scan_format format (level - 1) maxargs minargs)
      else if c = CHR 0x00 then Returns (None, None, level, maxargs, minargs)
      else if c = CHR '':'' then Returns (Some format, None, level, maxargs, minargs)
      else if c = CHR '';'' then Returns (None, Some format, level, maxargs, minargs)
      else if c = CHR ''|'' then scan_format format level maxargs (if level = 0 then maxargs else minargs)
      else scan_format format level
             (if level = 0 \<and> Py_ISALPHA c \<and> c \<noteq> CHR ''e'' then maxargs + 1 else maxargs) minargs)"

definition new_binding :: "Thread \<Rightarrow> va_arg list \<Rightarrow> binding" where
  "new_binding thread va =
     \<lparr>cur_thread = thread, p_va = va, freelist_entries = [],
      freelist_capacity = STATIC_FREELIST_ENTRIES, entries_malloced = None, msgbuf = [],
      destructor_calls = []\<rparr>"

text \<open>
  The set-up of the cleanup list, the same in the three binders: the static array of
  \<^verbatim>\<open>STATIC_FREELIST_ENTRIES\<close> entries, or an array from \<^verbatim>\<open>PyMem_NEW\<close> when the call
  may register more (\<open>Inl\<close>: the allocation failed, \<^verbatim>\<open>PyErr_NoMemory\<close> is raised and
  the binder returns 0).
\<close>

definition freelist_init :: "Thread \<Rightarrow> va_arg list \<Rightarrow> int \<Rightarrow> binding + binding" where
  "freelist_init thread va len =
     (if int STATIC_FREELIST_ENTRIES < len
      then (case PyMem_NEW thread of
              (None, thread1) \<Rightarrow> Inl (new_binding (raiseWithFmt thread1 kMemoryError []) va)
            | (Some entries, thread1) \<Rightarrow>
                Inr ((new_binding thread1 va)
                       \<lparr>freelist_capacity := nat len, entries_malloced := Some entries\<rparr>))
      else Inr (new_binding thread va))"

definition function_name :: "string option \<Rightarrow> nat \<Rightarrow> string" where
  "function_name fname width =
     (case fname of None \<Rightarrow> ''function'' | Some f \<Rightarrow> take width f @ ''()'')"

definition arity_msg :: "string option \<Rightarrow> int \<Rightarrow> int \<Rightarrow> int \<Rightarrow> string" where
  "arity_msg fname minargs maxargs nargs =
     function_name fname 150 @ '' takes '' @
     (if minargs = maxargs then ''exactly'' else if nargs < minargs then ''at least'' else ''at most'') @
     '' '' @ decimal (if nargs < minargs then minargs else maxargs) @ '' argument'' @
     (if (if nargs < minargs then minargs else maxargs) = 1 then [] else ''s'') @
     '' ('' @ decimal nargs @ '' given)''"

text \<open>
  The second loop of \<^verbatim>\<open>vGetArgs1Impl\<close>, over the arguments from argument \<open>i\<close> on:
  the format behind the last item when every item is converted, or the state in which
  the error of the first item that fails is set.
\<close>

fun convert_arguments ::
  "Env \<Rightarrow> pyobj list \<Rightarrow> int \<Rightarrow> string \<Rightarrow> int \<Rightarrow> string option \<Rightarrow> string option \<Rightarrow> binding
     \<Rightarrow> ((string \<times> binding) + binding) run" where
  "convert_arguments env [] i fmt flags fname message b = Returns (Inl (fmt, b))"
| "convert_arguments env (arg # stack) i fmt flags fname message b =
     (case convertitem env 32 arg (if peek fmt = CHR ''|'' then tl fmt else fmt) flags 256 b of
        Returns (None, fmt1, levels, b1) \<Rightarrow>
          convert_arguments env stack (i + 1) fmt1 flags fname message b1
      | Returns (Some msg, fmt1, levels, b1) \<Rightarrow>
          Returns (Inr (b1\<lparr>cur_thread :=
                             seterror (i + 1) msg levels fname message (cur_thread b1)\<rparr>))
      | Fatal msg \<Rightarrow> Fatal msg
      | Undefined \<Rightarrow> Undefined)"

text \<open>The old-style call of \<^verbatim>\<open>vGetArgs1Impl\<close> (\<^verbatim>\<open>FLAG_COMPAT\<close>).\<close>

definition vGetArgs1Impl_compat ::
  "Env \<Rightarrow> pyobj option \<Rightarrow> string \<Rightarrow> int \<Rightarrow> string option \<Rightarrow> string option \<Rightarrow> int \<Rightarrow> int
     \<Rightarrow> binding \<Rightarrow> (int \<times> binding) run" where
  "vGetArgs1Impl_compat env compat_args format flags fname message minargs maxargs b =
     (if maxargs = 0
      then (case compat_args of
              None \<Rightarrow> Returns (1, b)
            | Some args \<Rightarrow>
                cleanreturn env 0
                  (raise b kTypeError (function_name fname 200 @ '' takes no arguments'')))
      else if minargs = 1 \<and> maxargs = 1
      then (case compat_args of
              None \<Rightarrow>
                cleanreturn env 0
                  (raise b kTypeError
                     (function_name fname 200 @ '' takes at least one argument''))
            | Some args \<Rightarrow>
                (case convertitem env 32 args format flags 256 b of
                   Returns (None, fmt1, levels, b1) \<Rightarrow> cleanreturn env 1 b1
                 | Returns (Some msg, fmt1, levels, b1) \<Rightarrow>
                     cleanreturn env 0
                       (b1\<lparr>cur_thread :=
                             seterror (case levels of [] \<Rightarrow> 0 | l # rest \<Rightarrow> l) msg (tl levels)
                               fname message (cur_thread b1)\<rparr>)
                 | Fatal msg \<Rightarrow> Fatal msg
                 | Undefined \<Rightarrow> Undefined))
      else cleanreturn env 0
             (raise b kSystemError ''old style getargs format uses new features''))"

definition vGetArgs1Impl ::
  "Env \<Rightarrow> Thread \<Rightarrow> pyobj option \<Rightarrow> pyobj list \<Rightarrow> string \<Rightarrow> va_arg list \<Rightarrow> int
     \<Rightarrow> (int \<times> binding) run" where
  "vGetArgs1Impl env thread compat_args stack format va flags =
     (case scan_format format 0 0 (- 1) of
        Returns (fname, message, level, maxargs, minargs0) \<Rightarrow>
          if level \<noteq> 0
          then Fatal (''missing '' @ [CHR 0x27] @ '')'' @ [CHR 0x27] @ '' in getargs format'')
          else
            (case freelist_init thread va maxargs of
               Inl b \<Rightarrow> Returns (0, b)
             | Inr b \<Rightarrow>
                 if (flags AND FLAG_COMPAT) \<noteq> 0
                 then vGetArgs1Impl_compat env compat_args format (flags AND NOT FLAG_COMPAT)
                        fname message (if minargs0 < 0 then maxargs else minargs0) maxargs b
                 else if int (length stack) < (if minargs0 < 0 then maxargs else minargs0) \<or>
                         maxargs < int (length stack)
                 then cleanreturn env 0
                        (raise b kTypeError
                           (case message of
                              None \<Rightarrow>
                                arity_msg fname (if minargs0 < 0 then maxargs else minargs0) maxargs
                                  (int (length stack))
                            | Some m \<Rightarrow> m))
                 else
                   (case convert_arguments env stack 0 format (flags AND NOT FLAG_COMPAT)
                           fname message b of
                      Returns (Inr b1) \<Rightarrow> cleanreturn env 0 b1
                    | Returns (Inl (fmt1, b1)) \<Rightarrow>
                        if peek fmt1 \<noteq> CHR 0x00 \<and> \<not> Py_ISALPHA (peek fmt1) \<and>
                           peek fmt1 \<noteq> CHR ''('' \<and> peek fmt1 \<noteq> CHR ''|'' \<and>
                           peek fmt1 \<noteq> CHR '':'' \<and> peek fmt1 \<noteq> CHR '';''
                        then cleanreturn env 0
                               (raise b1 kSystemError (''bad format string: '' @ take 200 format))
                        else cleanreturn env 1 b1
                    | Fatal msg \<Rightarrow> Fatal msg
                    | Undefined \<Rightarrow> Undefined))
      | Fatal msg \<Rightarrow> Fatal msg
      | Undefined \<Rightarrow> Undefined)"

definition vgetargs1 ::
  "Env \<Rightarrow> Thread \<Rightarrow> pyobj option \<Rightarrow> string \<Rightarrow> va_arg list \<Rightarrow> int \<Rightarrow> (int \<times> binding) run" where
  "vgetargs1 env thread args format va flags =
     (if (flags AND FLAG_COMPAT) \<noteq> 0 then vGetArgs1Impl env thread args [] format va flags
      else (case args of
              None \<Rightarrow> Undefined
            | Some (TupleObj array) \<Rightarrow> vGetArgs1Impl env thread args array format va flags
            | Some other \<Rightarrow>
                Returns (0, new_binding
                              (raiseWithFmt thread kSystemError
                                 ''new style getargs format but argument is not a tuple'')
                              va)))"

definition PyArg_Parse ::
  "Env \<Rightarrow> Thread \<Rightarrow> pyobj option \<Rightarrow> string \<Rightarrow> va_arg list \<Rightarrow> (int \<times> binding) run" where
  "PyArg_Parse env thread args format va = vgetargs1 env thread args format va FLAG_COMPAT"

definition PyArg_ParseTuple ::
  "Env \<Rightarrow> Thread \<Rightarrow> pyobj option \<Rightarrow> string \<Rightarrow> va_arg list \<Rightarrow> (int \<times> binding) run" where
  "PyArg_ParseTuple env thread args format va = vgetargs1 env thread args format va 0"

definition PyArg_ParseTuple_SizeT ::
  "Env \<Rightarrow> Thread \<Rightarrow> pyobj option \<Rightarrow> string \<Rightarrow> va_arg list \<Rightarrow> (int \<times> binding) run" where
  "PyArg_ParseTuple_SizeT env thread args format va =
     vgetargs1 env thread args format va FLAG_SIZE_T"

definition PyArg_ParseStack ::
  "Env \<Rightarrow> Thread \<Rightarrow> pyobj list \<Rightarrow> string \<Rightarrow> va_arg list \<Rightarrow> (int \<times> binding) run" where
  "PyArg_ParseStack env thread args format va = vGetArgs1Impl env thread None args format va 0"


subsection \<open>Skipping an item\<close>

definition IS_END_OF_FORMAT :: "char \<Rightarrow> bool" where
  "IS_END_OF_FORMAT c = (c = CHR 0x00 \<or> c = CHR '';'' \<or> c = CHR '':'')"

text \<open>
  \<^verbatim>\<open>va_arg\<close> in \<^verbatim>\<open>skipitem\<close>, whose list of variadic arguments may be null: the
  argument is dropped whatever it is.
\<close>

definition va_skip :: "va_arg list option \<Rightarrow> va_arg list option option" where
  "va_skip va =
     (case va of
        None \<Rightarrow> Some None
      | Some [] \<Rightarrow> None
      | Some (x # rest) \<Rightarrow> Some (Some rest))"

type_synonym skipped = "(string option \<times> string \<times> va_arg list option) run"

text \<open>The string codes of \<^verbatim>\<open>skipitem\<close>, into which the code \<^verbatim>\<open>e\<close> falls through.\<close>

definition skipitem_string :: "char \<Rightarrow> string \<Rightarrow> va_arg list option \<Rightarrow> skipped" where
  "skipitem_string c format va =
     (case va_skip va of
        None \<Rightarrow> Undefined
      | Some va1 \<Rightarrow>
          if peek format = CHR ''#''
          then (case va_skip va1 of
                  None \<Rightarrow> Undefined
                | Some va2 \<Rightarrow> Returns (None, tl format, va2))
          else if (c = CHR ''s'' \<or> c = CHR ''z'' \<or> c = CHR ''y'') \<and> peek format = CHR ''*''
          then Returns (None, tl format, va1)
          else Returns (None, format, va1))"

definition skipitem_object :: "string \<Rightarrow> va_arg list option \<Rightarrow> skipped" where
  "skipitem_object format va =
     (if peek format = CHR ''!'' \<or> peek format = CHR ''&''
      then (case va_skip va of
              None \<Rightarrow> Undefined
            | Some va1 \<Rightarrow>
                (case va_skip va1 of
                   None \<Rightarrow> Undefined
                 | Some va2 \<Rightarrow> Returns (None, tl format, va2)))
      else (case va_skip va of
              None \<Rightarrow> Undefined
            | Some va1 \<Rightarrow> Returns (None, format, va1)))"

text \<open>
  \<^verbatim>\<open>skipitem\<close>, and its loop over the items of a tuple. An item that is skipped
  leaves a shorter format (lemma \<open>skipitem_shorter\<close>); the loop tests this, which makes
  the recursion well-founded.
\<close>

function skipitem :: "string \<Rightarrow> va_arg list option \<Rightarrow> int \<Rightarrow> skipped"
  and skipitem_tuple :: "string \<Rightarrow> string \<Rightarrow> va_arg list option \<Rightarrow> int \<Rightarrow> skipped"
where
  "skipitem fmt va flags =
     (if peek fmt \<in> set ''bBhHiIlkLKnfdDcCpSYU''
      then (case va_skip va of None \<Rightarrow> Undefined | Some va1 \<Rightarrow> Returns (None, tl fmt, va1))
      else if peek fmt = CHR ''e''
      then (case va_skip va of
              None \<Rightarrow> Undefined
            | Some va1 \<Rightarrow>
                if \<not> (peek (tl fmt) = CHR ''s'' \<or> peek (tl fmt) = CHR ''t'')
                then Returns (Some ''impossible<bad format char>'', fmt, va1)
                else skipitem_string (peek fmt) (tl (tl fmt)) va1)
      else if peek fmt \<in> set ''szyuZw'' then skipitem_string (peek fmt) (tl fmt) va
      else if peek fmt = CHR ''O'' then skipitem_object (tl fmt) va
      else if peek fmt = CHR ''('' then skipitem_tuple fmt (tl fmt) va flags
      else if peek fmt = CHR '')''
      then Returns (Some ''Unmatched right paren in format string'', fmt, va)
      else Returns (Some ''impossible<bad format char>'', fmt, va))"
| "skipitem_tuple fmt0 fmt va flags =
     (if peek fmt = CHR '')'' then Returns (None, tl fmt, va)
      else if IS_END_OF_FORMAT (peek fmt)
      then Returns (Some ''Unmatched left paren in format string'', fmt0, va)
      else (case skipitem fmt va flags of
              Returns (None, fmt1, va1) \<Rightarrow>
                if length fmt1 < length fmt then skipitem_tuple fmt0 fmt1 va1 flags
                else Undefined
            | Returns (Some msg, fmt1, va1) \<Rightarrow> Returns (Some msg, fmt0, va1)
            | Fatal msg \<Rightarrow> Fatal msg
            | Undefined \<Rightarrow> Undefined))"
  by pat_completeness auto
termination
  by (relation "measure (\<lambda>x. case x of Inl (fmt, _) \<Rightarrow> 2 * length fmt
                                | Inr (fmt0, fmt, _) \<Rightarrow> 2 * length fmt + 1)")
     (auto simp: peek_def split: list.splits)

declare skipitem.simps [simp del] skipitem_tuple.simps [simp del]

subsection \<open>Positional and keyword binding\<close>

text \<open>The part of a format behind the first occurrence of a character, as \<^verbatim>\<open>strchr\<close> finds it.\<close>

definition behind :: "char \<Rightarrow> string \<Rightarrow> string option" where
  "behind c format = (case dropWhile (\<lambda>x. x \<noteq> c) format of [] \<Rightarrow> None | x # rest \<Rightarrow> Some rest)"

definition format_fname :: "string \<Rightarrow> string option" where
  "format_fname format = behind CHR '':'' format"

definition format_custom_msg :: "string \<Rightarrow> string option" where
  "format_custom_msg format =
     (case behind CHR '':'' format of Some f \<Rightarrow> None | None \<Rightarrow> behind CHR '';'' format)"

text \<open>
  Modelled from the spec: the dict functions of the C-API (\<^verbatim>\<open>dictobject.cpp\<close>, not
  part of the sources at hand). The keywords of a call are a dict, here the list of its
  items; \<^verbatim>\<open>PyDict_GetItemString\<close> looks a name up among the keys that are strings.
\<close>

definition str_of :: "string \<Rightarrow> pyobj" where
  "str_of name = StrObj (map of_char name)"

definition PyDict_GetItemString :: "(pyobj \<times> pyobj) list \<Rightarrow> string \<Rightarrow> pyobj option" where
  "PyDict_GetItemString keywords key = map_of keywords (str_of key)"

definition PyUnicode_EqualToASCIIString :: "pyobj \<Rightarrow> string \<Rightarrow> bool" where
  "PyUnicode_EqualToASCIIString key name = (key = str_of name)"

text \<open>What the format directives \<^verbatim>\<open>%U\<close> and \<^verbatim>\<open>%s\<close> print for a key.\<close>

fun key_text :: "pyobj \<Rightarrow> string" where
  "key_text (StrObj cs) = map char_of cs"
| "key_text obj = typeName obj"

definition quoted :: "string \<Rightarrow> string" where
  "quoted name = [CHR 0x27] @ name @ [CHR 0x27]"

definition given_by_name_and_position :: "string \<Rightarrow> int \<Rightarrow> string" where
  "given_by_name_and_position keyword i =
     ''Argument given by name ('' @ quoted keyword @ '') and position ('' @ decimal (i + 1) @ '')''"

definition required_argument_not_found :: "string \<Rightarrow> int \<Rightarrow> string" where
  "required_argument_not_found keyword i =
     ''Required argument '' @ quoted keyword @ '' (pos '' @ decimal (i + 1) @ '') not found''"

definition takes_positional :: "string \<Rightarrow> int \<Rightarrow> int \<Rightarrow> string" where
  "takes_positional how n nargs =
     ''Function takes '' @ how @ '' '' @ decimal n @ '' positional arguments ('' @
     decimal nargs @ '' given)''"

definition takes_at_most :: "string option \<Rightarrow> int \<Rightarrow> int \<Rightarrow> string" where
  "takes_at_most fname len given =
     (case fname of None \<Rightarrow> ''function'' | Some f \<Rightarrow> f @ ''()'') @ '' takes at most '' @
     decimal len @ '' argument'' @ (if len = 1 then [] else ''s'') @
     '' ('' @ decimal given @ '' given)''"

definition invalid_keyword :: "pyobj \<Rightarrow> string" where
  "invalid_keyword key =
     quoted (key_text key) @ '' is an invalid keyword argument for this function''"


text \<open>
  What one round of a loop does: it returns from the function (with the result of
  \<^verbatim>\<open>cleanreturn\<close>), leaves the loop, or goes on with the next round.
\<close>

datatype 'a round = Return "(int \<times> binding) run" | Break 'a | Continue 'a

definition fail :: "Env \<Rightarrow> binding \<Rightarrow> LayoutId \<Rightarrow> string \<Rightarrow> 'a round" where
  "fail env b layout msg = Return (cleanreturn env 0 (raise b layout msg))"










subsection \<open>Binding with a parser\<close>

text \<open>\<^verbatim>\<open>struct _PyArg_Parser\<close> (\<^verbatim>\<open>capi/cpython-types.h\<close>).\<close>

record PyArg_Parser =
  parser_format :: "string option"
  parser_keywords :: "string list"
  parser_fname :: "string option"
  parser_custom_msg :: "string option"
  parser_pos :: int
  parser_min :: int
  parser_max :: int

text \<open>
  The loop of \<^verbatim>\<open>parserInit\<close> over the \<open>k\<close> items from item \<open>i\<close> on: the message of
  a SystemError, or the format behind the items with the least and the greatest number
  of positional arguments.
\<close>

fun parserInit_loop ::
  "nat \<Rightarrow> int \<Rightarrow> int \<Rightarrow> int \<Rightarrow> string \<Rightarrow> int \<Rightarrow> int \<Rightarrow> (string + string \<times> int \<times> int) run" where
  "parserInit_loop 0 i pos len format minargs maxargs = Returns (Inr (format, minargs, maxargs))"
| "parserInit_loop (Suc k) i pos len format minargs maxargs =
     (if peek format = CHR ''|'' \<and> minargs \<noteq> INT_MAX
      then Returns (Inl ''Invalid format string (| specified twice)'')
      else if peek format = CHR ''|'' \<and> maxargs \<noteq> INT_MAX
      then Returns (Inl ''Invalid format string ($ before |)'')
      else
        (let minargs1 = (if peek format = CHR ''|'' then i else minargs);
             format1 = (if peek format = CHR ''|'' then tl format else format)
         in
         if peek format1 = CHR ''$'' \<and> maxargs \<noteq> INT_MAX
         then Returns (Inl ''Invalid format string ($ specified twice)'')
         else if peek format1 = CHR ''$'' \<and> i < pos
         then Returns (Inl ''Empty parameter name after $'')
         else
           (let maxargs1 = (if peek format1 = CHR ''$'' then i else maxargs);
                format2 = (if peek format1 = CHR ''$'' then tl format1 else format1)
            in
            if IS_END_OF_FORMAT (peek format2)
            then Returns (Inl (''More keyword list entries ('' @ decimal len @
                               '') than format specifiers ('' @ decimal i @ '')''))
            else
              (case skipitem format2 None 0 of
                 Returns (None, format3, va) \<Rightarrow>
                   parserInit_loop k (i + 1) pos len format3 minargs1 maxargs1
               | Returns (Some msg, format3, va) \<Rightarrow>
                   Returns (Inl (msg @ '': '' @ quoted format2))
               | Fatal msg \<Rightarrow> Fatal msg
               | Undefined \<Rightarrow> Undefined))))"

definition parserInit :: "Thread \<Rightarrow> PyArg_Parser \<Rightarrow> (bool \<times> PyArg_Parser \<times> int \<times> Thread) run" where
  "parserInit thread parser =
     (let parser1 =
            (case parser_format parser of
               None \<Rightarrow> parser
             | Some format \<Rightarrow>
                 parser\<lparr>parser_fname := format_fname format,
                        parser_custom_msg := format_custom_msg format\<rparr>);
          pos = int (length (takeWhile (\<lambda>name. name = []) (parser_keywords parser)));
          len = int (length (parser_keywords parser));
          parser2 = parser1\<lparr>parser_pos := pos\<rparr>
      in
      if list_ex (\<lambda>name. name = []) (dropWhile (\<lambda>name. name = []) (parser_keywords parser))
      then Returns (False, parser2, 0,
                    raiseWithFmt thread kSystemError ''Empty keyword parameter name'')
      else
        (case parser_format parser of
           None \<Rightarrow> Returns (True, parser2, len - pos, thread)
         | Some format \<Rightarrow>
             (case parserInit_loop (nat len) 0 pos len format INT_MAX INT_MAX of
                Returns (Inl msg) \<Rightarrow>
                  Returns (False, parser2, 0, raiseWithFmt thread kSystemError msg)
              | Returns (Inr (format1, minargs, maxargs)) \<Rightarrow>
                  if \<not> IS_END_OF_FORMAT (peek format1) \<and> peek format1 \<noteq> CHR ''|'' \<and>
                     peek format1 \<noteq> CHR ''$''
                  then Returns
                         (False,
                          parser2\<lparr>parser_min := min minargs len, parser_max := min maxargs len\<rparr>,
                          0,
                          raiseWithFmt thread kSystemError
                            (''more argument specifiers than keyword list entries '' @
                             ''(remaining format:'' @ quoted format1 @ '')''))
                  else Returns
                         (True,
                          parser2\<lparr>parser_min := min minargs len, parser_max := min maxargs len\<rparr>,
                          len - pos, thread)
              | Fatal msg \<Rightarrow> Fatal msg
              | Undefined \<Rightarrow> Undefined)))"

text \<open>
  \<^verbatim>\<open>findKeyword\<close> over the names of the keyword arguments of a call on the stack, each
  with its value; a name that is not a string is passed over.
\<close>

fun findKeyword :: "(pyobj \<times> pyobj) list \<Rightarrow> string \<Rightarrow> pyobj option" where
  "findKeyword [] key = None"
| "findKeyword ((kwname, v) # kwnames) key =
     (if \<not> PyUnicode_Check kwname then findKeyword kwnames key
      else if PyUnicode_EqualToASCIIString kwname key then Some v
      else findKeyword kwnames key)"

definition isValidKeyword :: "PyArg_Parser \<Rightarrow> int \<Rightarrow> pyobj \<Rightarrow> bool" where
  "isValidKeyword parser num_keywords key =
     list_ex (\<lambda>name. PyUnicode_EqualToASCIIString key name)
       (take (nat num_keywords) (drop (nat (parser_pos parser)) (parser_keywords parser)))"

text \<open>The state of the loop of \<^verbatim>\<open>vGetArgsKeywordsFastImpl\<close>.\<close>

record fastloop =
  fast_format :: string
  fast_num_keywords :: int
  fast_binding :: binding

definition vGetArgsKeywordsFastImpl_round ::
  "Env \<Rightarrow> pyobj list \<Rightarrow> (pyobj \<times> pyobj) list option \<Rightarrow> (pyobj \<times> pyobj) list option
     \<Rightarrow> PyArg_Parser \<Rightarrow> int \<Rightarrow> int \<Rightarrow> fastloop \<Rightarrow> fastloop round" where
  "vGetArgsKeywordsFastImpl_round env args keywords kwnames parser i flags s =
     (let keyword = (if parser_pos parser \<le> i then parser_keywords parser ! nat i else []);
          format1 = (if peek (fast_format s) = CHR ''|'' then tl (fast_format s)
                     else fast_format s);
          format2 = (if peek format1 = CHR ''$'' then tl format1 else format1);
          found = (if fast_num_keywords s \<noteq> 0 \<and> parser_pos parser \<le> i
                   then (case keywords of
                           Some kvs \<Rightarrow> PyDict_GetItemString kvs keyword
                         | None \<Rightarrow>
                             (case kwnames of
                                Some names \<Rightarrow> findKeyword names keyword
                              | None \<Rightarrow> None))
                   else None)
      in
      if found = None \<and> fast_num_keywords s \<noteq> 0 \<and> parser_pos parser \<le> i \<and>
         keywords \<noteq> None \<and> PyErr_Occurred (fast_binding s)
      then Return (cleanreturn env 0 (fast_binding s))
      else if found \<noteq> None \<and> i < int (length args)
      then fail env (fast_binding s) kTypeError (given_by_name_and_position keyword i)
      else
        (case (case found of
                 Some current_arg \<Rightarrow> Some current_arg
               | None \<Rightarrow> if i < int (length args) then Some (args ! nat i) else None) of
           Some current_arg \<Rightarrow>
             (case convertitem env 32 current_arg format2 flags 512 (fast_binding s) of
                Returns (None, fmt1, levels, b1) \<Rightarrow>
                  Continue (s\<lparr>fast_format := fmt1,
                               fast_num_keywords :=
                                 (if found \<noteq> None then fast_num_keywords s - 1
                                  else fast_num_keywords s),
                               fast_binding := b1\<rparr>)
              | Returns (Some msg, fmt1, levels, b1) \<Rightarrow>
                  Return (cleanreturn env 0
                            (b1\<lparr>cur_thread :=
                                  seterror (i + 1) msg levels (parser_fname parser)
                                    (parser_custom_msg parser) (cur_thread b1)\<rparr>))
              | Fatal msg \<Rightarrow> Return (Fatal msg)
              | Undefined \<Rightarrow> Return Undefined)
         | None \<Rightarrow>
             if i < parser_min parser
             then (if i < parser_pos parser
                   then fail env (fast_binding s) kTypeError
                          (takes_positional
                             (if min (parser_pos parser) (parser_min parser) < parser_max parser
                              then ''at least'' else ''exactly'')
                             (min (parser_pos parser) (parser_min parser)) (int (length args)))
                   else fail env (fast_binding s) kTypeError
                          (required_argument_not_found keyword i))
             else if fast_num_keywords s = 0
             then Return (cleanreturn env 1 (fast_binding s))
             else
               (case skipitem format2 (Some (p_va (fast_binding s))) flags of
                  Returns (None, fmt1, va1) \<Rightarrow>
                    Continue (s\<lparr>fast_format := fmt1,
                                 fast_binding :=
                                   (fast_binding s)
                                     \<lparr>p_va := (case va1 of None \<Rightarrow> [] | Some va \<Rightarrow> va)\<rparr>\<rparr>)
                | Returns (Some msg, fmt1, va1) \<Rightarrow>
                    Continue (s\<lparr>fast_format := format2,
                                 fast_binding :=
                                   (fast_binding s)
                                     \<lparr>p_va := (case va1 of None \<Rightarrow> [] | Some va \<Rightarrow> va)\<rparr>\<rparr>)
                | Fatal msg \<Rightarrow> Return (Fatal msg)
                | Undefined \<Rightarrow> Return Undefined)))"

fun vGetArgsKeywordsFastImpl_loop ::
  "Env \<Rightarrow> pyobj list \<Rightarrow> (pyobj \<times> pyobj) list option \<Rightarrow> (pyobj \<times> pyobj) list option
     \<Rightarrow> PyArg_Parser \<Rightarrow> nat \<Rightarrow> int \<Rightarrow> int \<Rightarrow> fastloop \<Rightarrow> (int \<times> binding) run + fastloop" where
  "vGetArgsKeywordsFastImpl_loop env args keywords kwnames parser 0 i flags s = Inr s"
| "vGetArgsKeywordsFastImpl_loop env args keywords kwnames parser (Suc k) i flags s =
     (case vGetArgsKeywordsFastImpl_round env args keywords kwnames parser i flags s of
        Return r \<Rightarrow> Inl r
      | Break s1 \<Rightarrow> Inr s1
      | Continue s1 \<Rightarrow>
          vGetArgsKeywordsFastImpl_loop env args keywords kwnames parser k (i + 1) flags s1)"

text \<open>
  The check of \<^verbatim>\<open>vGetArgsKeywordsFastImpl\<close> for keyword arguments that no item has taken:
  one loop over the dictionary \<^verbatim>\<open>keywords\<close>, another over the tuple \<^verbatim>\<open>kwnames\<close>. For
  a key of the dictionary that is no keyword of the parser, \<^verbatim>\<open>PyErr_Format\<close> receives the
  key object for the directive \<^verbatim>\<open>%s\<close>, which takes a C string: the text of the message
  is read from the handle of the object, and is not defined. The loop over \<^verbatim>\<open>kwnames\<close>
  formats the key with \<^verbatim>\<open>%U\<close>.
\<close>

fun extraneous_keywords_fast ::
  "Env \<Rightarrow> (pyobj \<times> pyobj) list \<Rightarrow> PyArg_Parser \<Rightarrow> int \<Rightarrow> binding \<Rightarrow> (int \<times> binding) run" where
  "extraneous_keywords_fast env [] parser keyword_count b = cleanreturn env 1 b"
| "extraneous_keywords_fast env ((key, v) # keywords) parser keyword_count b =
     (if \<not> PyUnicode_Check key
      then cleanreturn env 0 (raise b kTypeError ''keywords must be strings'')
      else if \<not> isValidKeyword parser keyword_count key
      then Undefined
      else extraneous_keywords_fast env keywords parser keyword_count b)"

fun extraneous_kwnames_fast ::
  "Env \<Rightarrow> (pyobj \<times> pyobj) list \<Rightarrow> PyArg_Parser \<Rightarrow> int \<Rightarrow> binding \<Rightarrow> (int \<times> binding) run" where
  "extraneous_kwnames_fast env [] parser keyword_count b = cleanreturn env 1 b"
| "extraneous_kwnames_fast env ((key, v) # kwnames) parser keyword_count b =
     (if \<not> PyUnicode_Check key
      then cleanreturn env 0 (raise b kTypeError ''keywords must be strings'')
      else if \<not> isValidKeyword parser keyword_count key
      then cleanreturn env 0 (raise b kTypeError (invalid_keyword key))
      else extraneous_kwnames_fast env kwnames parser keyword_count b)"

definition vGetArgsKeywordsFastImpl ::
  "Env \<Rightarrow> Thread \<Rightarrow> pyobj list \<Rightarrow> (pyobj \<times> pyobj) list option \<Rightarrow> (pyobj \<times> pyobj) list option
     \<Rightarrow> PyArg_Parser \<Rightarrow> va_arg list \<Rightarrow> int \<Rightarrow> (int \<times> binding) run" where
  "vGetArgsKeywordsFastImpl env thread args keywords kwnames parser0 va flags =
     (case parserInit thread parser0 of
        Returns (False, parser, keyword_count, thread1) \<Rightarrow> Returns (0, new_binding thread1 va)
      | Returns (True, parser, keyword_count, thread1) \<Rightarrow>
          (case freelist_init thread1 va (parser_pos parser + keyword_count) of
             Inl b \<Rightarrow> Returns (0, b)
           | Inr b \<Rightarrow>
               (let len = parser_pos parser + keyword_count;
                    num_keywords =
                      (case keywords of
                         Some kvs \<Rightarrow> int (length kvs)
                       | None \<Rightarrow> (case kwnames of Some names \<Rightarrow> int (length names) | None \<Rightarrow> 0))
                in
                if len < int (length args) + num_keywords
                then cleanreturn env 0
                       (raise b kTypeError
                          (takes_at_most (parser_fname parser) len
                             (int (length args) + num_keywords)))
                else if parser_max parser < int (length args)
                then cleanreturn env 0
                       (raise b kTypeError
                          (takes_positional
                             (if parser_min parser \<noteq> INT_MAX then ''at most'' else ''exactly'')
                             (parser_max parser) (int (length args))))
                else
                  (case parser_format parser of
                     None \<Rightarrow> Undefined
                   | Some format \<Rightarrow>
                       (case vGetArgsKeywordsFastImpl_loop env args keywords kwnames parser
                               (nat len) 0 flags
                               \<lparr>fast_format = format, fast_num_keywords = num_keywords,
                                fast_binding = b\<rparr> of
                          Inl r \<Rightarrow> r
                        | Inr s \<Rightarrow>
                            if 0 < fast_num_keywords s
                            then (case keywords of
                                    Some kvs \<Rightarrow>
                                      extraneous_keywords_fast env kvs parser keyword_count
                                        (fast_binding s)
                                  | None \<Rightarrow>
                                      extraneous_kwnames_fast env
                                        (case kwnames of Some names \<Rightarrow> names | None \<Rightarrow> [])
                                        parser keyword_count (fast_binding s))
                            else cleanreturn env 1 (fast_binding s)))))
      | Fatal msg \<Rightarrow> Fatal msg
      | Undefined \<Rightarrow> Undefined)"


definition PyArg_ParseStackAndKeywords ::
  "Env \<Rightarrow> Thread \<Rightarrow> pyobj list \<Rightarrow> (pyobj \<times> pyobj) list option \<Rightarrow> PyArg_Parser \<Rightarrow> va_arg list
     \<Rightarrow> (int \<times> binding) run" where
  "PyArg_ParseStackAndKeywords env thread args kwnames parser va =
     vGetArgsKeywordsFastImpl env thread args None kwnames parser va 0"

definition PyArg_ParseTupleAndKeywordsFast ::
  "Env \<Rightarrow> Thread \<Rightarrow> pyobj option \<Rightarrow> pyobj option \<Rightarrow> PyArg_Parser \<Rightarrow> va_arg list
     \<Rightarrow> (int \<times> binding) run" where
  "PyArg_ParseTupleAndKeywordsFast env thread args keywords parser va =
     (case (args, keywords) of
        (Some (TupleObj xs), None) \<Rightarrow> vGetArgsKeywordsFastImpl env thread xs None None parser va 0
      | (Some (TupleObj xs), Some (DictObj kvs)) \<Rightarrow>
          vGetArgsKeywordsFastImpl env thread xs (Some kvs) None parser va 0
      | _ \<Rightarrow>
          Returns (0, new_binding
                        (raiseWithFmt thread kSystemError ''bad argument to internal function'')
                        va))"


subsection \<open>Matched parentheses\<close>

text \<open>
  What the specification calls matched parentheses, stated on the descriptor alone: the
  number of parentheses that are open where the list of items ends (at the end of the
  string, at \<^verbatim>\<open>:\<close> or at \<^verbatim>\<open>;\<close>), or nothing when a closing parenthesis closes
  nothing. The parentheses of a descriptor are matched when \<open>paren_depth format 0 = Some 0\<close>.
\<close>

fun paren_depth :: "string \<Rightarrow> nat \<Rightarrow> nat option" where
  "paren_depth [] open_count = Some open_count"
| "paren_depth (c # format) open_count =
     (if c = CHR ''('' then paren_depth format (Suc open_count)
      else if c = CHR '')''
      then (case open_count of 0 \<Rightarrow> None | Suc n \<Rightarrow> paren_depth format n)
      else if c = CHR 0x00 \<or> c = CHR '':'' \<or> c = CHR '';'' then Some open_count
      else paren_depth format open_count)"

section \<open>Accounting of the blocks of a binding call\<close>

text \<open>
  The blocks that the entries of a cleanup list hold for \<^verbatim>\<open>cleanup_ptr\<close>: the blocks
  that a failing call frees.
\<close>

definition registered_blocks :: "freelistentry_t list \<Rightarrow> nat list" where
  "registered_blocks entries =
     concat (map (\<lambda>entry. case entry of
                            (Some ptr, cleanup_ptr) \<Rightarrow> [ptr]
                          | _ \<Rightarrow> [])
               entries)"

text \<open>
  The functions that a binding call receives from outside, the buffer slots of extension
  types and the converter functions of the caller, leave the blocks of \<^verbatim>\<open>PyMem_NEW\<close>
  as they find them.
\<close>

definition env_keeps_pymem :: "Env \<Rightarrow> bool" where
  "env_keeps_pymem env =
     ((\<forall>slots slot thread obj view flags.
         bf_getbuffer env slots = Some slot \<longrightarrow>
         pymem_blocks (snd (snd (slot thread obj view flags))) = pymem_blocks thread) \<and>
      (\<forall>slots slot thread obj view.
         bf_releasebuffer env slots = Some slot \<longrightarrow>
         pymem_blocks (snd (slot thread obj view)) = pymem_blocks thread) \<and>
      (\<forall>c thread arg addr.
         pymem_blocks (snd (converters env c thread arg addr)) = pymem_blocks thread))"

text \<open>
  The state of a binding call accounts for its blocks: no destructor has been called, and
  the live blocks of \<^verbatim>\<open>PyMem_NEW\<close> are those of before the call (\<open>before\<close>), those
  registered for \<^verbatim>\<open>cleanup_ptr\<close>, and the array of entries when it is allocated.
\<close>

definition accounted :: "Env \<Rightarrow> nat multiset \<Rightarrow> binding \<Rightarrow> bool" where
  "accounted env before b =
     (destructor_calls b = [] \<and>
      (env_keeps_pymem env \<longrightarrow>
         mset (pymem_blocks (cur_thread b)) =
           before + mset (registered_blocks (freelist_entries b)) +
           mset (case entries_malloced b of None \<Rightarrow> [] | Some entries \<Rightarrow> [entries])))"

section \<open>Properties of the integers of the runtime\<close>

lemma numDigits_pos: "1 \<le> numDigits v"
  by (subst numDigits.simps) simp

lemma numDigits_one_iff: "numDigits v = Suc 0 \<longleftrightarrow> fitsWord v"
proof
  assume a: "numDigits v = Suc 0"
  show "fitsWord v"
  proof (rule ccontr)
    assume nf: "\<not> fitsWord v"
    have "numDigits v = Suc (numDigits (v div 2 ^ 64))"
      by (subst numDigits.simps) (simp add: nf)
    with a numDigits_pos [of "v div 2 ^ 64"] show False by simp
  qed
next
  assume "fitsWord v"
  then show "numDigits v = Suc 0" by (subst numDigits.simps) simp
qed

lemma numDigits_gt_one_iff: "Suc 0 < numDigits v \<longleftrightarrow> \<not> fitsWord v"
  using numDigits_pos [of v] numDigits_one_iff [of v] by linarith

lemma sint_asWord: "fitsWord v \<Longrightarrow> sint (asWord v) = v"
  by (simp add: asWord_def fitsWord_def kMinWord_def kMaxWord_def int_word_sint)

lemma sint_asWordSaturated: "sint (asWordSaturated v) = max kMinWord (min kMaxWord v)"
proof (cases "fitsWord v")
  case True
  then have "sint (asWordSaturated v) = v"
    by (simp add: asWordSaturated_def numDigits_one_iff sint_asWord)
  with True show ?thesis by (simp add: fitsWord_def)
next
  case False
  have lo: "sint (word_of_int kMinWord :: 64 word) = kMinWord"
    by (simp add: kMinWord_def int_word_sint)
  have hi: "sint (word_of_int kMaxWord :: 64 word) = kMaxWord"
    by (simp add: kMaxWord_def int_word_sint)
  from False have "sint (asWordSaturated v) = (if v < 0 then kMinWord else kMaxWord)"
    by (simp add: asWordSaturated_def numDigits_one_iff isNegative_def lo hi)
  with False show ?thesis
    by (auto simp: fitsWord_def kMinWord_def kMaxWord_def)
qed

lemma intFromIndex_Value:
  assumes "intFromIndex thread obj = (Value num, thread1)"
  shows "thread1 = thread \<and> isInstanceOfInt num"
  using assms
  by (auto simp: intFromIndex_def invokeMethod1_def split: if_splits invoke.splits prod.splits)

section \<open>Length queries report negative and oversized lengths\<close>

lemma objectLength_negative:
  assumes "lookupMethod obj dunder_len = Value (IntObj v)" and "v < 0"
  shows "objectLength thread (Some obj) =
           (- 1, raiseWithFmt thread kValueError ''__len__() should return >= 0'')"
  using assms by (simp add: objectLength_def invokeMethod1_def intFromIndex_def isNegative_def)

lemma objectLength_overflow:
  assumes "lookupMethod obj dunder_len = Value (IntObj v)" and "0 \<le> v" and "\<not> fitsWord v"
  shows "objectLength thread (Some obj) =
           (- 1, raiseWithFmt thread kOverflowError (cannotFit (IntObj v)))"
  using assms
  by (simp add: objectLength_def invokeMethod1_def intFromIndex_def isNegative_def
                numDigits_gt_one_iff)

lemma objectLength_no_len:
  assumes "lookupMethod obj dunder_len = ErrorNotFound"
  shows "objectLength thread (Some obj) =
           (- 1, raiseWithFmt thread kTypeError ''object has no len()'')"
  using assms by (simp add: objectLength_def invokeMethod1_def)

text \<open>
  C7, as the code has it. For each of the generic length queries
  \<^verbatim>\<open>PyObject_Length\<close>, \<^verbatim>\<open>PySequence_Size\<close> and \<^verbatim>\<open>PyMapping_Size\<close>:
  when the operand's \<^verbatim>\<open>__len__\<close> returns a negative integer, the result is -1 and
  a ValueError is pending; when it returns a non-negative integer that does not fit a
  word, the result is -1 and an OverflowError is pending (nothing is truncated); when the
  operand has no \<^verbatim>\<open>__len__\<close>, the result is -1 and the TypeError
  "object has no len()" is pending. The sign is tested before the width, so the
  OverflowError is that of non-negative lengths only.
\<close>

theorem length_query_error_policy:
  "(lookupMethod obj dunder_len = Value (IntObj v) \<and> v < 0 \<longrightarrow>
      PyObject_Length thread (Some obj) =
        (- 1, raiseWithFmt thread kValueError ''__len__() should return >= 0'') \<and>
      PySequence_Size thread (Some obj) =
        (- 1, raiseWithFmt thread kValueError ''__len__() should return >= 0'') \<and>
      PyMapping_Size thread (Some obj) =
        (- 1, raiseWithFmt thread kValueError ''__len__() should return >= 0'')) \<and>
   (lookupMethod obj dunder_len = Value (IntObj v) \<and> 0 \<le> v \<and> \<not> fitsWord v \<longrightarrow>
      PyObject_Length thread (Some obj) =
        (- 1, raiseWithFmt thread kOverflowError (cannotFit (IntObj v))) \<and>
      PySequence_Size thread (Some obj) =
        (- 1, raiseWithFmt thread kOverflowError (cannotFit (IntObj v))) \<and>
      PyMapping_Size thread (Some obj) =
        (- 1, raiseWithFmt thread kOverflowError (cannotFit (IntObj v)))) \<and>
   (lookupMethod obj dunder_len = ErrorNotFound \<longrightarrow>
      PyObject_Length thread (Some obj) =
        (- 1, raiseWithFmt thread kTypeError ''object has no len()'') \<and>
      PySequence_Size thread (Some obj) =
        (- 1, raiseWithFmt thread kTypeError ''object has no len()'') \<and>
      PyMapping_Size thread (Some obj) =
        (- 1, raiseWithFmt thread kTypeError ''object has no len()''))"
  unfolding PyObject_Length_def PySequence_Size_def PyMapping_Size_def
  using objectLength_negative [of obj v thread] objectLength_overflow [of obj v thread]
        objectLength_no_len [of obj thread]
  by blast

theorem length_query_error_policy_witness:
  "PySequence_Size thread0
      (Some (Instance ''Neg'' [(dunder_len, Value (IntObj (- 1)))] None None)) =
     (- 1, thread0\<lparr>pending_exception := Some (Builtin kValueError, ''__len__() should return >= 0'')\<rparr>) \<and>
   PyObject_Length thread0
      (Some (Instance ''Big'' [(dunder_len, Value (IntObj (2 ^ 63)))] None None)) =
     (- 1, thread0\<lparr>pending_exception := Some (Builtin kOverflowError,
             ''cannot fit '' @ [CHR 0x27] @ ''int'' @ [CHR 0x27] @ '' into an index-sized integer'')\<rparr>) \<and>
   PyMapping_Size thread0 (Some NoneObj) =
     (- 1, thread0\<lparr>pending_exception := Some (Builtin kTypeError, ''object has no len()'')\<rparr>)"
  using length_query_error_policy
          [of "Instance ''Neg'' [(dunder_len, Value (IntObj (- 1)))] None None" "- 1"
              "thread0"]
        length_query_error_policy
          [of "Instance ''Big'' [(dunder_len, Value (IntObj (2 ^ 63)))] None None" "2 ^ 63"
              "thread0"]
        length_query_error_policy [of NoneObj 0 "thread0"]
  by (simp add: raiseWithFmt_def cannotFit_def fitsWord_def kMinWord_def kMaxWord_def)

text \<open>
  C7, as the claim states it, fails: a negative length whose magnitude does not fit a word
  raises the ValueError of negative lengths, not an OverflowError.
\<close>

theorem length_query_overflow_counterexample:
  "\<not> fitsWord (- (2 ^ 70)) \<and>
   PyObject_Length thread0
      (Some (Instance ''Huge'' [(dunder_len, Value (IntObj (- (2 ^ 70))))] None None)) =
     (- 1, thread0\<lparr>pending_exception := Some (Builtin kValueError, ''__len__() should return >= 0'')\<rparr>)"
  by (simp add: PyObject_Length_def objectLength_def invokeMethod1_def intFromIndex_def
                isNegative_def raiseWithFmt_def fitsWord_def kMinWord_def kMaxWord_def)

section \<open>Conversion of an index to a word saturates or raises\<close>

text \<open>
  C10. Let \<open>obj\<close> be index-like, with integer value \<open>v\<close>. When \<open>v\<close> fits a word,
  \<^verbatim>\<open>PyNumber_AsSsize_t\<close> returns \<open>v\<close> itself, with or without an overflow error
  type. When \<open>v\<close> does not fit: without an overflow error type the result is \<open>v\<close>
  clipped to the range of a word (the least word for a negative \<open>v\<close>, the greatest
  otherwise) and the thread is left as it was; with an overflow error type \<open>err\<close> the
  result is -1 and an exception of type \<open>err\<close> is pending.
\<close>

theorem PyNumber_AsSsize_t_clips_or_raises:
  assumes "intFromIndex thread obj = (Value num, thread1)"
  shows "PyNumber_AsSsize_t thread (Some obj) overflow_err =
           (if fitsWord (intUnderlying num) then (word_of_int (intUnderlying num), thread)
            else case overflow_err of
                   None \<Rightarrow>
                     (word_of_int (if intUnderlying num < 0 then kMinWord else kMaxWord), thread)
                 | Some err \<Rightarrow> (- 1, setPendingException thread err (cannotFit obj))) \<and>
         sint (word_of_int (max kMinWord (min kMaxWord (intUnderlying num))) :: 64 word) =
           max kMinWord (min kMaxWord (intUnderlying num)) \<and>
         (fitsWord (intUnderlying num) \<longleftrightarrow>
            max kMinWord (min kMaxWord (intUnderlying num)) = intUnderlying num)"
proof -
  from assms have t: "thread1 = thread" by (simp add: intFromIndex_Value)
  have clip: "fitsWord (max kMinWord (min kMaxWord (intUnderlying num)))"
    by (simp add: fitsWord_def kMinWord_def kMaxWord_def)
  have "PyNumber_AsSsize_t thread (Some obj) overflow_err =
          (if fitsWord (intUnderlying num) then (word_of_int (intUnderlying num), thread)
           else case overflow_err of
                  None \<Rightarrow>
                    (word_of_int (if intUnderlying num < 0 then kMinWord else kMaxWord), thread)
                | Some err \<Rightarrow> (- 1, setPendingException thread err (cannotFit obj)))"
    using assms t
    by (simp add: PyNumber_AsSsize_t_def asWordSaturated_def numDigits_one_iff asWord_def
                  isNegative_def split: option.splits)
  moreover have "sint (word_of_int (max kMinWord (min kMaxWord (intUnderlying num))) :: 64 word) =
                   max kMinWord (min kMaxWord (intUnderlying num))"
    using sint_asWord [OF clip] by (simp add: asWord_def)
  moreover have "fitsWord (intUnderlying num) \<longleftrightarrow>
                   max kMinWord (min kMaxWord (intUnderlying num)) = intUnderlying num"
    by (auto simp: fitsWord_def kMinWord_def kMaxWord_def)
  ultimately show ?thesis by blast
qed

theorem PyNumber_AsSsize_t_clips_or_raises_witness:
  "intFromIndex thread0 (IntObj (2 ^ 70)) =
     (Value (IntObj (2 ^ 70)), thread0) \<and>
   PyNumber_AsSsize_t thread0 (Some (IntObj (2 ^ 70))) None =
     (9223372036854775807, thread0) \<and>
   PyNumber_AsSsize_t thread0 (Some (IntObj (2 ^ 70)))
       (Some (Builtin kOverflowError)) =
     (- 1, thread0\<lparr>pending_exception := Some (Builtin kOverflowError,
             ''cannot fit '' @ [CHR 0x27] @ ''int'' @ [CHR 0x27] @ '' into an index-sized integer'')\<rparr>)"
proof -
  have h: "intFromIndex thread0 (IntObj (2 ^ 70)) =
             (Value (IntObj (2 ^ 70)), thread0)"
    by (simp add: intFromIndex_def)
  show ?thesis
    using h PyNumber_AsSsize_t_clips_or_raises [OF h, of None]
          PyNumber_AsSsize_t_clips_or_raises [OF h, of "Some (Builtin kOverflowError)"]
    by (simp add: fitsWord_def kMinWord_def kMaxWord_def setPendingException_def cannotFit_def)
qed

section \<open>The small-integer fast path of addition agrees with dispatch\<close>

lemma smallInt_sum:
  assumes "isSmallInt (IntObj a)" and "isSmallInt (IntObj b)"
  shows "newInt (SmallInt_value (IntObj a) + SmallInt_value (IntObj b)) = IntObj (a + b)"
proof -
  have "SmallInt_value (IntObj a) + SmallInt_value (IntObj b) = (word_of_int (a + b) :: 64 word)"
    by simp
  moreover have "sint (word_of_int (a + b) :: 64 word) = a + b"
    by (subst int_word_sint)
       (use assms in \<open>simp add: kSmallIntMinValue_def kSmallIntMaxValue_def\<close>)
  ultimately show ?thesis by (simp only: newInt_def)
qed

text \<open>
  C8. For two small integers \<^verbatim>\<open>PyNumber_Add\<close> returns a new reference to their exact sum
  (the sum of two 63-bit values does not wrap in a word) with no call into the runtime:
  the result is the same for every environment \<^verbatim>\<open>env\<close>, so whatever
  \<^verbatim>\<open>operator.add\<close> is bound to is never consulted. For every other pair of operands the
  fast path yields null and \<^verbatim>\<open>PyNumber_Add\<close> is the dispatch through
  \<^verbatim>\<open>doBinaryOp\<close>. Hence, if the runtime's \<^verbatim>\<open>operator.add\<close> returns the sum of two
  small integers, as the addition of integers does, \<^verbatim>\<open>PyNumber_Add\<close> returns for every
  pair of operands what the dispatch through \<^verbatim>\<open>doBinaryOp\<close> returns, with the same
  state of the thread.
\<close>

theorem PyNumber_Add_fast_path_agrees:
  "(isSmallInt (IntObj a) \<and> isSmallInt (IntObj b) \<longrightarrow>
      PyNumber_Add env thread (IntObj a) (IntObj b) = newReference thread (IntObj (a + b))) \<and>
   (\<not> (isSmallInt left \<and> isSmallInt right) \<longrightarrow>
      smallIntAdd thread left right = (None, thread) \<and>
      PyNumber_Add env thread left right = doBinaryOp env add thread left right) \<and>
   ((\<forall>t x y. isSmallInt (IntObj x) \<and> isSmallInt (IntObj y) \<longrightarrow>
        invokeFunction2 env add t (IntObj x) (IntObj y) = (Value (IntObj (x + y)), t)) \<longrightarrow>
      PyNumber_Add env thread left right = doBinaryOp env add thread left right)"
proof -
  have fast: "PyNumber_Add env thread (IntObj x) (IntObj y) = newReference thread (IntObj (x + y))"
    if "isSmallInt (IntObj x) \<and> isSmallInt (IntObj y)" for x y
    using that smallInt_sum [of x y]
    by (simp add: PyNumber_Add_def smallIntAdd_def newReference_def)
  have null: "smallIntAdd thread left right = (None, thread)"
    if "\<not> (isSmallInt left \<and> isSmallInt right)"
    using that by (auto simp: smallIntAdd_def)
  have slow: "PyNumber_Add env thread left right = doBinaryOp env add thread left right"
    if "\<not> (isSmallInt left \<and> isSmallInt right)"
    using null [OF that] by (simp add: PyNumber_Add_def)
  have agree: "PyNumber_Add env thread left right = doBinaryOp env add thread left right"
    if h: "\<forall>t x y. isSmallInt (IntObj x) \<and> isSmallInt (IntObj y) \<longrightarrow>
             invokeFunction2 env add t (IntObj x) (IntObj y) = (Value (IntObj (x + y)), t)"
  proof (cases "isSmallInt left \<and> isSmallInt right")
    case True
    then obtain x y where l: "left = IntObj x" and r: "right = IntObj y"
      by (cases left; cases right) auto
    with True have s: "isSmallInt (IntObj x) \<and> isSmallInt (IntObj y)" by simp
    from h s
    have g: "invokeFunction2 env add thread (IntObj x) (IntObj y) = (Value (IntObj (x + y)), thread)"
      by blast
    show ?thesis
      by (simp add: fast [OF s] g doBinaryOp_def l r)
  next
    case False
    then show ?thesis by (rule slow)
  qed
  from fast [of a b] null slow agree show ?thesis by blast
qed

theorem PyNumber_Add_fast_path_agrees_witness:
  "PyNumber_Add (env0\<lparr>invokeFunction2 := \<lambda>op t l r. (ErrorNotFound, t)\<rparr>) thread0 (IntObj 2) (IntObj 3) =
     (Some (IntObj 5), Py_INCREF thread0 (IntObj 5)) \<and>
   doBinaryOp (env0\<lparr>invokeFunction2 := \<lambda>op t l r. (ErrorNotFound, t)\<rparr>) add thread0 (IntObj 2) (IntObj 3) =
     (None, thread0) \<and>
   PyNumber_Add env0 thread0 (IntObj 2) (IntObj 3) = doBinaryOp env0 add thread0 (IntObj 2) (IntObj 3) \<and>
   doBinaryOp env0 add thread0 (IntObj 2) (IntObj 3) = (Some (IntObj 5), Py_INCREF thread0 (IntObj 5)) \<and>
   smallIntAdd thread0 (IntObj 2) (StrObj [97]) = (None, thread0) \<and>
   PyNumber_Add env0 thread0 (IntObj 2) (StrObj [97]) =
     doBinaryOp env0 add thread0 (IntObj 2) (StrObj [97])"
proof -
  have h: "\<forall>t x y. isSmallInt (IntObj x) \<and> isSmallInt (IntObj y) \<longrightarrow>
      invokeFunction2 env0 add t (IntObj x) (IntObj y) = (Value (IntObj (x + y)), t)"
    by (simp add: env0_def)
  have s: "isSmallInt (IntObj 2) \<and> isSmallInt (IntObj 3)"
    by (simp add: kSmallIntMinValue_def kSmallIntMaxValue_def)
  show ?thesis
    using PyNumber_Add_fast_path_agrees
            [of 2 3 "env0\<lparr>invokeFunction2 := \<lambda>op t l r. (ErrorNotFound, t)\<rparr>" thread0 "IntObj 2" "IntObj 3"]
          PyNumber_Add_fast_path_agrees [of 2 3 env0 thread0 "IntObj 2" "IntObj 3"]
          PyNumber_Add_fast_path_agrees [of 2 3 env0 thread0 "IntObj 2" "StrObj [97]"]
          h s
    by (simp add: doBinaryOp_def newReference_def)
qed

section \<open>Contiguity of buffer views\<close>

lemma strides_request_includes_shape:
  assumes "(flags AND PyBUF_STRIDES) = PyBUF_STRIDES"
  shows "(flags AND PyBUF_ND) = PyBUF_ND"
proof -
  have "flags AND (8::int) = flags AND (24 AND 8)" by simp
  also have "\<dots> = (flags AND 24) AND 8" by (simp only: and.assoc)
  also have "\<dots> = 24 AND 8" using assms by (simp add: PyBUF_STRIDES_def PyBUF_ND_def)
  finally show ?thesis by (simp add: PyBUF_ND_def)
qed

lemma FillInfo_contiguous:
  assumes "PyBuffer_FillInfo thread view exporter buf n readonly flags = (0, Some v, thread1)"
  shows "isContiguousWithRowMajorOrder v = Some True"
proof -
  from assms obtain v0 where v0: "view = Some v0"
    by (cases view) (auto simp: PyBuffer_FillInfo_def)
  from assms v0 have
    sub: "view_suboffsets v = NullPtr" and
    nd: "view_ndim v = 1" and
    it: "view_itemsize v = 1" and
    st: "view_strides v = (if (flags AND PyBUF_STRIDES) = PyBUF_STRIDES then AddrOfItemsize else NullPtr)" and
    sh: "view_shape v = (if (flags AND PyBUF_ND) = PyBUF_ND then AddrOfLen else NullPtr)"
    by (auto simp: PyBuffer_FillInfo_def split: if_splits)
  show ?thesis
  proof (cases "(flags AND PyBUF_STRIDES) = PyBUF_STRIDES")
    case True
    then have "(flags AND PyBUF_ND) = PyBUF_ND" by (rule strides_request_includes_shape)
    with True sub nd it st sh show ?thesis
      by (simp add: isContiguousWithRowMajorOrder_def read_ssize_def)
  next
    case False
    with sub st show ?thesis by (simp add: isContiguousWithRowMajorOrder_def)
  qed
qed

lemma GetBuffer_builtin_contiguous:
  assumes "typeSlots obj = None"
    and "PyObject_GetBuffer env thread obj view flags = (0, Some v, thread1)"
  shows "isContiguousWithRowMajorOrder v = Some True"
  using assms
  by (cases obj)
     (auto simp: PyObject_GetBuffer_def Let_def
           split: option.splits mv_buffer.splits prod.splits
           dest: FillInfo_contiguous)

lemma columnMajorLoop_reads:
  "columnMajorLoop view d k s = Some True \<Longrightarrow> d \<le> j \<Longrightarrow> j < d + k \<Longrightarrow>
   \<exists>z. read_ssize view (view_shape view) j = Some z \<and>
       (1 <s z \<longrightarrow> read_ssize view (view_strides view) j \<noteq> None)"
proof (induction k arbitrary: d s)
  case 0
  then show ?case by simp
next
  case (Suc k)
  show ?case
  proof (cases "j = d")
    case True
    with Suc.prems(1) show ?thesis by (auto split: option.splits if_splits)
  next
    case False
    with Suc.prems have "Suc d \<le> j" "j < Suc d + k" by simp_all
    moreover from Suc.prems(1) obtain s' where "columnMajorLoop view (Suc d) k s' = Some True"
      by (auto split: option.splits if_splits)
    ultimately show ?thesis using Suc.IH by blast
  qed
qed

lemma rowMajorLoop_defined:
  "(\<And>j. j < n \<Longrightarrow> \<exists>z. read_ssize view (view_shape view) j = Some z \<and>
       (1 <s z \<longrightarrow> read_ssize view (view_strides view) j \<noteq> None)) \<Longrightarrow>
   rowMajorLoop view n s \<noteq> None"
proof (induction n arbitrary: s)
  case 0
  then show ?case by simp
next
  case (Suc n)
  from Suc.prems [of n] obtain z where
    z: "read_ssize view (view_shape view) n = Some z"
       "1 <s z \<longrightarrow> read_ssize view (view_strides view) n \<noteq> None" by auto
  have "rowMajorLoop view n s' \<noteq> None" for s'
    using Suc.IH Suc.prems by simp
  with z show ?case by (auto split: option.splits)
qed

lemma column_major_row_defined:
  assumes "isContiguousWithColumnMajorOrder view = Some True"
  shows "isContiguousWithRowMajorOrder view \<noteq> None"
proof (cases "view_suboffsets view \<noteq> NullPtr \<or> view_strides view = NullPtr \<or> view_len view = 0")
  case True
  then show ?thesis by (auto simp: isContiguousWithRowMajorOrder_def)
next
  case False
  with assms have c: "columnMajorLoop view 0 (nat (view_ndim view)) (view_itemsize view) = Some True"
    by (simp add: isContiguousWithColumnMajorOrder_def)
  have "rowMajorLoop view (nat (view_ndim view)) (view_itemsize view) \<noteq> None"
    by (rule rowMajorLoop_defined) (use columnMajorLoop_reads [OF c] in simp)
  with False show ?thesis by (simp add: isContiguousWithRowMajorOrder_def)
qed

text \<open>
  C9. A view that \<^verbatim>\<open>PyObject_GetBuffer\<close> fills with success for an object of one of
  the runtime's own types (bytes, bytearray, memoryview, array: the types without native
  slots, whose buffers are contiguous and exported read-only) is contiguous in C order,
  whatever the request flags. For every view, \<^verbatim>\<open>PyBuffer_IsContiguous\<close> answers true
  for order \<^verbatim>\<open>'A'\<close> exactly when it answers true for order \<^verbatim>\<open>'C'\<close> or for order
  \<^verbatim>\<open>'F'\<close>.
\<close>

theorem buffer_contiguity:
  "(typeSlots obj = None \<and> PyObject_GetBuffer env thread obj view flags = (0, Some v, thread1) \<longrightarrow>
      PyBuffer_IsContiguous v CHR ''C'' = Some 1) \<and>
   (PyBuffer_IsContiguous w CHR ''A'' = Some 1 \<longleftrightarrow>
      PyBuffer_IsContiguous w CHR ''C'' = Some 1 \<or> PyBuffer_IsContiguous w CHR ''F'' = Some 1)"
proof -
  have one: "PyBuffer_IsContiguous v CHR ''C'' = Some 1"
    if "typeSlots obj = None \<and> PyObject_GetBuffer env thread obj view flags = (0, Some v, thread1)"
    using that GetBuffer_builtin_contiguous [of obj env thread view flags v thread1]
    by (simp add: PyBuffer_IsContiguous_def)
  have two: "PyBuffer_IsContiguous w CHR ''A'' = Some 1 \<longleftrightarrow>
      PyBuffer_IsContiguous w CHR ''C'' = Some 1 \<or> PyBuffer_IsContiguous w CHR ''F'' = Some 1"
    using column_major_row_defined [of w]
    by (cases "isContiguousWithRowMajorOrder w"; cases "isContiguousWithColumnMajorOrder w")
       (auto simp: PyBuffer_IsContiguous_def split: bool.splits)
  from one two show ?thesis by blast
qed

theorem buffer_contiguity_witness:
  "fst (PyObject_GetBuffer env0 thread0 (BytesObj [1, 2, 3]) (Some view0) PyBUF_STRIDES) = 0 \<and>
   PyBuffer_IsContiguous
     (the (fst (snd (PyObject_GetBuffer env0 thread0 (BytesObj [1, 2, 3]) (Some view0) PyBUF_STRIDES))))
     CHR ''C'' = Some 1"
proof -
  obtain v t where g: "PyObject_GetBuffer env0 thread0 (BytesObj [1, 2, 3]) (Some view0) PyBUF_STRIDES = (0, Some v, t)"
    by (simp add: PyObject_GetBuffer_def env0_def PyBuffer_FillInfo_def PyBUF_STRIDES_def
                  PyBUF_ND_def PyBUF_WRITABLE_def)
  have s: "typeSlots (BytesObj [1, 2, 3]) = None" by simp
  show ?thesis
    using buffer_contiguity [of "BytesObj [1, 2, 3]" env0 thread0 "Some view0" PyBUF_STRIDES v t] g s
    by simp
qed

section \<open>Basic facts about the argument binding\<close>

lemma thread0_clear: "\<not> hasPendingException thread0"
  by (simp add: hasPendingException_def thread0_def)

lemma cleanreturn_new:
  "cleanreturn env rc (raise (new_binding thread va) layout msg) =
     Returns (rc, raise (new_binding thread va) layout msg)"
  by (simp add: cleanreturn_def raise_def new_binding_def)

lemma decimal_small: "0 \<le> n \<Longrightarrow> n < 10 \<Longrightarrow> decimal n = [''0123456789'' ! nat n]"
  by (simp add: decimal_def digits.simps)

lemma cleanreturn_rc: "cleanreturn env rc b = Returns (rc', b') \<Longrightarrow> rc' = rc"
  by (auto simp: cleanreturn_def split: run.splits option.splits if_splits)

lemma sint_word_of_int_fits: "fitsWord v \<Longrightarrow> sint (word_of_int v :: 64 word) = v"
  by (simp add: fitsWord_def kMinWord_def kMaxWord_def int_word_sint)

lemma int_range_fits: "INT_MIN \<le> v \<Longrightarrow> v \<le> INT_MAX \<Longrightarrow> fitsWord v"
  by (simp add: INT_MIN_def INT_MAX_def fitsWord_def kMinWord_def kMaxWord_def)

lemma convertsimple_i_int:
  assumes "p_va b = VaPointer (Some p) # va'" and "INT_MIN \<le> v" and "v \<le> INT_MAX"
    and "\<not> PyErr_Occurred b"
  shows "convertsimple_i (IntObj v) fmt b =
           Returns (None, fmt,
             b\<lparr>p_va := va', cur_thread := store (cur_thread b) p (IntCell (word_of_int v))\<rparr>)"
proof -
  have f: "fitsWord v" using assms by (simp add: int_range_fits)
  have s: "sint (word_of_int v :: 64 word) = v" using f by (rule sint_word_of_int_fits)
  have hi: "\<not> (word_of_int INT_MAX :: 64 word) <s word_of_int v"
    using assms s by (simp add: word_sless_alt INT_MAX_def int_word_sint)
  have lo: "\<not> (word_of_int v :: 64 word) <s word_of_int INT_MIN"
    using assms s by (simp add: word_sless_alt INT_MIN_def int_word_sint)
  have u: "(ucast (word_of_int v :: 64 word) :: 32 word) = word_of_int v"
    by (rule bit_word_eqI) (auto simp: bit_simps)
  show ?thesis
    using assms f hi lo u
    by (simp add: convertsimple_i_def va_arg_pointer_def float_argument_error_def call_long_def
          PyLong_AsLong_def intFromIndex_def PyErr_Occurred_def assign_and_break_def assign_def)
qed

lemma convertitem_i_int:
  assumes "p_va b = VaPointer (Some p) # va'" and "INT_MIN \<le> v" and "v \<le> INT_MAX"
    and "\<not> PyErr_Occurred b"
  shows "convertitem env cap (IntObj v) (CHR ''i'' # fmt) flags bufsize b =
           Returns (None, fmt, [],
             b\<lparr>p_va := va', cur_thread := store (cur_thread b) p (IntCell (word_of_int v))\<rparr>)"
  using convertsimple_i_int [OF assms, of fmt]
  by (simp add: peek_def convertsimple_def convertsimple_switch_def after_simple_def)

lemma PyErr_Occurred_store [simp]:
  "PyErr_Occurred (b\<lparr>p_va := va, cur_thread := store (cur_thread b) p c\<rparr>) = PyErr_Occurred b"
  by (simp add: PyErr_Occurred_def hasPendingException_def store_def)





section \<open>The loop over the keyword list\<close>



section \<open>The arity boundary of a positional binding\<close>

lemma scan_iii: "scan_format ''ii|i'' 0 0 (- 1) = Returns (None, None, 0, 3, 2)"
  by (simp add: Py_ISALPHA_def)

lemma scan_iii_named: "scan_format (''ii|i:'' @ name) 0 0 (- 1) = Returns (Some name, None, 0, 3, 2)"
  by (simp add: Py_ISALPHA_def)

lemma arity_outside:
  assumes "scan_format format 0 0 (- 1) = Returns (fname, None, 0, 3, 2)"
    and "length stack < 2 \<or> 3 < length stack"
  shows "vGetArgs1Impl env thread compat_args stack format va 0 =
     Returns (0, raise (new_binding thread va) kTypeError
       (arity_msg fname 2 3 (int (length stack))))"
  using assms
  by (auto simp add: vGetArgs1Impl_def freelist_init_def STATIC_FREELIST_ENTRIES_def FLAG_COMPAT_def
        cleanreturn_new simp del: scan_format.simps)

lemma arity_msg_few: "n < 2 \<Longrightarrow> arity_msg fname 2 3 n = function_name fname 150 @ '' takes at least 2 arguments ('' @ decimal n @ '' given)''"
  by (simp add: arity_msg_def decimal_small)

lemma arity_msg_many: "3 < n \<Longrightarrow> arity_msg fname 2 3 n = function_name fname 150 @ '' takes at most 3 arguments ('' @ decimal n @ '' given)''"
  by (simp add: arity_msg_def decimal_small)

lemma success_arity:
  assumes "vGetArgs1Impl env thread compat_args stack ''ii|i'' va 0 = Returns (1, b)"
  shows "length stack = 2 \<or> length stack = 3"
proof (rule ccontr)
  assume "\<not> (length stack = 2 \<or> length stack = 3)"
  then have "length stack < 2 \<or> 3 < length stack" by linarith
  from arity_outside [OF scan_iii this] assms show False by simp
qed

lemma bind_two_ints:
  assumes "\<not> hasPendingException thread"
    and "INT_MIN \<le> a" "a \<le> INT_MAX" "INT_MIN \<le> b" "b \<le> INT_MAX"
  shows "vGetArgs1Impl env thread compat_args [IntObj a, IntObj b] ''ii|i''
           (VaPointer (Some p) # VaPointer (Some q) # va) 0 =
         Returns (1, new_binding
                       (store (store thread p (IntCell (word_of_int a))) q (IntCell (word_of_int b)))
                       va)"
proof -
  let ?b0 = "new_binding thread (VaPointer (Some p) # VaPointer (Some q) # va)"
  let ?b1 = "?b0\<lparr>p_va := VaPointer (Some q) # va,
                  cur_thread := store (cur_thread ?b0) p (IntCell (word_of_int a))\<rparr>"
  let ?b2 = "?b1\<lparr>p_va := va, cur_thread := store (cur_thread ?b1) q (IntCell (word_of_int b))\<rparr>"
  have e0: "\<not> PyErr_Occurred ?b0"
    using assms(1) by (simp add: PyErr_Occurred_def new_binding_def)
  have c1: "convertitem env 32 (IntObj a) ''ii|i'' 0 256 ?b0 = Returns (None, ''i|i'', [], ?b1)"
    by (rule convertitem_i_int) (use assms e0 in \<open>simp_all add: new_binding_def\<close>)
  have e1: "\<not> PyErr_Occurred ?b1" using e0 by simp
  have c2: "convertitem env 32 (IntObj b) ''i|i'' 0 256 ?b1 = Returns (None, ''|i'', [], ?b2)"
    by (rule convertitem_i_int) (use assms e1 in \<open>simp_all add: new_binding_def\<close>)
  have loop: "convert_arguments env [IntObj a, IntObj b] 0 ''ii|i'' 0 None None ?b0 =
                Returns (Inl (''|i'', ?b2))"
    using c1 c2 by (simp add: peek_def)
  have fin: "cleanreturn env 1 ?b2 = Returns (1, ?b2)"
    by (simp add: cleanreturn_def new_binding_def)
  have "vGetArgs1Impl env thread compat_args [IntObj a, IntObj b] ''ii|i''
           (VaPointer (Some p) # VaPointer (Some q) # va) 0 = Returns (1, ?b2)"
    using loop fin
    by (simp add: vGetArgs1Impl_def scan_iii freelist_init_def STATIC_FREELIST_ENTRIES_def FLAG_COMPAT_def
          peek_def del: scan_format.simps convert_arguments.simps)
  then show ?thesis by (simp add: new_binding_def)
qed

lemma bind_three_ints:
  assumes "\<not> hasPendingException thread"
    and "INT_MIN \<le> a" "a \<le> INT_MAX" "INT_MIN \<le> b" "b \<le> INT_MAX"
    and "INT_MIN \<le> c" "c \<le> INT_MAX"
  shows "vGetArgs1Impl env thread compat_args [IntObj a, IntObj b, IntObj c] ''ii|i''
           (VaPointer (Some p) # VaPointer (Some q) # VaPointer (Some r) # va) 0 =
         Returns (1, new_binding
                       (store (store (store thread p (IntCell (word_of_int a)))
                                q (IntCell (word_of_int b)))
                          r (IntCell (word_of_int c)))
                       va)"
proof -
  let ?b0 = "new_binding thread (VaPointer (Some p) # VaPointer (Some q) # VaPointer (Some r) # va)"
  let ?b1 = "?b0\<lparr>p_va := VaPointer (Some q) # VaPointer (Some r) # va,
                  cur_thread := store (cur_thread ?b0) p (IntCell (word_of_int a))\<rparr>"
  let ?b2 = "?b1\<lparr>p_va := VaPointer (Some r) # va,
                  cur_thread := store (cur_thread ?b1) q (IntCell (word_of_int b))\<rparr>"
  let ?b3 = "?b2\<lparr>p_va := va, cur_thread := store (cur_thread ?b2) r (IntCell (word_of_int c))\<rparr>"
  have e0: "\<not> PyErr_Occurred ?b0"
    using assms(1) by (simp add: PyErr_Occurred_def new_binding_def)
  have c1: "convertitem env 32 (IntObj a) ''ii|i'' 0 256 ?b0 = Returns (None, ''i|i'', [], ?b1)"
    by (rule convertitem_i_int) (use assms e0 in \<open>simp_all add: new_binding_def\<close>)
  have e1: "\<not> PyErr_Occurred ?b1" using e0 by simp
  have c2: "convertitem env 32 (IntObj b) ''i|i'' 0 256 ?b1 = Returns (None, ''|i'', [], ?b2)"
    by (rule convertitem_i_int) (use assms e1 in \<open>simp_all add: new_binding_def\<close>)
  have e2: "\<not> PyErr_Occurred ?b2"
    using assms(1) by (simp add: PyErr_Occurred_def new_binding_def hasPendingException_def store_def)
  have c3: "convertitem env 32 (IntObj c) ''i'' 0 256 ?b2 = Returns (None, [], [], ?b3)"
    by (rule convertitem_i_int) (use assms e2 in \<open>simp_all add: new_binding_def\<close>)
  have loop: "convert_arguments env [IntObj a, IntObj b, IntObj c] 0 ''ii|i'' 0 None None ?b0 =
                Returns (Inl ([], ?b3))"
    using c1 c2 c3 by (simp add: peek_def)
  have fin: "cleanreturn env 1 ?b3 = Returns (1, ?b3)"
    by (simp add: cleanreturn_def new_binding_def)
  have "vGetArgs1Impl env thread compat_args [IntObj a, IntObj b, IntObj c] ''ii|i''
           (VaPointer (Some p) # VaPointer (Some q) # VaPointer (Some r) # va) 0 = Returns (1, ?b3)"
    using loop fin
    by (simp add: vGetArgs1Impl_def scan_iii freelist_init_def STATIC_FREELIST_ENTRIES_def FLAG_COMPAT_def
          peek_def del: scan_format.simps convert_arguments.simps)
  then show ?thesis by (simp add: new_binding_def)
qed

text \<open>
  C5. The positional binding of the descriptor \<^verbatim>\<open>ii|i\<close>. With fewer than two values
  (so with one) it returns failure with the TypeError
  "function takes at least 2 arguments (n given)", with more than three (so with four)
  with "function takes at most 3 arguments (n given)", where n is the number of values;
  when the descriptor names the function (\<^verbatim>\<open>ii|i:name\<close>), the message starts with
  \<^verbatim>\<open>name()\<close> in place of the word "function". It returns success for two or three
  values only, and it does return success for two and for three integers in the range of
  a C int, each stored through the pointer given for it, when no exception is pending
  before.
\<close>

theorem arity_boundary:
  "(length stack < 2 \<longrightarrow>
      PyArg_ParseTuple env thread (Some (TupleObj stack)) ''ii|i'' va =
        Returns (0, raise (new_binding thread va) kTypeError
          (''function takes at least 2 arguments ('' @ decimal (int (length stack)) @ '' given)'')) \<and>
      PyArg_ParseTuple env thread (Some (TupleObj stack)) (''ii|i:'' @ name) va =
        Returns (0, raise (new_binding thread va) kTypeError
          (take 150 name @ ''() takes at least 2 arguments ('' @ decimal (int (length stack)) @
           '' given)''))) \<and>
   (3 < length stack \<longrightarrow>
      PyArg_ParseTuple env thread (Some (TupleObj stack)) ''ii|i'' va =
        Returns (0, raise (new_binding thread va) kTypeError
          (''function takes at most 3 arguments ('' @ decimal (int (length stack)) @ '' given)'')) \<and>
      PyArg_ParseTuple env thread (Some (TupleObj stack)) (''ii|i:'' @ name) va =
        Returns (0, raise (new_binding thread va) kTypeError
          (take 150 name @ ''() takes at most 3 arguments ('' @ decimal (int (length stack)) @
           '' given)''))) \<and>
   (PyArg_ParseTuple env thread (Some (TupleObj stack)) ''ii|i'' va = Returns (1, b1) \<longrightarrow>
      length stack = 2 \<or> length stack = 3) \<and>
   (\<not> hasPendingException thread \<and> INT_MIN \<le> a \<and> a \<le> INT_MAX \<and> INT_MIN \<le> b \<and> b \<le> INT_MAX \<longrightarrow>
      PyArg_ParseTuple env thread (Some (TupleObj [IntObj a, IntObj b])) ''ii|i''
          (VaPointer (Some p) # VaPointer (Some q) # va) =
        Returns (1, new_binding
                      (store (store thread p (IntCell (word_of_int a))) q (IntCell (word_of_int b)))
                      va)) \<and>
   (\<not> hasPendingException thread \<and> INT_MIN \<le> a \<and> a \<le> INT_MAX \<and> INT_MIN \<le> b \<and> b \<le> INT_MAX \<and>
    INT_MIN \<le> c \<and> c \<le> INT_MAX \<longrightarrow>
      PyArg_ParseTuple env thread (Some (TupleObj [IntObj a, IntObj b, IntObj c])) ''ii|i''
          (VaPointer (Some p) # VaPointer (Some q) # VaPointer (Some r) # va) =
        Returns (1, new_binding
                      (store (store (store thread p (IntCell (word_of_int a)))
                               q (IntCell (word_of_int b)))
                         r (IntCell (word_of_int c)))
                      va))"
proof -
  have few: "length stack < 2 \<Longrightarrow>
      PyArg_ParseTuple env thread (Some (TupleObj stack)) format va =
        Returns (0, raise (new_binding thread va) kTypeError
          (function_name fname 150 @ '' takes at least 2 arguments ('' @
           decimal (int (length stack)) @ '' given)''))"
    if "scan_format format 0 0 (- 1) = Returns (fname, None, 0, 3, 2)" for format fname
    using arity_outside [OF that, of stack env thread "Some (TupleObj stack)" va]
    by (simp add: PyArg_ParseTuple_def vgetargs1_def FLAG_COMPAT_def arity_msg_few)
  have many: "3 < length stack \<Longrightarrow>
      PyArg_ParseTuple env thread (Some (TupleObj stack)) format va =
        Returns (0, raise (new_binding thread va) kTypeError
          (function_name fname 150 @ '' takes at most 3 arguments ('' @
           decimal (int (length stack)) @ '' given)''))"
    if "scan_format format 0 0 (- 1) = Returns (fname, None, 0, 3, 2)" for format fname
    using arity_outside [OF that, of stack env thread "Some (TupleObj stack)" va]
    by (simp add: PyArg_ParseTuple_def vgetargs1_def FLAG_COMPAT_def arity_msg_many)
  have ok: "PyArg_ParseTuple env thread (Some (TupleObj stack)) ''ii|i'' va = Returns (1, b1) \<Longrightarrow>
      length stack = 2 \<or> length stack = 3"
    using success_arity [of env thread "Some (TupleObj stack)" stack va b1]
    by (simp add: PyArg_ParseTuple_def vgetargs1_def FLAG_COMPAT_def)
  have two: "\<not> hasPendingException thread \<and> INT_MIN \<le> a \<and> a \<le> INT_MAX \<and> INT_MIN \<le> b \<and> b \<le> INT_MAX \<Longrightarrow>
      PyArg_ParseTuple env thread (Some (TupleObj [IntObj a, IntObj b])) ''ii|i''
          (VaPointer (Some p) # VaPointer (Some q) # va) =
        Returns (1, new_binding
                      (store (store thread p (IntCell (word_of_int a))) q (IntCell (word_of_int b)))
                      va)"
    using bind_two_ints [of thread a b env _ p q va]
    by (simp add: PyArg_ParseTuple_def vgetargs1_def FLAG_COMPAT_def)
  have three: "\<not> hasPendingException thread \<and> INT_MIN \<le> a \<and> a \<le> INT_MAX \<and> INT_MIN \<le> b \<and> b \<le> INT_MAX \<and>
    INT_MIN \<le> c \<and> c \<le> INT_MAX \<Longrightarrow>
      PyArg_ParseTuple env thread (Some (TupleObj [IntObj a, IntObj b, IntObj c])) ''ii|i''
          (VaPointer (Some p) # VaPointer (Some q) # VaPointer (Some r) # va) =
        Returns (1, new_binding
                      (store (store (store thread p (IntCell (word_of_int a)))
                               q (IntCell (word_of_int b)))
                         r (IntCell (word_of_int c)))
                      va)"
    using bind_three_ints [of thread a b c env _ p q r va]
    by (simp add: PyArg_ParseTuple_def vgetargs1_def FLAG_COMPAT_def)
  from few [OF scan_iii] few [OF scan_iii_named] many [OF scan_iii] many [OF scan_iii_named]
       ok two three
  show ?thesis by (simp add: function_name_def)
qed

theorem arity_boundary_witness:
  "PyArg_ParseTuple env0 thread0 (Some (TupleObj [IntObj 1])) ''ii|i''
      [VaPointer (Some 100), VaPointer (Some 104), VaPointer (Some 108)] =
     Returns (0, raise (new_binding thread0
                          [VaPointer (Some 100), VaPointer (Some 104), VaPointer (Some 108)])
                   kTypeError ''function takes at least 2 arguments (1 given)'') \<and>
   PyArg_ParseTuple env0 thread0 (Some (TupleObj [IntObj 1, IntObj 2, IntObj 3, IntObj 4])) ''ii|i''
      [VaPointer (Some 100), VaPointer (Some 104), VaPointer (Some 108)] =
     Returns (0, raise (new_binding thread0
                          [VaPointer (Some 100), VaPointer (Some 104), VaPointer (Some 108)])
                   kTypeError ''function takes at most 3 arguments (4 given)'') \<and>
   PyArg_ParseTuple env0 thread0 (Some (TupleObj [IntObj 1, IntObj 2])) ''ii|i''
      [VaPointer (Some 100), VaPointer (Some 104), VaPointer (Some 108)] =
     Returns (1, new_binding (store (store thread0 100 (IntCell 1)) 104 (IntCell 2))
                   [VaPointer (Some 108)]) \<and>
   PyArg_ParseTuple env0 thread0 (Some (TupleObj [IntObj 1, IntObj 2, IntObj 3])) ''ii|i''
      [VaPointer (Some 100), VaPointer (Some 104), VaPointer (Some 108)] =
     Returns (1, new_binding
                   (store (store (store thread0 100 (IntCell 1)) 104 (IntCell 2)) 108 (IntCell 3))
                   [])"
  using arity_boundary [where stack = "[IntObj 1]" and env = env0 and thread = thread0
          and va = "[VaPointer (Some 100), VaPointer (Some 104), VaPointer (Some 108)]"
          and name = "[]" and a = 1 and b = 2 and c = 3 and p = 100 and q = 104 and r = 108]
        arity_boundary [where stack = "[IntObj 1, IntObj 2, IntObj 3, IntObj 4]" and env = env0
          and thread = thread0
          and va = "[VaPointer (Some 100), VaPointer (Some 104), VaPointer (Some 108)]"
          and name = "[]" and a = 1 and b = 2 and c = 3 and p = 100 and q = 104 and r = 108]
        arity_boundary [where stack = "[]" and env = env0 and thread = thread0
          and va = "[VaPointer (Some 108)]"
          and name = "[]" and a = 1 and b = 2 and c = 3 and p = 100 and q = 104 and r = 108]
        arity_boundary [where stack = "[]" and env = env0 and thread = thread0
          and va = "[]"
          and name = "[]" and a = 1 and b = 2 and c = 3 and p = 100 and q = 104 and r = 108]
  by (simp add: decimal_small thread0_clear INT_MIN_def INT_MAX_def)

section \<open>Nested tuples\<close>




lemma refcnt_restore [simp]: "Py_DECREF (Py_INCREF thread obj) obj = thread"
  by (simp add: Py_DECREF_def Py_INCREF_def)























section \<open>Malformed descriptors\<close>

lemma scan_depth:
  "scan_format format level mx mn =
     Fatal ''too many tuple nesting levels in argument format string'' \<or>
   (paren_depth format level = None \<and>
    scan_format format level mx mn =
      Fatal (''excess '' @ [CHR 0x27] @ '')'' @ [CHR 0x27] @ '' in getargs format'')) \<or>
   (\<exists>fname message l mx' mn'.
      paren_depth format level = Some l \<and>
      scan_format format level mx mn = Returns (fname, message, l, mx', mn'))"
proof (induction format arbitrary: level mx mn)
  case Nil
  show ?case by simp
next
  case (Cons c format)
  show ?case
  proof (cases "c = CHR ''(''")
    case True
    then show ?thesis
      using Cons.IH [of "Suc level" "if level = 0 then mx + 1 else mx" mn] by simp
  next
    case False
    note open_paren = this
    show ?thesis
    proof (cases "c = CHR '')''")
      case True
      show ?thesis
      proof (cases level)
        case 0
        then show ?thesis using True by simp
      next
        case (Suc l)
        then show ?thesis using True Cons.IH [of l mx mn] by simp
      qed
    next
      case False
      show ?thesis
      proof (cases "c = CHR 0x00 \<or> c = CHR '':'' \<or> c = CHR '';''")
        case True
        then show ?thesis using open_paren False by auto
      next
        case stop: False
        show ?thesis
        proof (cases "c = CHR ''|''")
          case True
          then show ?thesis
            using Cons.IH [of level mx "if level = 0 then mx else mn"] by simp
        next
          case bar: False
          show ?thesis
            using open_paren False stop bar
              Cons.IH [of level
                "if level = 0 \<and> Py_ISALPHA c \<and> c \<noteq> CHR ''e'' then mx + 1 else mx" mn]
            by simp
        qed
      qed
    qed
  qed
qed



lemma matched_scanned:
  assumes "paren_depth format 0 = Some 0"
  shows "scan_format format 0 0 (- 1) =
           Fatal ''too many tuple nesting levels in argument format string'' \<or>
         (\<exists>fname message mx mn. scan_format format 0 0 (- 1) = Returns (fname, message, 0, mx, mn))"
  using scan_depth [of format 0 0 "- 1"] assms by auto












section \<open>An item given by position and by name\<close>






















section \<open>The order of binding and of cleanup\<close>











end
